theory Spec2Isabelle
  imports Complex_Main "HOL-Library.Word" "HOL-Library.Sublist" "HOL-Library.Log_Nat"
begin

section \<open>Python and NumPy values\<close>

text \<open>
  The colorizer exists twice in the repository: the class \<^verbatim>\<open>PointCloudColorizer\<close> of
  \<^verbatim>\<open>archive/process_point_cloud_original_20250605.py\<close> and the module-level functions of
  \<^verbatim>\<open>scripts/process_point_cloud.py\<close>. The methods of the class keep their names here; the
  functions of the script carry the prefix \<open>script_\<close>.

  Coordinates and pixel values are Python and NumPy floats. They are modelled as real
  numbers: comparisons are exact, NaN and the infinities are left out. The arithmetic on
  coordinates is that of the reals; the arithmetic on pixel values is rounded to the
  float type of the array (\<open>round_f32\<close>, \<open>round_f64\<close>).
  Every exception the modelled code can raise is a value of \<open>error\<close>.
\<close>

datatype error =
    ValueError string
  | RuntimeError string error
  | IndexError
  | ZeroDivisionError
  | RecursionError
  | OverflowError
  | ProjError
  | DownloadError

type_synonym u16 = "16 word"

datatype level = INFO | WARNING | ERROR

type_synonym log = "(level \<times> string) list"

definition np_min :: "real list \<Rightarrow> error + real" where
  "np_min a = (if a = [] then Inl (ValueError ''zero-size array to reduction operation minimum which has no identity'')
               else Inr (Min (set a)))"

definition np_max :: "real list \<Rightarrow> error + real" where
  "np_max a = (if a = [] then Inl (ValueError ''zero-size array to reduction operation maximum which has no identity'')
               else Inr (Max (set a)))"

text \<open>\<^verbatim>\<open>np.sum(mask)\<close> of a boolean array: the number of true entries.\<close>

definition np_sum :: "bool list \<Rightarrow> nat" where
  "np_sum m = length (filter (\<lambda>b. b) m)"

text \<open>
  \<^verbatim>\<open>a[mask]\<close> with a boolean mask: the entries at the true positions, in order.
  NumPy raises IndexError when the mask is not as long as the array.
\<close>

definition bool_index :: "'a list \<Rightarrow> bool list \<Rightarrow> error + 'a list" where
  "bool_index a m = (if length m = length a then Inr (map fst (filter snd (zip a m)))
                     else Inl IndexError)"

text \<open>
  \<^verbatim>\<open>a[mask] = values\<close>: the true positions of \<open>a\<close> take the values in order; the
  callers below always pass as many values as the mask has true entries.
\<close>

fun mask_assign :: "'a list \<Rightarrow> bool list \<Rightarrow> 'a list \<Rightarrow> 'a list" where
  "mask_assign (c # cs) (True # ms) (v # vs) = v # mask_assign cs ms vs"
| "mask_assign (c # cs) (False # ms) vs = c # mask_assign cs ms vs"
| "mask_assign cs ms vs = cs"

text \<open>\<^verbatim>\<open>a[i:j] = v\<close> for \<open>i \<le> j \<le> len(a)\<close> and \<open>len(v) = j - i\<close>.\<close>

definition slice_assign :: "'a list \<Rightarrow> nat \<Rightarrow> nat \<Rightarrow> 'a list \<Rightarrow> 'a list" where
  "slice_assign a i j v = take i a @ v @ drop j a"

text \<open>\<^verbatim>\<open>a[i:j]\<close>.\<close>

definition slice :: "'a list \<Rightarrow> nat \<Rightarrow> nat \<Rightarrow> 'a list" where
  "slice a i j = take (j - i) (drop i a)"

text \<open>
  \<^verbatim>\<open>astype(np.uint16)\<close>. On an array of integers it keeps the low 16 bits of each value.
  On an array of floats it is the conversion of C, which truncates towards zero and on
  x86-64 goes through a signed 32-bit integer: the low 16 bits of the truncated value
  when that fits in 32 bits, and 0 when it does not.
\<close>

definition trunc :: "real \<Rightarrow> int" where
  "trunc r = (if 0 \<le> r then \<lfloor>r\<rfloor> else \<lceil>r\<rceil>)"

definition int_to_uint16 :: "real \<Rightarrow> u16" where
  "int_to_uint16 v = word_of_int \<lfloor>v\<rfloor>"

definition float_to_uint16 :: "real \<Rightarrow> u16" where
  "float_to_uint16 r =
     (let t = trunc r in if - 2147483648 \<le> t \<and> t \<le> 2147483647 then word_of_int t else 0)"

definition np_clip :: "real \<Rightarrow> real \<Rightarrow> real \<Rightarrow> real" where
  "np_clip v lo hi = min (max v lo) hi"

text \<open>
  Rounding to a binary float with \<open>p\<close> significant bits, to nearest, ties to even
  (normal range only): \<open>p = 24\<close> is \<^verbatim>\<open>np.float32\<close>, \<open>p = 53\<close> is \<^verbatim>\<open>np.float64\<close>.
\<close>

definition round_half_even :: "real \<Rightarrow> int" where
  "round_half_even q = (let f = \<lfloor>q\<rfloor>; r = q - of_int f in
     if r < 1 / 2 then f else if 1 / 2 < r then f + 1 else if even f then f else f + 1)"

definition pow2 :: "int \<Rightarrow> real" where
  "pow2 k = (if 0 \<le> k then 2 ^ nat k else 1 / 2 ^ nat (- k))"

definition float_exponent :: "real \<Rightarrow> int" where
  "float_exponent x = (let a = \<bar>x\<bar> in
     if 1 \<le> a then bitlen \<lfloor>a\<rfloor> - 1
     else (let k = bitlen \<lfloor>1 / a\<rfloor> - 1 in if a * pow2 k = 1 then - k else - k - 1))"

definition round_float :: "nat \<Rightarrow> real \<Rightarrow> real" where
  "round_float p x = (if x = 0 then 0
     else (let u = pow2 (float_exponent x - int p + 1) in of_int (round_half_even (x / u)) * u))"

definition round_f32 :: "real \<Rightarrow> real" where
  "round_f32 = round_float 24"

definition round_f64 :: "real \<Rightarrow> real" where
  "round_f64 = round_float 53"

section \<open>Data model\<close>

text \<open>
  A LAS point cloud as laspy presents it: a header and one array per dimension.
  \<open>las_dims\<close> holds the per-point dimensions other than the coordinates and the colours,
  by name (\<^verbatim>\<open>hasattr\<close> is membership of the domain, \<^verbatim>\<open>getattr\<close> the lookup); their values are
  integers, or floats for the GPS time and the waveform vector. \<open>h_point_format\<close> is the
  number of the point format, \<open>h_extra_dims\<close> the names of the extra-bytes dimensions that
  the file adds to it, and \<open>h_crs\<close> the CRS that the VLRs of the header describe. The header
  has the fields that the code reads or sets; those that laspy fills by itself when it
  makes a header (the creation date, the name of the software) are left out.
\<close>

record las_header =
  h_crs :: "string option"
  h_version :: string
  h_point_format :: nat
  h_extra_dims :: "string list"
  h_scales :: "real \<times> real \<times> real"
  h_offsets :: "real \<times> real \<times> real"
  h_vlrs :: "string list"

record las_data =
  las_header :: las_header
  las_x :: "real list"
  las_y :: "real list"
  las_z :: "real list"
  las_dims :: "string \<rightharpoonup> real list"
  las_red :: "u16 list"
  las_green :: "u16 list"
  las_blue :: "u16 list"

text \<open>\<^verbatim>\<open>len(las_data.points)\<close>.\<close>

definition num_points :: "las_data \<Rightarrow> nat" where
  "num_points las = length (las_x las)"

text \<open>
  The dimensions of the LAS point formats 0 to 10 under the names laspy gives them,
  without the coordinates and the colours: formats 0 to 5 share one layout, formats 6 to
  10 another; formats 1, 3, 4 and 5 add the GPS time, formats 4, 5, 9 and 10 the waveform
  packet, formats 8 and 10 the near infrared. Formats 2, 3, 5, 7, 8 and 10 have the
  colour dimensions \<^verbatim>\<open>red\<close>, \<^verbatim>\<open>green\<close>, \<^verbatim>\<open>blue\<close>.
\<close>

definition base_dimensions :: "string list" where
  "base_dimensions = [''intensity'', ''return_number'', ''number_of_returns'', ''scan_direction_flag'',
     ''edge_of_flight_line'', ''classification'', ''synthetic'', ''key_point'', ''withheld'',
     ''scan_angle_rank'', ''user_data'', ''point_source_id'']"

definition extended_dimensions :: "string list" where
  "extended_dimensions = [''intensity'', ''return_number'', ''number_of_returns'', ''synthetic'',
     ''key_point'', ''withheld'', ''overlap'', ''scanner_channel'', ''scan_direction_flag'',
     ''edge_of_flight_line'', ''classification'', ''user_data'', ''scan_angle'', ''point_source_id'',
     ''gps_time'']"

definition waveform_dimensions :: "string list" where
  "waveform_dimensions = [''wavepacket_index'', ''wavepacket_offset'', ''wavepacket_size'',
     ''return_point_wave_location'', ''x_t'', ''y_t'', ''z_t'']"

definition format_dimensions :: "nat \<Rightarrow> string list" where
  "format_dimensions fmt =
     (if fmt = 0 \<or> fmt = 2 then base_dimensions
      else if fmt = 1 \<or> fmt = 3 then base_dimensions @ [''gps_time'']
      else if fmt = 4 \<or> fmt = 5 then base_dimensions @ [''gps_time''] @ waveform_dimensions
      else if fmt = 6 \<or> fmt = 7 then extended_dimensions
      else if fmt = 8 then extended_dimensions @ [''nir'']
      else if fmt = 9 then extended_dimensions @ waveform_dimensions
      else if fmt = 10 then extended_dimensions @ [''nir''] @ waveform_dimensions
      else [])"

definition format_has_rgb :: "nat \<Rightarrow> bool" where
  "format_has_rgb fmt = (fmt \<in> {2, 3, 5, 7, 8, 10})"

text \<open>The dimensions of the points under a header: those of its format and the extra ones.\<close>

definition point_dimensions :: "las_header \<Rightarrow> string list" where
  "point_dimensions h = format_dimensions (h_point_format h) @ h_extra_dims h"

record bounds =
  left :: real
  bottom :: real
  right :: real
  top :: real

text \<open>The affine transform of a raster, \<^verbatim>\<open>Affine(a, b, c, d, e, f)\<close>; index 0 is \<open>a\<close>, index 4 is \<open>e\<close>.\<close>

record affine =
  af_a :: real
  af_b :: real
  af_c :: real
  af_d :: real
  af_e :: real
  af_f :: real

datatype dtype = UInt8 | UInt16 | Int16 | UInt32 | Int32 | Float32 | Float64

text \<open>\<^verbatim>\<open>a.astype(np.uint16)\<close> for an array \<open>a\<close> of type \<open>d\<close>, at one value.\<close>

fun astype_uint16 :: "dtype \<Rightarrow> real \<Rightarrow> u16" where
  "astype_uint16 Float32 v = float_to_uint16 v"
| "astype_uint16 Float64 v = float_to_uint16 v"
| "astype_uint16 d v = int_to_uint16 v"

fun dtype_name :: "dtype \<Rightarrow> string" where
  "dtype_name UInt8 = ''uint8''"
| "dtype_name UInt16 = ''uint16''"
| "dtype_name Int16 = ''int16''"
| "dtype_name UInt32 = ''uint32''"
| "dtype_name Int32 = ''int32''"
| "dtype_name Float32 = ''float32''"
| "dtype_name Float64 = ''float64''"

text \<open>
  A raster as rasterio presents it. All bands have the pixel type \<open>r_dtype\<close>
  (the code reads \<^verbatim>\<open>dtypes[0]\<close> only); \<open>r_read k row col\<close> is the value of band \<open>k\<close>
  (counted from 1) at a pixel.
\<close>

record raster =
  r_crs :: "string option"
  r_width :: nat
  r_height :: nat
  r_bounds :: bounds
  r_transform :: affine
  r_count :: nat
  r_dtype :: dtype
  r_read :: "nat \<Rightarrow> nat \<Rightarrow> nat \<Rightarrow> real"

text \<open>The values a pixel of each type can hold.\<close>

fun dtype_value :: "dtype \<Rightarrow> real \<Rightarrow> bool" where
  "dtype_value UInt8 v = (v \<in> \<int> \<and> 0 \<le> v \<and> v \<le> 255)"
| "dtype_value UInt16 v = (v \<in> \<int> \<and> 0 \<le> v \<and> v \<le> 65535)"
| "dtype_value Int16 v = (v \<in> \<int> \<and> - 32768 \<le> v \<and> v \<le> 32767)"
| "dtype_value UInt32 v = (v \<in> \<int> \<and> 0 \<le> v \<and> v \<le> 4294967295)"
| "dtype_value Int32 v = (v \<in> \<int> \<and> - 2147483648 \<le> v \<and> v \<le> 2147483647)"
| "dtype_value Float32 v = (round_f32 v = v)"
| "dtype_value Float64 v = (round_f64 v = v)"

section \<open>The configuration of a run and the external collaborators\<close>

text \<open>
  How NumPy types the product of an array and a Python integer. Up to NumPy 1 the value
  of the integer decides (value-based promotion): the product of a \<^verbatim>\<open>uint8\<close> array and 257
  is a \<^verbatim>\<open>uint16\<close> array. From NumPy 2 on the Python integer is weak (NEP 50): it is
  converted to the type of the array, and 257 does not fit \<^verbatim>\<open>uint8\<close>, so the product raises
  OverflowError. The source fixes no version of NumPy.
\<close>

datatype promotion = ValueBased | Weak

text \<open>
  What a run depends on besides its arguments is a field of \<open>world\<close>. The flag
  \<open>create_diagnostics\<close> is the attribute of that name of the colorizer object, set by its
  constructor, and \<open>numpy_promotion\<close> tells which NumPy the program runs on. The other
  fields are what the code calls but does not contain:
  \<^item> \<open>detect_point_cloud_crs\<close> is \<^verbatim>\<open>CRSUtils.detect_point_cloud_crs\<close> of the module
    \<^verbatim>\<open>utils\<close>, which gives the name of a CRS or nothing;
  \<^item> \<open>make_transformer\<close> is pyproj's \<^verbatim>\<open>Transformer.from_crs\<close> on \<^verbatim>\<open>CRS.from_string\<close> of both
    names; it fails on a CRS it does not know. A transformer maps each point on its own, and
    a call raises when one of its points cannot be transformed;
  \<^item> \<open>rowcol\<close> is \<^verbatim>\<open>rasterio.transform.rowcol\<close> at one point, giving (row, column);
  \<^item> \<open>random_choice n k\<close> is what the generator of NumPy draws for
    \<^verbatim>\<open>np.random.choice(n, k, replace=False)\<close> in this run (a call of \<^verbatim>\<open>colorize_point_cloud\<close>
    draws once at most);
  \<^item> \<open>fetch_corrected\<close> is the exchange with the imagery service of
    \<^verbatim>\<open>download_corrected_orthophoto\<close> followed by \<^verbatim>\<open>rasterio.open\<close> of the file: the answer to
    the \<open>n\<close>-th request of a run, for the requested bounds;
  \<^item> \<open>header_error version fmt\<close> is the exception, if any, with which laspy refuses a new
    header of that version and point format, and \<open>assign_error fmt name values\<close> the
    exception, if any, with which laspy refuses these values for the dimension \<open>name\<close> of
    point format \<open>fmt\<close> (a bit field holds small numbers only).
\<close>

type_synonym transformer = "real \<times> real \<Rightarrow> (real \<times> real) option"

record world =
  create_diagnostics :: bool
  numpy_promotion :: promotion
  detect_point_cloud_crs :: "las_data \<Rightarrow> string option"
  make_transformer :: "string \<Rightarrow> string \<Rightarrow> error + transformer"
  rowcol :: "affine \<Rightarrow> real \<Rightarrow> real \<Rightarrow> int \<times> int"
  random_choice :: "nat \<Rightarrow> nat \<Rightarrow> nat list"
  fetch_corrected :: "nat \<Rightarrow> bounds \<Rightarrow> error + raster"
  header_error :: "string \<Rightarrow> nat \<Rightarrow> error option"
  assign_error :: "nat \<Rightarrow> string \<Rightarrow> real list \<Rightarrow> error option"

text \<open>\<^verbatim>\<open>transformer.transform(xs, ys)\<close> on two arrays.\<close>

definition transformer_transform ::
  "transformer \<Rightarrow> real list \<Rightarrow> real list \<Rightarrow> error + (real list \<times> real list)" where
  "transformer_transform T bx by =
     (if length bx \<noteq> length by then Inl ProjError
      else if list_all (\<lambda>p. T p \<noteq> None) (zip bx by)
      then Inr (map (\<lambda>p. fst (the (T p))) (zip bx by), map (\<lambda>p. snd (the (T p))) (zip bx by))
      else Inl ProjError)"

section \<open>The archived colorizer: CRS resolution and coordinate transform\<close>

text \<open>
  Lines 233 to 269 of \<^verbatim>\<open>transform_point_cloud_to_ortho_crs\<close>: the guess of the source CRS
  from the coordinate ranges, in the order of the code.
\<close>

definition range_fallback_crs :: "real \<Rightarrow> real \<Rightarrow> real \<Rightarrow> real \<Rightarrow> error + string" where
  "range_fallback_crs x_min x_max y_min y_max =
     (if x_min < - 1000000 \<and> \<bar>x_min\<bar> < 20037508 \<and> y_min > 1000000 \<and> y_max < 20037508
      then Inr ''EPSG:3857''
      else if - 180 \<le> x_min \<and> x_min \<le> 180 \<and> - 90 \<le> y_min \<and> y_min \<le> 90
      then Inr ''EPSG:4326''
      else if 100000 < x_min \<and> x_min < 900000 \<and> 1000000 < y_min \<and> y_min < 10000000
      then Inr ''EPSG:26913''
      else Inl (ValueError ''Cannot determine point cloud CRS''))"

text \<open>Lines 229 to 269: the override, else the detected CRS, else the guess.\<close>

definition resolve_source_crs :: "world \<Rightarrow> las_data \<Rightarrow> string option \<Rightarrow> error + string" where
  "resolve_source_crs w las source_crs =
     (case (case source_crs of None \<Rightarrow> detect_point_cloud_crs w las | Some c \<Rightarrow> Some c) of
        Some c \<Rightarrow> Inr c
      | None \<Rightarrow>
          (case np_min (las_x las) of Inl e \<Rightarrow> Inl e | Inr x_min \<Rightarrow>
          (case np_max (las_x las) of Inl e \<Rightarrow> Inl e | Inr x_max \<Rightarrow>
          (case np_min (las_y las) of Inl e \<Rightarrow> Inl e | Inr y_min \<Rightarrow>
          (case np_max (las_y las) of Inl e \<Rightarrow> Inl e | Inr y_max \<Rightarrow>
             range_fallback_crs x_min x_max y_min y_max)))))"

definition batch_size :: nat where
  "batch_size = 500000"

text \<open>
  The loop \<^verbatim>\<open>for i in range(0, total_points, batch_size)\<close> of lines 294 to 303, from index
  \<open>i\<close> on; \<open>acc\<close> is the pair of result arrays filled so far.
\<close>

function transform_batches ::
  "transformer \<Rightarrow> nat \<Rightarrow> real list \<Rightarrow> real list \<Rightarrow> nat \<Rightarrow> real list \<times> real list
     \<Rightarrow> error + (real list \<times> real list)" where
  "transform_batches T bs x_coords y_coords i acc =
     (if bs = 0 then Inl (ValueError ''range() arg 3 must not be zero'')
      else if i < length x_coords then
        (let end_idx = min (i + bs) (length x_coords);
             batch_x = slice x_coords i end_idx;
             batch_y = slice y_coords i end_idx
         in case transformer_transform T batch_x batch_y of
              Inl e \<Rightarrow> Inl e
            | Inr tr \<Rightarrow> transform_batches T bs x_coords y_coords (i + bs)
                         (slice_assign (fst acc) i end_idx (fst tr),
                          slice_assign (snd acc) i end_idx (snd tr)))
      else Inr acc)"
  by pat_completeness auto
termination
  by (relation "measure (\<lambda>(T, bs, x_coords, y_coords, i, acc). length x_coords - i)") auto

declare transform_batches.simps [simp del]

definition transform_point_cloud_to_ortho_crs ::
  "world \<Rightarrow> las_data \<Rightarrow> string \<Rightarrow> string option \<Rightarrow> error + (real list \<times> real list)" where
  "transform_point_cloud_to_ortho_crs w las ortho_crs source_crs =
     (case resolve_source_crs w las source_crs of
        Inl e \<Rightarrow> Inl e
      | Inr src \<Rightarrow>
          (case make_transformer w src ortho_crs of
             Inl e \<Rightarrow> Inl (RuntimeError ''Coordinate transformation failed'' e)
           | Inr T \<Rightarrow>
               (case transform_batches T batch_size (las_x las) (las_y las) 0
                       (replicate (length (las_x las)) 0, replicate (length (las_y las)) 0) of
                  Inl e \<Rightarrow> Inl (RuntimeError ''Coordinate transformation failed'' e)
                | Inr r \<Rightarrow> Inr r)))"

section \<open>The archived colorizer: pixels, coverage and the corrected raster\<close>

text \<open>\<^verbatim>\<open>rasterio.transform.from_bounds(west, south, east, north, width, height)\<close>.\<close>

definition from_bounds :: "real \<Rightarrow> real \<Rightarrow> real \<Rightarrow> real \<Rightarrow> nat \<Rightarrow> nat \<Rightarrow> affine" where
  "from_bounds west south east north width height =
     \<lparr>af_a = (east - west) / real width, af_b = 0, af_c = west,
      af_d = 0, af_e = (south - north) / real height, af_f = north\<rparr>"

text \<open>Lines 458 to 460: the bounds of the transformed points.\<close>

definition transformed_bounds :: "real list \<Rightarrow> real list \<Rightarrow> error + bounds" where
  "transformed_bounds tx ty =
     (case np_min tx of Inl e \<Rightarrow> Inl e | Inr pc_x_min \<Rightarrow>
     (case np_max tx of Inl e \<Rightarrow> Inl e | Inr pc_x_max \<Rightarrow>
     (case np_min ty of Inl e \<Rightarrow> Inl e | Inr pc_y_min \<Rightarrow>
     (case np_max ty of Inl e \<Rightarrow> Inl e | Inr pc_y_max \<Rightarrow>
        Inr \<lparr>left = pc_x_min, bottom = pc_y_min, right = pc_x_max, top = pc_y_max\<rparr>))))"

text \<open>
  Lines 477 to 485: the overlap of the two bounds on each axis. Without overlap the code
  logs an analysis (lines 489 to 598), which raises nothing that it does not catch.
\<close>

definition bounds_overlap :: "bounds \<Rightarrow> bounds \<Rightarrow> bool \<times> bool" where
  "bounds_overlap pc ob =
     (\<not> (right pc < left ob \<or> left pc > right ob), \<not> (top pc < bottom ob \<or> bottom pc > top ob))"

text \<open>
  \<^verbatim>\<open>np.random.choice(n, k, replace=False)\<close>, which refuses a sample larger than the
  population, and \<^verbatim>\<open>a[indices]\<close> with an array of indices.
\<close>

definition np_random_choice :: "world \<Rightarrow> nat \<Rightarrow> nat \<Rightarrow> error + nat list" where
  "np_random_choice w n k =
     (if k > n then Inl (ValueError ''Cannot take a larger sample than population when replace is False'')
      else Inr (random_choice w n k))"

definition take_indices :: "'a list \<Rightarrow> nat list \<Rightarrow> error + 'a list" where
  "take_indices a indices =
     (if list_all (\<lambda>i. i < length a) indices then Inr (map (\<lambda>i. a ! i) indices) else Inl IndexError)"

text \<open>
  \<^verbatim>\<open>create_alignment_diagnostic\<close>: the content of the plot it saves, which is the random sample
  of at most 5000 transformed points and the number of them within the bounds of the
  raster. The drawing and the file are not modelled. The method returns nothing.
\<close>

record diagnostic =
  sample_x :: "real list"
  sample_y :: "real list"
  points_in_bounds :: nat

definition create_alignment_diagnostic ::
  "world \<Rightarrow> raster \<Rightarrow> real list \<Rightarrow> real list \<Rightarrow> error + diagnostic" where
  "create_alignment_diagnostic w ortho_dataset transformed_x transformed_y =
     (let ortho_bounds = r_bounds ortho_dataset;
          sample_size = min 5000 (length transformed_x)
      in case np_random_choice w (length transformed_x) sample_size of
           Inl e \<Rightarrow> Inl e
         | Inr sample_indices \<Rightarrow>
        (case take_indices transformed_x sample_indices of
           Inl e \<Rightarrow> Inl e
         | Inr sx \<Rightarrow>
        (case take_indices transformed_y sample_indices of
           Inl e \<Rightarrow> Inl e
         | Inr sy \<Rightarrow>
             Inr \<lparr>sample_x = sx, sample_y = sy,
                  points_in_bounds = np_sum (map (\<lambda>p. fst p \<ge> left ortho_bounds \<and> fst p \<le> right ortho_bounds \<and>
                                                       snd p \<ge> bottom ortho_bounds \<and> snd p \<le> top ortho_bounds)
                                                 (zip sx sy))\<rparr>)))"

text \<open>
  Lines 600 to 604: the plot is made when the colorizer was created with
  \<open>create_diagnostics\<close> or when the bounds do not overlap. The result is the list of the
  plots written by the call, none or one.
\<close>

definition diagnostic_step ::
  "world \<Rightarrow> raster \<Rightarrow> bounds \<Rightarrow> real list \<Rightarrow> real list \<Rightarrow> error + diagnostic list" where
  "diagnostic_step w ortho_dataset pcb transformed_x transformed_y =
     (let overlap = bounds_overlap pcb (r_bounds ortho_dataset)
      in if create_diagnostics w \<or> \<not> (fst overlap \<and> snd overlap)
         then (case create_alignment_diagnostic w ortho_dataset transformed_x transformed_y of
                 Inl e \<Rightarrow> Inl e
               | Inr d \<Rightarrow> Inr [d])
         else Inr [])"

text \<open>
  Lines 619 to 675: the check of the declared pixel size against the one the bounds give,
  the transform chosen, and the pixel indices of every point, as (rows, columns). The
  indices are kept as integers; their storage as \<^verbatim>\<open>int32\<close> is not modelled.
\<close>

definition transform_issues :: "raster \<Rightarrow> string list" where
  "transform_issues ortho =
     (let expected_pixel_width = (right (r_bounds ortho) - left (r_bounds ortho)) / real (r_width ortho);
          expected_pixel_height = (top (r_bounds ortho) - bottom (r_bounds ortho)) / real (r_height ortho)
      in (if \<bar>af_a (r_transform ortho) - expected_pixel_width\<bar> > expected_pixel_width * 0.1
          then [''X pixel size mismatch''] else [])
       @ (if \<bar>\<bar>af_e (r_transform ortho)\<bar> - expected_pixel_height\<bar> > expected_pixel_height * 0.1
          then [''Y pixel size mismatch''] else []))"

definition pixel_coordinates ::
  "world \<Rightarrow> raster \<Rightarrow> real list \<Rightarrow> real list \<Rightarrow> error + (int list \<times> int list)" where
  "pixel_coordinates w ortho tx ty =
     (if r_width ortho = 0 \<or> r_height ortho = 0 then Inl ZeroDivisionError
      else (let A = (if transform_issues ortho \<noteq> []
                     then from_bounds (left (r_bounds ortho)) (bottom (r_bounds ortho))
                            (right (r_bounds ortho)) (top (r_bounds ortho)) (r_width ortho) (r_height ortho)
                     else r_transform ortho)
            in Inr (map (\<lambda>p. fst (rowcol w A (fst p) (snd p))) (zip tx ty),
                    map (\<lambda>p. snd (rowcol w A (fst p) (snd p))) (zip tx ty))))"

text \<open>Lines 692 to 698: the validity mask.\<close>

definition valid_pixels :: "raster \<Rightarrow> int list \<Rightarrow> int list \<Rightarrow> bool list" where
  "valid_pixels ortho pixel_rows pixel_cols =
     map (\<lambda>p. fst p \<ge> 0 \<and> fst p < int (r_width ortho) \<and> snd p \<ge> 0 \<and> snd p < int (r_height ortho))
         (zip pixel_cols pixel_rows)"

record located =
  pc_bounds :: bounds
  pixel_rows :: "int list"
  pixel_cols :: "int list"
  valid_mask :: "bool list"

text \<open>
  Lines 444 to 698 of \<^verbatim>\<open>colorize_point_cloud\<close>, up to the validity mask. The diagnostic plot
  goes to a file, so the call matters to what follows only by returning or raising.
\<close>

definition locate_points :: "world \<Rightarrow> las_data \<Rightarrow> raster \<Rightarrow> string option \<Rightarrow> error + located" where
  "locate_points w las ortho source_crs =
     (case r_crs ortho of
        None \<Rightarrow> Inl (ValueError ''Orthophoto has no CRS information'')
      | Some ortho_crs \<Rightarrow>
     (case transform_point_cloud_to_ortho_crs w las ortho_crs source_crs of
        Inl e \<Rightarrow> Inl e
      | Inr t \<Rightarrow>
     (case transformed_bounds (fst t) (snd t) of
        Inl e \<Rightarrow> Inl e
      | Inr pcb \<Rightarrow>
     (case diagnostic_step w ortho pcb (fst t) (snd t) of
        Inl e \<Rightarrow> Inl e
      | Inr plots \<Rightarrow>
     (case pixel_coordinates w ortho (fst t) (snd t) of
        Inl e \<Rightarrow> Inl e
      | Inr rc \<Rightarrow>
          Inr \<lparr>pc_bounds = pcb, pixel_rows = fst rc, pixel_cols = snd rc,
               valid_mask = valid_pixels ortho (fst rc) (snd rc)\<rparr>)))))"

text \<open>
  Line 712: \<^verbatim>\<open>num_valid == 0 or current_coverage < coverage_threshold\<close>. The quotient of the
  two counts is compared with 0.10 exactly; below \<open>7 * 10^16\<close> points the comparison of
  the rounded floats gives the same answer.
\<close>

definition coverage_threshold :: real where
  "coverage_threshold = 0.10"

definition low_coverage :: "bool list \<Rightarrow> nat \<Rightarrow> bool" where
  "low_coverage m total_points =
     (np_sum m = 0 \<or> real (np_sum m) / real total_points < coverage_threshold)"

section \<open>The archived colorizer: colour sampling\<close>

type_synonym colors = "(u16 \<times> u16 \<times> u16) list"

text \<open>\<^verbatim>\<open>band[valid_rows, valid_cols]\<close> of band \<open>k\<close>.\<close>

definition read_at :: "raster \<Rightarrow> nat \<Rightarrow> int list \<Rightarrow> int list \<Rightarrow> real list" where
  "read_at ortho k rows cols = map (\<lambda>p. r_read ortho k (nat (fst p)) (nat (snd p))) (zip rows cols)"

text \<open>The product of an array of type \<open>d\<close> and a Python number, in the type of the array.\<close>

fun round_dtype :: "dtype \<Rightarrow> real \<Rightarrow> real" where
  "round_dtype Float32 v = round_f32 v"
| "round_dtype Float64 v = round_f64 v"
| "round_dtype d v = v"

text \<open>
  Lines 816 to 847: the scaling of the sampled values of one band by the pixel type, and
  what the branch logs. In the first branch the array has the type \<^verbatim>\<open>uint8\<close>, and its
  product with the Python integer 257 is a \<^verbatim>\<open>uint16\<close> array under value-based promotion and
  an OverflowError under weak promotion.
\<close>

definition archive_scale :: "promotion \<Rightarrow> dtype \<Rightarrow> real list \<Rightarrow> error + u16 list" where
  "archive_scale p d values =
     (let dtype_str = dtype_name d in
      if sublist ''uint8'' dtype_str then
        (case p of
           ValueBased \<Rightarrow> Inr (map (\<lambda>v. astype_uint16 UInt16 (v * 257)) values)
         | Weak \<Rightarrow> Inl OverflowError)
      else if sublist ''uint16'' dtype_str then Inr (map (astype_uint16 d) values)
      else if sublist ''float'' dtype_str then
        Inr (map (\<lambda>v. astype_uint16 d (round_dtype d (v * 65535))) values)
      else Inr (map (astype_uint16 d) values))"

definition archive_scale_log :: "dtype \<Rightarrow> log" where
  "archive_scale_log d =
     (let dtype_str = dtype_name d in
      if sublist ''uint8'' dtype_str then [(INFO, ''DEBUG - Applied uint8 scaling (factor: 257)'')]
      else if sublist ''uint16'' dtype_str then [(INFO, ''DEBUG - Applied uint16 direct assignment'')]
      else if sublist ''float'' dtype_str then [(INFO, ''DEBUG - Applied float scaling (factor: 65535)'')]
      else [(WARNING, ''Unknown data type, using direct conversion''),
            (INFO, ''DEBUG - Applied direct conversion'')])"

text \<open>\<^verbatim>\<open>colors[valid_mask, 0] = r\<close>, \<^verbatim>\<open>colors[valid_mask, 1] = g\<close>, \<^verbatim>\<open>colors[valid_mask, 2] = b\<close>.\<close>

definition assign_channels :: "colors \<Rightarrow> bool list \<Rightarrow> u16 list \<Rightarrow> u16 list \<Rightarrow> u16 list \<Rightarrow> colors" where
  "assign_channels cs m r g b = mask_assign cs m (zip r (zip g b))"

text \<open>
  Lines 816 to 847 on the three arrays of sampled values: the three channels are scaled
  and assigned in turn, then the line of the branch is logged.
\<close>

definition scale_channels ::
  "promotion \<Rightarrow> dtype \<Rightarrow> colors \<Rightarrow> bool list \<Rightarrow> real list \<Rightarrow> real list \<Rightarrow> real list
     \<Rightarrow> error + (log \<times> colors)" where
  "scale_channels p d cs m red_values green_values blue_values =
     (case archive_scale p d red_values of Inl e \<Rightarrow> Inl e | Inr r \<Rightarrow>
     (case archive_scale p d green_values of Inl e \<Rightarrow> Inl e | Inr g \<Rightarrow>
     (case archive_scale p d blue_values of Inl e \<Rightarrow> Inl e | Inr b \<Rightarrow>
        Inr (archive_scale_log d, assign_channels cs m r g b))))"

text \<open>
  Lines 758 to 879: the colour array of all points, zero at the invalid ones, with the
  lines logged by the scaling branch. The debug lines 789 and 810 take \<^verbatim>\<open>np.min\<close> of the
  sampled values, which raises when no point is valid.
\<close>

definition sample_colors ::
  "promotion \<Rightarrow> raster \<Rightarrow> located \<Rightarrow> nat \<Rightarrow> error + (log \<times> colors)" where
  "sample_colors p ortho loc total_points =
     (case bool_index (pixel_cols loc) (valid_mask loc) of Inl e \<Rightarrow> Inl e | Inr valid_cols \<Rightarrow>
     (case bool_index (pixel_rows loc) (valid_mask loc) of Inl e \<Rightarrow> Inl e | Inr valid_rows \<Rightarrow>
        (if r_count ortho \<ge> 3 then
           (case np_min (read_at ortho 1 valid_rows valid_cols) of Inl e \<Rightarrow> Inl e | Inr lowest \<Rightarrow>
              scale_channels p (r_dtype ortho) (replicate total_points (0, 0, 0)) (valid_mask loc)
                (read_at ortho 1 valid_rows valid_cols)
                (read_at ortho 2 valid_rows valid_cols)
                (read_at ortho 3 valid_rows valid_cols))
         else if r_count ortho = 1 then
           (case np_min (read_at ortho 1 valid_rows valid_cols) of Inl e \<Rightarrow> Inl e | Inr lowest \<Rightarrow>
              scale_channels p (r_dtype ortho) (replicate total_points (0, 0, 0)) (valid_mask loc)
                (read_at ortho 1 valid_rows valid_cols)
                (read_at ortho 1 valid_rows valid_cols)
                (read_at ortho 1 valid_rows valid_cols))
         else Inl (ValueError ''Unsupported number of bands''))))"

text \<open>What \<^verbatim>\<open>colorize_point_cloud\<close> returns once it samples: the colours and the mask.\<close>

definition colorize_with ::
  "promotion \<Rightarrow> raster \<Rightarrow> located \<Rightarrow> nat \<Rightarrow> error + (colors \<times> bool list)" where
  "colorize_with p ortho loc total_points =
     (case sample_colors p ortho loc total_points of
        Inl e \<Rightarrow> Inl e
      | Inr lc \<Rightarrow> Inr (snd lc, valid_mask loc))"

text \<open>
  Lines 747 to 756: the handler \<^verbatim>\<open>except Exception\<close> around the download and the recursive
  call. It raises when no point is valid and otherwise falls through to the sampling
  with the raster at hand.
\<close>

definition after_failed_correction ::
  "promotion \<Rightarrow> raster \<Rightarrow> located \<Rightarrow> nat \<Rightarrow> error + (colors \<times> bool list)" where
  "after_failed_correction p ortho loc total_points =
     (if np_sum (valid_mask loc) = 0
      then Inl (ValueError ''No points within orthophoto bounds and auto-correction failed'')
      else colorize_with p ortho loc total_points)"

text \<open>
  \<^verbatim>\<open>colorize_point_cloud\<close>. The first argument is the number of nested calls of the method
  that the interpreter still admits: a call beyond it raises RecursionError, which the
  handler of the calling frame catches like any other exception. The counter \<open>n\<close> is the
  number of replacement rasters obtained so far in the run; the result carries its final
  value, which is the number of times the method has called itself.
\<close>

fun colorize_point_cloud ::
  "nat \<Rightarrow> world \<Rightarrow> nat \<Rightarrow> las_data \<Rightarrow> raster \<Rightarrow> string option
     \<Rightarrow> nat \<times> (error + (colors \<times> bool list))" where
  "colorize_point_cloud 0 w n las ortho source_crs = (n, Inl RecursionError)"
| "colorize_point_cloud (Suc depth) w n las ortho source_crs =
     (case locate_points w las ortho source_crs of
        Inl e \<Rightarrow> (n, Inl e)
      | Inr loc \<Rightarrow>
          (if low_coverage (valid_mask loc) (num_points las) then
             (case fetch_corrected w n (pc_bounds loc) of
                Inl e \<Rightarrow> (n, after_failed_correction (numpy_promotion w) ortho loc (num_points las))
              | Inr corrected_dataset \<Rightarrow>
                  (case colorize_point_cloud depth w (Suc n) las corrected_dataset source_crs of
                     (n', Inr res) \<Rightarrow> (n', Inr res)
                   | (n', Inl e) \<Rightarrow>
                       (n', after_failed_correction (numpy_promotion w) ortho loc (num_points las))))
           else (n, colorize_with (numpy_promotion w) ortho loc (num_points las))))"

declare colorize_point_cloud.simps(2) [simp del]

text \<open>The correction branch of line 712 is entered at the top level of a call.\<close>

definition correction_triggered :: "world \<Rightarrow> las_data \<Rightarrow> raster \<Rightarrow> string option \<Rightarrow> bool" where
  "correction_triggered w las ortho source_crs =
     (case locate_points w las ortho source_crs of
        Inl e \<Rightarrow> False
      | Inr loc \<Rightarrow> low_coverage (valid_mask loc) (num_points las))"

section \<open>The archived colorizer: output and summary\<close>

definition rgb_supported_formats :: "nat set" where
  "rgb_supported_formats = {2, 3, 5, 7, 8, 10}"

definition attributes_to_copy :: "string list" where
  "attributes_to_copy = [''intensity'', ''return_number'', ''number_of_returns'', ''classification'',
     ''scan_angle_rank'', ''user_data'', ''point_source_id'']"

text \<open>
  \<^verbatim>\<open>laspy.LasData(header)\<close> on a new header holds no point. The first array assigned to it
  makes it as long as the array, and every dimension of the point format is zero at the
  new points until it is assigned.
\<close>

definition zero_dimensions :: "las_header \<Rightarrow> nat \<Rightarrow> (string \<rightharpoonup> real list)" where
  "zero_dimensions h n = (\<lambda>name. if name \<in> set (point_dimensions h) then Some (replicate n 0) else None)"

text \<open>
  \<^verbatim>\<open>setattr(colorized_las, name, values)\<close> for the name of a LAS dimension: laspy raises
  ValueError when the point format of the record has no such dimension, and whatever
  its check of the values raises.
\<close>

definition set_dimension ::
  "world \<Rightarrow> las_header \<Rightarrow> (string \<rightharpoonup> real list) \<Rightarrow> string \<Rightarrow> real list
     \<Rightarrow> error + (string \<rightharpoonup> real list)" where
  "set_dimension w h dims name values =
     (if name \<notin> set (point_dimensions h)
      then Inl (ValueError ''Point format does not support the dimension'')
      else (case assign_error w (h_point_format h) name values of
              Some e \<Rightarrow> Inl e
            | None \<Rightarrow> Inr (dims(name \<mapsto> values))))"

text \<open>
  Lines 963 to 967: the loop over the names, \<open>acc\<close> being the dimensions of the new record
  so far and \<open>h\<close> its header.
\<close>

fun copy_attributes ::
  "world \<Rightarrow> las_header \<Rightarrow> string list \<Rightarrow> las_data \<Rightarrow> bool list \<Rightarrow> (string \<rightharpoonup> real list)
     \<Rightarrow> error + (string \<rightharpoonup> real list)" where
  "copy_attributes w h [] las m acc = Inr acc"
| "copy_attributes w h (attr_name # rest) las m acc =
     (case las_dims las attr_name of
        None \<Rightarrow> copy_attributes w h rest las m acc
      | Some col \<Rightarrow>
          (case bool_index col m of
             Inl e \<Rightarrow> Inl e
           | Inr c \<Rightarrow>
               (case set_dimension w h acc attr_name c of
                  Inl e \<Rightarrow> Inl e
                | Inr acc' \<Rightarrow> copy_attributes w h rest las m acc')))"

text \<open>
  \<^verbatim>\<open>save_colorized_point_cloud\<close> of the class: the point cloud that is handed to
  \<^verbatim>\<open>write\<close>. The new header has the version of the old one and the point format of the old
  one (with its extra dimensions) when that has colours, else format 2. The embedded CRS
  travels in the VLRs of the header.
\<close>

definition save_colorized_point_cloud ::
  "world \<Rightarrow> las_data \<Rightarrow> colors \<Rightarrow> bool list \<Rightarrow> error + las_data" where
  "save_colorized_point_cloud w las cs m =
     (let original_header = las_header las;
          convert = (h_point_format original_header \<notin> rgb_supported_formats);
          new_point_format = (if convert then 2 else h_point_format original_header)
      in case header_error w (h_version original_header) new_point_format of
           Some e \<Rightarrow> Inl e
         | None \<Rightarrow>
        (let header = \<lparr>h_crs = (if h_vlrs original_header \<noteq> [] then h_crs original_header else None),
                       h_version = h_version original_header,
                       h_point_format = new_point_format,
                       h_extra_dims = (if convert then [] else h_extra_dims original_header),
                       h_scales = h_scales original_header,
                       h_offsets = h_offsets original_header,
                       h_vlrs = (if h_vlrs original_header \<noteq> [] then h_vlrs original_header else [])\<rparr>
         in case bool_index (las_x las) m of Inl e \<Rightarrow> Inl e | Inr xs \<Rightarrow>
           (case bool_index (las_y las) m of Inl e \<Rightarrow> Inl e | Inr ys \<Rightarrow>
           (case bool_index (las_z las) m of Inl e \<Rightarrow> Inl e | Inr zs \<Rightarrow>
           (case copy_attributes w header attributes_to_copy las m (zero_dimensions header (length xs)) of
              Inl e \<Rightarrow> Inl e
            | Inr dims \<Rightarrow>
           (case bool_index cs m of Inl e \<Rightarrow> Inl e | Inr valid_colors \<Rightarrow>
              (if \<not> format_has_rgb new_point_format
               then Inl (ValueError ''Point format does not support red dimension'')
               else Inr \<lparr>las_header = header, las_x = xs, las_y = ys, las_z = zs, las_dims = dims,
                         las_red = map fst valid_colors,
                         las_green = map (\<lambda>c. fst (snd c)) valid_colors,
                         las_blue = map (\<lambda>c. snd (snd c)) valid_colors\<rparr>)))))))"

record report =
  original_total_points :: nat
  trimmed_points :: nat
  trimming_rate :: real
  colorized_points :: nat
  colorization_rate :: real
  mean_rgb :: "real \<times> real \<times> real"
  max_rgb :: "nat \<times> nat \<times> nat"

definition np_mean :: "u16 list \<Rightarrow> real" where
  "np_mean a = real (sum_list (map unat a)) / real (length a)"

definition np_max_u16 :: "u16 list \<Rightarrow> nat" where
  "np_max_u16 a = Max (set (map unat a))"

text \<open>\<^verbatim>\<open>np.sum(np.any(valid_colors > 0, axis=1))\<close>.\<close>

definition count_colorized :: "colors \<Rightarrow> nat" where
  "count_colorized valid_colors =
     length (filter (\<lambda>c. fst c > 0 \<or> fst (snd c) > 0 \<or> snd (snd c) > 0) valid_colors)"

text \<open>
  \<^verbatim>\<open>create_summary_report\<close>: the statistics of the report. The trimming rate of an empty
  colour array, NaN in NumPy, is the quotient of HOL here.
\<close>

definition create_summary_report :: "colors \<Rightarrow> bool list \<Rightarrow> error + report" where
  "create_summary_report cs m =
     (case bool_index cs m of
        Inl e \<Rightarrow> Inl e
      | Inr valid_colors \<Rightarrow>
          Inr \<lparr>original_total_points = length cs,
               trimmed_points = np_sum m,
               trimming_rate = real (np_sum m) / real (length cs),
               colorized_points = count_colorized valid_colors,
               colorization_rate = (if length valid_colors > 0
                  then real (count_colorized valid_colors) / real (length valid_colors) else 0),
               mean_rgb = (if length valid_colors > 0
                  then (np_mean (map fst valid_colors), np_mean (map (\<lambda>c. fst (snd c)) valid_colors),
                        np_mean (map (\<lambda>c. snd (snd c)) valid_colors))
                  else (0, 0, 0)),
               max_rgb = (if length valid_colors > 0
                  then (np_max_u16 (map fst valid_colors), np_max_u16 (map (\<lambda>c. fst (snd c)) valid_colors),
                        np_max_u16 (map (\<lambda>c. snd (snd c)) valid_colors))
                  else (0, 0, 0))\<rparr>)"

text \<open>
  \<^verbatim>\<open>process_files\<close> on a loaded point cloud and raster: colorize, save, summarise
  (\<^verbatim>\<open>create_summary\<close> at its default).
\<close>

definition process_files :: "nat \<Rightarrow> world \<Rightarrow> las_data \<Rightarrow> raster \<Rightarrow> error + (las_data \<times> report)" where
  "process_files depth w las ortho =
     (case snd (colorize_point_cloud depth w 0 las ortho None) of
        Inl e \<Rightarrow> Inl e
      | Inr cm \<Rightarrow>
          (case save_colorized_point_cloud w las (fst cm) (snd cm) of
             Inl e \<Rightarrow> Inl e
           | Inr out \<Rightarrow>
               (case create_summary_report (fst cm) (snd cm) of
                  Inl e \<Rightarrow> Inl e
                | Inr rep \<Rightarrow> Inr (out, rep))))"

section \<open>The script: \<^verbatim>\<open>scripts/process_point_cloud.py\<close>\<close>

text \<open>
  \<^verbatim>\<open>identify_point_cloud_crs\<close> asks the header object for an attribute \<^verbatim>\<open>crs\<close>. The header
  of laspy has none (the CRS of a file is reached through \<^verbatim>\<open>parse_crs\<close>), so the test
  \<^verbatim>\<open>hasattr(las_data.header, "crs")\<close> fails for every point cloud that \<^verbatim>\<open>laspy.read\<close> returns.
\<close>

definition header_crs_attribute :: "las_header \<Rightarrow> string option" where
  "header_crs_attribute h = None"

definition script_identify_point_cloud_crs :: "las_data \<Rightarrow> string" where
  "script_identify_point_cloud_crs las =
     (case header_crs_attribute (las_header las) of Some c \<Rightarrow> c | None \<Rightarrow> ''EPSG:2232'')"

text \<open>\<^verbatim>\<open>np.column_stack((a, b))\<close>: the rows of an array with two columns.\<close>

definition column_stack :: "real list \<Rightarrow> real list \<Rightarrow> error + (real \<times> real) list" where
  "column_stack a b = (if length a = length b then Inr (zip a b)
     else Inl (ValueError ''all the input array dimensions except for the concatenation axis must match exactly''))"

text \<open>
  A quotient whose divisor the code has to keep away from zero: NumPy would give
  \<^verbatim>\<open>inf\<close> or \<^verbatim>\<open>nan\<close> there, which the model reports as ZeroDivisionError.
\<close>

definition checked_div :: "real \<Rightarrow> real \<Rightarrow> error + real" where
  "checked_div a b = (if b = 0 then Inl ZeroDivisionError else Inr (a / b))"

definition target_min_x :: real where "target_min_x = 476216.9806"
definition target_max_x :: real where "target_max_x = 477833.0806"
definition target_min_y :: real where "target_min_y = 4424864.8564"
definition target_max_y :: real where "target_max_y = 4426481.1064"

text \<open>Lines 100 to 128 of \<^verbatim>\<open>transform_coordinates\<close>: the scaling of bounds onto bounds.\<close>

definition bounds_to_bounds_scaling :: "real list \<Rightarrow> real list \<Rightarrow> error + (real \<times> real) list" where
  "bounds_to_bounds_scaling x_coords y_coords =
     (case np_min x_coords of Inl e \<Rightarrow> Inl e | Inr min_x \<Rightarrow>
     (case np_max x_coords of Inl e \<Rightarrow> Inl e | Inr max_x \<Rightarrow>
     (case np_min y_coords of Inl e \<Rightarrow> Inl e | Inr min_y \<Rightarrow>
     (case np_max y_coords of Inl e \<Rightarrow> Inl e | Inr max_y \<Rightarrow>
     (case (if max_x - min_x \<noteq> 0 then checked_div (target_max_x - target_min_x) (max_x - min_x) else Inr 1) of
        Inl e \<Rightarrow> Inl e | Inr x_scale \<Rightarrow>
     (case (if max_y - min_y \<noteq> 0 then checked_div (target_max_y - target_min_y) (max_y - min_y) else Inr 1) of
        Inl e \<Rightarrow> Inl e | Inr y_scale \<Rightarrow>
        column_stack (map (\<lambda>x. target_min_x + (x - min_x) * x_scale) x_coords)
                     (map (\<lambda>y. target_min_y + (y - min_y) * y_scale) y_coords)))))))"

text \<open>The function that \<^verbatim>\<open>define_custom_transform\<close> returns.\<close>

definition transform_func :: "real list \<Rightarrow> real list \<Rightarrow> real list \<times> real list" where
  "transform_func x y =
     (let source_min_x = 3065262.93; source_max_x = 3065728.85;
          source_min_y = 1780508.57; source_max_y = 1780808.63;
          x_scale = (target_max_x - target_min_x) / (source_max_x - source_min_x);
          y_scale = (target_max_y - target_min_y) / (source_max_y - source_min_y);
          x_offset = target_min_x - source_min_x * x_scale;
          y_offset = target_min_y - source_min_y * y_scale
      in (map (\<lambda>v. v * x_scale + x_offset) x, map (\<lambda>v. v * y_scale + y_offset) y))"

text \<open>
  \<^verbatim>\<open>transform_coordinates\<close>: pyproj first; when it raises, the custom function if there is
  one, else the scaling of bounds.
\<close>

definition script_transform_coordinates ::
  "world \<Rightarrow> las_data \<Rightarrow> string \<Rightarrow> (real list \<Rightarrow> real list \<Rightarrow> real list \<times> real list) option
     \<Rightarrow> error + (real \<times> real) list" where
  "script_transform_coordinates w las target_crs_str custom_transform_func =
     (let x_coords = las_x las; y_coords = las_y las;
          source_crs_str = script_identify_point_cloud_crs las;
          by_pyproj =
            (if source_crs_str \<noteq> [] then
               (case make_transformer w source_crs_str target_crs_str of
                  Inl e \<Rightarrow> Inl e
                | Inr T \<Rightarrow>
                    (case transformer_transform T x_coords y_coords of
                       Inl e \<Rightarrow> Inl e
                     | Inr t \<Rightarrow> column_stack (fst t) (snd t)))
             else Inl ProjError)
      in case by_pyproj of
           Inr coords \<Rightarrow> Inr coords
         | Inl e \<Rightarrow>
             (case custom_transform_func of
                Some f \<Rightarrow> column_stack (fst (f x_coords y_coords)) (snd (f x_coords y_coords))
              | None \<Rightarrow> bounds_to_bounds_scaling x_coords y_coords))"

text \<open>\<^verbatim>\<open>convert_point_cloud_to_image_coordinates\<close>: (pixel_x, pixel_y, valid_points).\<close>

definition script_convert_point_cloud_to_image_coordinates ::
  "world \<Rightarrow> las_data \<Rightarrow> raster \<Rightarrow> (real list \<Rightarrow> real list \<Rightarrow> real list \<times> real list) option
     \<Rightarrow> real \<Rightarrow> real \<Rightarrow> error + (int list \<times> int list \<times> bool list)" where
  "script_convert_point_cloud_to_image_coordinates w las raster_dataset custom_transform_func x_offset y_offset =
     (case script_transform_coordinates w las
             (case r_crs raster_dataset of Some c \<Rightarrow> c | None \<Rightarrow> ''None'') custom_transform_func of
        Inl e \<Rightarrow> Inl e
      | Inr coords0 \<Rightarrow>
          (let coords = (if x_offset \<noteq> 0 \<or> y_offset \<noteq> 0
                         then map (\<lambda>p. (fst p + x_offset, snd p + y_offset)) coords0 else coords0);
               pixel_x = map (\<lambda>p. snd (rowcol w (r_transform raster_dataset) (fst p) (snd p))) coords;
               pixel_y = map (\<lambda>p. fst (rowcol w (r_transform raster_dataset) (fst p) (snd p))) coords
           in Inr (pixel_x, pixel_y, valid_pixels raster_dataset pixel_y pixel_x)))"

text \<open>\<^verbatim>\<open>v / 255.0 * 65535.0\<close> on a 32-bit float.\<close>

definition to_16bit_range :: "real \<Rightarrow> real" where
  "to_16bit_range v = round_f32 (round_f32 (v / 255) * 65535)"

text \<open>
  Lines 267 to 318 of \<^verbatim>\<open>extract_colors_from_image\<close>: what is printed, and the scaling
  applied to each value of the three float arrays.
\<close>

definition script_scaling :: "dtype \<Rightarrow> real list \<Rightarrow> real list \<Rightarrow> real list \<Rightarrow> log \<times> (real \<Rightarrow> real)" where
  "script_scaling d r_float g_float b_float =
     (let source_dtype_str = dtype_name d in
      if source_dtype_str = ''uint8'' then ([], to_16bit_range)
      else if source_dtype_str = ''uint16'' then ([], \<lambda>v. v)
      else if prefix ''float'' source_dtype_str then
        (let min_val_check = min (if r_float \<noteq> [] then Min (set r_float) else 0)
                            (min (if g_float \<noteq> [] then Min (set g_float) else 0)
                                 (if b_float \<noteq> [] then Min (set b_float) else 0));
             max_val_check = max (if r_float \<noteq> [] then Max (set r_float) else 1)
                            (max (if g_float \<noteq> [] then Max (set g_float) else 1)
                                 (if b_float \<noteq> [] then Max (set b_float) else 1));
             is_all_zero = (max_val_check = 0 \<and> min_val_check = 0)
         in ((if \<not> is_all_zero \<and> \<not> (0 \<le> min_val_check \<and> min_val_check \<le> 1 \<and>
                                        0 \<le> max_val_check \<and> max_val_check \<le> 1)
              then [(WARNING, ''Float data may be outside expected 0.0-1.0 range'')] else []),
             \<lambda>v. round_f32 (v * 65535)))
      else
        (let m0 = (if r_float \<noteq> [] then max 0 (Max (set r_float)) else 0);
             m1 = (if g_float \<noteq> [] then max m0 (Max (set g_float)) else m0);
             current_max_val = (if b_float \<noteq> [] then max m1 (Max (set b_float)) else m1)
         in ([(INFO, ''Source dtype is not uint8, uint16, or float. Applying heuristic scaling based on max value.'')],
             (if current_max_val > 0 \<and> current_max_val < 256 then to_16bit_range else (\<lambda>v. v)))))"

text \<open>Lines 320 to 322: \<^verbatim>\<open>np.clip(scaled, 0, 65535).astype(np.uint16)\<close>.\<close>

definition clip_to_uint16 :: "real \<Rightarrow> u16" where
  "clip_to_uint16 v = astype_uint16 Float32 (np_clip v 0 65535)"

definition script_normalize ::
  "dtype \<Rightarrow> colors \<Rightarrow> bool list \<Rightarrow> real list \<Rightarrow> real list \<Rightarrow> real list \<Rightarrow> log \<times> colors" where
  "script_normalize d colors_out valid_points r_float g_float b_float =
     (let sc = script_scaling d r_float g_float b_float
      in (fst sc, assign_channels colors_out valid_points
                    (map (\<lambda>v. clip_to_uint16 (snd sc v)) r_float)
                    (map (\<lambda>v. clip_to_uint16 (snd sc v)) g_float)
                    (map (\<lambda>v. clip_to_uint16 (snd sc v)) b_float)))"

text \<open>\<^verbatim>\<open>extract_colors_from_image\<close>: what it prints and the colour array it returns.\<close>

definition script_extract_colors_from_image ::
  "raster \<Rightarrow> int list \<Rightarrow> int list \<Rightarrow> bool list \<Rightarrow> error + (log \<times> colors)" where
  "script_extract_colors_from_image raster_dataset pixel_x pixel_y valid_points =
     (case bool_index pixel_x valid_points of Inl e \<Rightarrow> Inl e | Inr valid_x_indices \<Rightarrow>
     (case bool_index pixel_y valid_points of Inl e \<Rightarrow> Inl e | Inr valid_y_indices \<Rightarrow>
        (let colors_out = replicate (length pixel_x) (0, 0, 0);
             bands = r_count raster_dataset
         in if np_sum valid_points = 0 then Inr ([(INFO, ''No valid points to colorize.'')], colors_out)
            else if bands \<ge> 3 then
              Inr (script_normalize (r_dtype raster_dataset) colors_out valid_points
                     (map round_f32 (read_at raster_dataset 1 valid_y_indices valid_x_indices))
                     (map round_f32 (read_at raster_dataset 2 valid_y_indices valid_x_indices))
                     (map round_f32 (read_at raster_dataset 3 valid_y_indices valid_x_indices)))
            else if bands = 1 then
              Inr (script_normalize (r_dtype raster_dataset) colors_out valid_points
                     (map round_f32 (read_at raster_dataset 1 valid_y_indices valid_x_indices))
                     (map round_f32 (read_at raster_dataset 1 valid_y_indices valid_x_indices))
                     (map round_f32 (read_at raster_dataset 1 valid_y_indices valid_x_indices)))
            else Inr ([(INFO, ''Unsupported number of bands in satellite image. Cannot extract color.'')],
                      colors_out))))"

text \<open>
  The assignment of an array to a dimension of a record of points that exist already.
  A longer array makes laspy append points first, zero in every dimension (the
  coordinates of a zero point are the offsets of the header). Then an array as long as
  the record is stored, an array of one value is broadcast, and any other array is
  refused by NumPy.
\<close>

definition grow_points :: "nat \<Rightarrow> las_data \<Rightarrow> las_data" where
  "grow_points n las =
     (let k = n - num_points las; off = h_offsets (las_header las)
      in las\<lparr>las_x := las_x las @ replicate k (fst off),
              las_y := las_y las @ replicate k (fst (snd off)),
              las_z := las_z las @ replicate k (snd (snd off)),
              las_dims := (\<lambda>name. map_option (\<lambda>col. col @ replicate k 0) (las_dims las name)),
              las_red := las_red las @ replicate k 0,
              las_green := las_green las @ replicate k 0,
              las_blue := las_blue las @ replicate k 0\<rparr>)"

definition broadcast_to :: "nat \<Rightarrow> 'a list \<Rightarrow> error + 'a list" where
  "broadcast_to n values =
     (if length values = n then Inr values
      else if length values = 1 then Inr (replicate n (hd values))
      else Inl (ValueError ''could not broadcast input array''))"

text \<open>
  \<^verbatim>\<open>save_colorized_point_cloud\<close> of the script: the point cloud that is handed to \<^verbatim>\<open>write\<close>.
  All the point data of the input is copied under the header of the input, then the
  three colour dimensions are set, which laspy refuses with ValueError when the point
  format has no colours. The function takes no mask.
\<close>

definition script_save_colorized_point_cloud :: "las_data \<Rightarrow> colors \<Rightarrow> error + las_data" where
  "script_save_colorized_point_cloud input_las_data cs =
     (if \<not> format_has_rgb (h_point_format (las_header input_las_data))
      then Inl (ValueError ''Point format does not support red dimension'')
      else (let colorized_las = grow_points (length cs) input_las_data
            in case broadcast_to (num_points colorized_las) cs of
                 Inl e \<Rightarrow> Inl e
               | Inr c \<Rightarrow>
                   Inr (colorized_las\<lparr>las_red := map fst c,
                                       las_green := map (\<lambda>c. fst (snd c)) c,
                                       las_blue := map (\<lambda>c. snd (snd c)) c\<rparr>)))"

text \<open>\<^verbatim>\<open>main\<close> on loaded inputs: the exit code and the point cloud written, if any.\<close>

definition script_main ::
  "world \<Rightarrow> las_data \<Rightarrow> raster \<Rightarrow> bool \<Rightarrow> real \<Rightarrow> real \<Rightarrow> error + (nat \<times> las_data option)" where
  "script_main w las raster_dataset use_custom_transform x_offset y_offset =
     (case script_convert_point_cloud_to_image_coordinates w las raster_dataset
             (if use_custom_transform then Some transform_func else None) x_offset y_offset of
        Inl e \<Rightarrow> Inl e
      | Inr (pixel_x, pixel_y, valid_points) \<Rightarrow>
          (if np_sum valid_points = 0 then Inr (1, None)
           else (case script_extract_colors_from_image raster_dataset pixel_x pixel_y valid_points of
                   Inl e \<Rightarrow> Inl e
                 | Inr lc \<Rightarrow>
                     (case script_save_colorized_point_cloud las (snd lc) of
                        Inl e \<Rightarrow> Inl e
                      | Inr out \<Rightarrow> Inr (0, Some out)))))"

section \<open>Notions used to state the properties\<close>

text \<open>
  The pixel values that feed the three colour channels of point \<open>i\<close>: bands 1, 2 and 3
  of a raster with at least three bands, band 1 three times otherwise.
\<close>

definition sampled :: "raster \<Rightarrow> int list \<Rightarrow> int list \<Rightarrow> nat \<Rightarrow> real \<times> real \<times> real" where
  "sampled ortho rows cols i =
     (let px = (\<lambda>k. r_read ortho k (nat (rows ! i)) (nat (cols ! i)))
      in if r_count ortho \<ge> 3 then (px 1, px 2, px 3) else (px 1, px 1, px 1))"

definition each_channel :: "('a \<Rightarrow> 'b) \<Rightarrow> 'a \<times> 'a \<times> 'a \<Rightarrow> 'b \<times> 'b \<times> 'b" where
  "each_channel f c = (f (fst c), f (fst (snd c)), f (snd (snd c)))"

text \<open>
  The 16-bit value that the scaling of \<^verbatim>\<open>colorize_point_cloud\<close> stores for a sampled value
  \<open>v\<close> of pixel type \<open>d\<close>, when it stores one.
\<close>

fun scale_value :: "dtype \<Rightarrow> real \<Rightarrow> u16" where
  "scale_value UInt8 v = int_to_uint16 (v * 257)"
| "scale_value Float32 v = float_to_uint16 (round_f32 (v * 65535))"
| "scale_value Float64 v = float_to_uint16 (round_f64 (v * 65535))"
| "scale_value d v = int_to_uint16 v"

text \<open>
  A draw of the generator is a sample without replacement: of the asked size, without
  repetition, from the numbers below \<open>n\<close>.
\<close>

definition valid_choice :: "(nat \<Rightarrow> nat \<Rightarrow> nat list) \<Rightarrow> bool" where
  "valid_choice r = (\<forall>n k. k \<le> n \<longrightarrow>
     length (r n k) = k \<and> distinct (r n k) \<and> (\<forall>i \<in> set (r n k). i < n))"

text \<open>Every pixel of the raster holds a value of the raster's pixel type.\<close>

definition raster_typed :: "raster \<Rightarrow> bool" where
  "raster_typed ortho =
     (\<forall>k row col. 1 \<le> k \<and> k \<le> r_count ortho \<and> row < r_height ortho \<and> col < r_width ortho \<longrightarrow>
        dtype_value (r_dtype ortho) (r_read ortho k row col))"

text \<open>The points selected by a mask: the positions of its true entries.\<close>

definition selected :: "bool list \<Rightarrow> nat set" where
  "selected m = {i. i < length m \<and> m ! i}"

text \<open>
  The geographic rule in the words of the specification: all x within 180 of zero and
  all y within 90 of zero.
\<close>

definition geographic_looking :: "real list \<Rightarrow> real list \<Rightarrow> bool" where
  "geographic_looking xs ys = (list_all (\<lambda>x. \<bar>x\<bar> \<le> 180) xs \<and> list_all (\<lambda>y. \<bar>y\<bar> \<le> 90) ys)"

section \<open>Concrete inputs\<close>

text \<open>Small inputs on which the theorems below are run.\<close>

text \<open>
  Three points in point format 1 of LAS 1.2, with every dimension of the format, and the
  same points in point format 3, which has colours.
\<close>

definition example_header :: las_header where
  "example_header = \<lparr>h_crs = None, h_version = ''1.2'', h_point_format = 1, h_extra_dims = [],
     h_scales = (0.01, 0.01, 0.01), h_offsets = (0, 0, 0), h_vlrs = []\<rparr>"

definition example_dims :: "string \<rightharpoonup> real list" where
  "example_dims = map_of
     [(''intensity'', [10, 20, 30]), (''return_number'', [1, 1, 2]), (''number_of_returns'', [1, 2, 2]),
      (''scan_direction_flag'', [0, 0, 0]), (''edge_of_flight_line'', [0, 1, 0]),
      (''classification'', [2, 2, 5]), (''synthetic'', [0, 0, 0]), (''key_point'', [0, 0, 0]),
      (''withheld'', [0, 0, 0]), (''scan_angle_rank'', [- 3, 0, 4]), (''user_data'', [0, 0, 0]),
      (''point_source_id'', [7, 7, 7]), (''gps_time'', [100.5, 100.75, 101])]"

definition example_las :: las_data where
  "example_las = \<lparr>las_header = example_header, las_x = [1, 2, 3], las_y = [4, 5, 6],
     las_z = [7, 8, 9], las_dims = example_dims,
     las_red = [], las_green = [], las_blue = []\<rparr>"

definition rgb_las :: las_data where
  "rgb_las = example_las\<lparr>las_header := example_header\<lparr>h_point_format := 3\<rparr>,
     las_red := [0, 0, 0], las_green := [0, 0, 0], las_blue := [0, 0, 0]\<rparr>"

definition example_transformer :: transformer where
  "example_transformer p = (if fst p = 2 \<and> snd p = 0 then None else Some (fst p + 10, snd p + 20))"

definition example_rowcol :: "affine \<Rightarrow> real \<Rightarrow> real \<Rightarrow> int \<times> int" where
  "example_rowcol A x y = (\<lfloor>(y - af_f A) / af_e A\<rfloor>, \<lfloor>(x - af_c A) / af_a A\<rfloor>)"

text \<open>
  A run under NumPy 1 without diagnostics, in which laspy accepts what it is given and
  the generator draws the first numbers in order.
\<close>

definition example_world :: world where
  "example_world = \<lparr>create_diagnostics = False, numpy_promotion = ValueBased,
     detect_point_cloud_crs = (\<lambda>las. h_crs (las_header las)),
     make_transformer = (\<lambda>src tgt. Inr example_transformer),
     rowcol = example_rowcol,
     random_choice = (\<lambda>n k. take k [0..<n]),
     fetch_corrected = (\<lambda>n b. Inl DownloadError),
     header_error = (\<lambda>version fmt. None),
     assign_error = (\<lambda>fmt name values. None)\<rparr>"

definition example_raster :: raster where
  "example_raster = \<lparr>r_crs = Some ''EPSG:26913'', r_width = 3, r_height = 3,
     r_bounds = \<lparr>left = 10, bottom = 23, right = 13, top = 26\<rparr>,
     r_transform = \<lparr>af_a = 1, af_b = 0, af_c = 10, af_d = 0, af_e = - 1, af_f = 26\<rparr>,
     r_count = 3, r_dtype = UInt8,
     r_read = (\<lambda>k row col. real (k * 50 + row * 3 + col))\<rparr>"

text \<open>A raster of the same size a thousand units to the east: no point of the example falls on it.\<close>

definition far_raster :: raster where
  "far_raster = example_raster\<lparr>
     r_bounds := \<lparr>left = 1010, bottom = 23, right = 1013, top = 26\<rparr>,
     r_transform := \<lparr>af_a = 1, af_b = 0, af_c = 1010, af_d = 0, af_e = - 1, af_f = 26\<rparr>\<rparr>"

text \<open>A service that answers the first request with the far raster and the second with the good one.\<close>

definition retry_world :: world where
  "retry_world = example_world\<lparr>fetch_corrected :=
     (\<lambda>n b. if n = 0 then Inr far_raster else Inr example_raster)\<rparr>"

text \<open>
  A run with diagnostics in which the generator draws the last numbers first, and the
  service answers as above.
\<close>

definition diagnosing_world :: world where
  "diagnosing_world = example_world\<lparr>create_diagnostics := True,
     random_choice := (\<lambda>n k. take k (rev [0..<n])),
     fetch_corrected := (\<lambda>n b. if n = 0 then Inr far_raster else Inr example_raster)\<rparr>"

text \<open>The example raster with its last row of pixels black.\<close>

definition dark_raster :: raster where
  "dark_raster = example_raster\<lparr>r_read := (\<lambda>k row col. if row = 2 then 0 else real (k * 50 + row * 3 + col))\<rparr>"

text \<open>A 32-bit float raster whose pixels all hold 1.5, and a single-band 16-bit raster.\<close>

definition float_raster :: raster where
  "float_raster = example_raster\<lparr>r_dtype := Float32, r_read := (\<lambda>k row col. 1.5)\<rparr>"

definition gray16_raster :: raster where
  "gray16_raster = example_raster\<lparr>r_count := 1, r_dtype := UInt16, r_read := (\<lambda>k row col. 30000)\<rparr>"

text \<open>A point cloud without CRS whose x values run from 0 to 500000, and one far off every grid.\<close>

definition wide_las :: las_data where
  "wide_las = example_las\<lparr>las_x := [0, 500000], las_y := [0, 10], las_z := [0, 0],
     las_dims := Map.empty\<rparr>"

definition remote_las :: las_data where
  "remote_las = example_las\<lparr>las_x := [1000000000], las_y := [1000000000], las_z := [0],
     las_dims := Map.empty\<rparr>"

text \<open>A point cloud whose x axis is degenerate, and a world in which pyproj knows no CRS.\<close>

definition flat_las :: las_data where
  "flat_las = example_las\<lparr>las_x := [5, 5], las_y := [1, 3], las_z := [0, 0], las_dims := Map.empty\<rparr>"

definition failing_world :: world where
  "failing_world = example_world\<lparr>make_transformer := (\<lambda>src tgt. Inl ProjError)\<rparr>"

section \<open>The batched coordinate transform\<close>

lemma zip_slice: "zip (slice xs i j) (slice ys i j) = slice (zip xs ys) i j"
  by (simp add: slice_def take_zip drop_zip)

lemma slice_drop_append: "i \<le> j \<Longrightarrow> slice zs i j @ drop j zs = drop i zs"
proof -
  assume "i \<le> j"
  then have "drop j zs = drop (j - i) (drop i zs)" by simp
  then show ?thesis unfolding slice_def by (metis append_take_drop_id)
qed

lemma transformer_transform_zip:
  "length ys = length xs \<Longrightarrow> transformer_transform T (slice xs i j) (slice ys i j) =
     (if list_all (\<lambda>p. T p \<noteq> None) (slice (zip xs ys) i j)
      then Inr (map (\<lambda>p. fst (the (T p))) (slice (zip xs ys) i j), map (\<lambda>p. snd (the (T p))) (slice (zip xs ys) i j))
      else Inl ProjError)"
  by (simp add: transformer_transform_def zip_slice) (simp add: slice_def)

lemma take_slice_assign:
  assumes "i \<le> j" "j \<le> length a" "length v = j - i" "j \<le> k" "k = j \<or> length a \<le> k"
  shows "take k (slice_assign a i j v) @ w = take i a @ v @ (if k = j then w else drop j a @ w)"
  using assms by (auto simp: slice_assign_def)

lemma transform_batches_eq:
  assumes "0 < bs" "length ys = length xs" "length (fst acc) = length xs" "length (snd acc) = length xs"
  shows "transform_batches T bs xs ys i acc =
    (if list_all (\<lambda>p. T p \<noteq> None) (drop i (zip xs ys))
     then Inr (take i (fst acc) @ map (\<lambda>p. fst (the (T p))) (drop i (zip xs ys)),
               take i (snd acc) @ map (\<lambda>p. snd (the (T p))) (drop i (zip xs ys)))
     else Inl ProjError)"
  using assms
proof (induction T bs xs ys i acc rule: transform_batches.induct)
  case (1 T bs xs ys i acc)
  let ?n = "length xs"
  let ?Z = "zip xs ys"
  let ?P = "\<lambda>p. T p \<noteq> None"
  let ?fx = "\<lambda>p. fst (the (T p))"
  let ?fy = "\<lambda>p. snd (the (T p))"
  show ?case
  proof (cases "i < ?n")
    case False
    then have "drop i ?Z = []" using "1.prems" by simp
    moreover have "take i (fst acc) = fst acc" "take i (snd acc) = snd acc"
      using False "1.prems" by simp_all
    ultimately show ?thesis using False "1.prems"
      by (subst transform_batches.simps) simp
  next
    case True
    define e where "e = min (i + bs) ?n"
    have ie: "i < e" "e \<le> ?n" using True "1.prems"(1) by (simp_all add: e_def)
    have split: "drop i ?Z = slice ?Z i e @ drop e ?Z"
      using slice_drop_append[of i e ?Z] ie by simp
    have lsl: "length (slice ?Z i e) = e - i"
      using ie "1.prems" by (simp add: slice_def)
    show ?thesis
    proof (cases "list_all ?P (slice ?Z i e)")
      case False
      then have "\<not> list_all ?P (drop i ?Z)" using split by simp
      then show ?thesis using False True "1.prems"
        by (subst transform_batches.simps) (simp add: transformer_transform_zip e_def[symmetric] Let_def)
    next
      case ok: True
      let ?acc' = "(slice_assign (fst acc) i e (map ?fx (slice ?Z i e)),
                    slice_assign (snd acc) i e (map ?fy (slice ?Z i e)))"
      have len': "length (fst ?acc') = ?n" "length (snd ?acc') = ?n"
        using ie "1.prems" lsl by (simp_all add: slice_assign_def)
      have step: "transform_batches T bs xs ys i acc = transform_batches T bs xs ys (i + bs) ?acc'"
        using ok True "1.prems"
        by (subst transform_batches.simps) (simp add: transformer_transform_zip e_def[symmetric] Let_def)
      have IH: "transform_batches T bs xs ys (i + bs) ?acc' =
        (if list_all ?P (drop (i + bs) ?Z)
         then Inr (take (i + bs) (fst ?acc') @ map ?fx (drop (i + bs) ?Z),
                   take (i + bs) (snd ?acc') @ map ?fy (drop (i + bs) ?Z))
         else Inl ProjError)"
        using "1.IH"[of e "slice xs i e" "slice ys i e" "(map ?fx (slice ?Z i e), map ?fy (slice ?Z i e))"]
              ok True "1.prems" len'
        by (simp add: transformer_transform_zip e_def)
      have tk: "take (i + bs) (fst ?acc') @ map ?fx (drop (i + bs) ?Z) = take i (fst acc) @ map ?fx (drop i ?Z)"
               "take (i + bs) (snd ?acc') @ map ?fy (drop (i + bs) ?Z) = take i (snd acc) @ map ?fy (drop i ?Z)"
      proof -
        have d: "drop (i + bs) ?Z = drop e ?Z"
          using "1.prems" by (cases "i + bs \<le> ?n") (simp_all add: e_def min_def)
        have k: "i + bs = e \<or> (e = ?n \<and> ?n \<le> i + bs)" by (auto simp: e_def min_def)
        have "take (i + bs) (fst ?acc') = take i (fst acc) @ map ?fx (slice ?Z i e) @ (if i + bs = e then [] else drop e (fst acc))"
          using k ie "1.prems" lsl by (auto simp: slice_assign_def)
        moreover have "drop e (fst acc) = [] \<or> i + bs = e" using k ie "1.prems" by auto
        ultimately show "take (i + bs) (fst ?acc') @ map ?fx (drop (i + bs) ?Z) = take i (fst acc) @ map ?fx (drop i ?Z)"
          unfolding d split by auto
        have "take (i + bs) (snd ?acc') = take i (snd acc) @ map ?fy (slice ?Z i e) @ (if i + bs = e then [] else drop e (snd acc))"
          using k ie "1.prems" lsl by (auto simp: slice_assign_def)
        moreover have "drop e (snd acc) = [] \<or> i + bs = e" using k ie "1.prems" by auto
        ultimately show "take (i + bs) (snd ?acc') @ map ?fy (drop (i + bs) ?Z) = take i (snd acc) @ map ?fy (drop i ?Z)"
          unfolding d split by auto
      qed
      have all: "list_all ?P (drop i ?Z) = list_all ?P (drop (i + bs) ?Z)"
      proof -
        have "drop (i + bs) ?Z = drop e ?Z"
          using "1.prems" by (cases "i + bs \<le> ?n") (simp_all add: e_def min_def)
        then show ?thesis using ok split by simp
      qed
      show ?thesis unfolding step IH all tk ..
    qed
  qed
qed

text \<open>
  C7. Once the source CRS is known and the transformer exists, the batched transform of
  \<^verbatim>\<open>transform_point_cloud_to_ortho_crs\<close> (batches of 500,000 points) gives what one call of
  the transformer on the whole arrays gives: the same x and y arrays, as long as the input
  and in its order. When a batch raises, the result is the RuntimeError that carries the
  cause, and no array is returned.
\<close>

theorem batched_transform_equals_single_call:
  assumes "length (las_y las) = length (las_x las)"
    and "resolve_source_crs w las source_crs = Inr src"
    and "make_transformer w src ortho_crs = Inr T"
  shows "transform_point_cloud_to_ortho_crs w las ortho_crs source_crs =
           (case transformer_transform T (las_x las) (las_y las) of
              Inl e \<Rightarrow> Inl (RuntimeError ''Coordinate transformation failed'' e)
            | Inr r \<Rightarrow> Inr r)
         \<and> (\<forall>tx ty. transform_point_cloud_to_ortho_crs w las ortho_crs source_crs = Inr (tx, ty) \<longrightarrow>
               length tx = length (las_x las) \<and> length ty = length (las_x las) \<and>
               (\<forall>k < length (las_x las). T (las_x las ! k, las_y las ! k) = Some (tx ! k, ty ! k)))
         \<and> ((\<exists>k < length (las_x las). T (las_x las ! k, las_y las ! k) = None) \<longrightarrow>
               transform_point_cloud_to_ortho_crs w las ortho_crs source_crs =
                 Inl (RuntimeError ''Coordinate transformation failed'' ProjError))"
proof -
  let ?xs = "las_x las" and ?ys = "las_y las"
  let ?P = "\<lambda>p. T p \<noteq> None"
  have single: "transformer_transform T ?xs ?ys =
      (if list_all ?P (zip ?xs ?ys)
       then Inr (map (\<lambda>p. fst (the (T p))) (zip ?xs ?ys), map (\<lambda>p. snd (the (T p))) (zip ?xs ?ys))
       else Inl ProjError)"
    using assms(1) by (simp add: transformer_transform_def)
  have batched: "transform_batches T batch_size ?xs ?ys 0 (replicate (length ?xs) 0, replicate (length ?ys) 0) =
      (if list_all ?P (zip ?xs ?ys)
       then Inr (map (\<lambda>p. fst (the (T p))) (zip ?xs ?ys), map (\<lambda>p. snd (the (T p))) (zip ?xs ?ys))
       else Inl ProjError)"
    using transform_batches_eq[of batch_size ?ys ?xs "(replicate (length ?xs) 0, replicate (length ?ys) 0)" T 0]
      assms(1) by (simp add: batch_size_def)
  have whole: "transform_point_cloud_to_ortho_crs w las ortho_crs source_crs =
      (if list_all ?P (zip ?xs ?ys)
       then Inr (map (\<lambda>p. fst (the (T p))) (zip ?xs ?ys), map (\<lambda>p. snd (the (T p))) (zip ?xs ?ys))
       else Inl (RuntimeError ''Coordinate transformation failed'' ProjError))"
    by (simp add: transform_point_cloud_to_ortho_crs_def assms(2,3) batched)
  have eq: "transform_point_cloud_to_ortho_crs w las ortho_crs source_crs =
           (case transformer_transform T ?xs ?ys of
              Inl e \<Rightarrow> Inl (RuntimeError ''Coordinate transformation failed'' e)
            | Inr r \<Rightarrow> Inr r)"
    unfolding whole single by simp
  have elems: "length tx = length ?xs \<and> length ty = length ?xs \<and>
               (\<forall>k < length ?xs. T (?xs ! k, ?ys ! k) = Some (tx ! k, ty ! k))"
    if r: "transform_point_cloud_to_ortho_crs w las ortho_crs source_crs = Inr (tx, ty)" for tx ty
  proof -
    have all: "list_all ?P (zip ?xs ?ys)" using r unfolding whole by (simp split: if_splits)
    then have tx: "tx = map (\<lambda>p. fst (the (T p))) (zip ?xs ?ys)"
      and ty: "ty = map (\<lambda>p. snd (the (T p))) (zip ?xs ?ys)"
      using r unfolding whole by simp_all
    have "T (?xs ! k, ?ys ! k) = Some (tx ! k, ty ! k)" if "k < length ?xs" for k
    proof -
      have "(?xs ! k, ?ys ! k) \<in> set (zip ?xs ?ys)"
        using that assms(1) by (metis length_zip min.idem nth_mem nth_zip)
      then have "T (?xs ! k, ?ys ! k) \<noteq> None" using all by (simp add: list_all_iff)
      then show ?thesis using that assms(1) by (auto simp: tx ty)
    qed
    then show ?thesis using assms(1) by (simp add: tx ty)
  qed
  have fails: "transform_point_cloud_to_ortho_crs w las ortho_crs source_crs =
                 Inl (RuntimeError ''Coordinate transformation failed'' ProjError)"
    if "\<exists>k < length ?xs. T (?xs ! k, ?ys ! k) = None"
  proof -
    from that obtain k where k: "k < length ?xs" "T (?xs ! k, ?ys ! k) = None" by blast
    have "(?xs ! k, ?ys ! k) \<in> set (zip ?xs ?ys)"
      using k assms(1) by (metis length_zip min.idem nth_mem nth_zip)
    then have "\<not> list_all ?P (zip ?xs ?ys)" using k(2) unfolding list_all_iff by force
    then show ?thesis unfolding whole by simp
  qed
  show ?thesis using eq elems fails by blast
qed

theorem batched_transform_witness:
  "transform_point_cloud_to_ortho_crs example_world example_las ''EPSG:26913'' (Some ''EPSG:4326'')
     = Inr ([11, 12, 13], [24, 25, 26])
   \<and> transform_point_cloud_to_ortho_crs example_world (example_las\<lparr>las_y := [4, 0, 6]\<rparr>) ''EPSG:26913'' (Some ''EPSG:4326'')
     = Inl (RuntimeError ''Coordinate transformation failed'' ProjError)"
proof -
  have r: "resolve_source_crs example_world l (Some ''EPSG:4326'') = Inr ''EPSG:4326''" for l
    by (simp add: resolve_source_crs_def)
  have m: "make_transformer example_world ''EPSG:4326'' ''EPSG:26913'' = Inr example_transformer"
    by (simp add: example_world_def)
  have a: "transform_point_cloud_to_ortho_crs example_world example_las ''EPSG:26913'' (Some ''EPSG:4326'')
     = Inr ([11, 12, 13], [24, 25, 26])"
    using batched_transform_equals_single_call[OF _ r m, of example_las]
    by (simp add: example_las_def transformer_transform_def example_transformer_def)
  have b: "transform_point_cloud_to_ortho_crs example_world (example_las\<lparr>las_y := [4, 0, 6]\<rparr>) ''EPSG:26913'' (Some ''EPSG:4326'')
     = Inl (RuntimeError ''Coordinate transformation failed'' ProjError)"
    using batched_transform_equals_single_call[OF _ r m, of "example_las\<lparr>las_y := [4, 0, 6]\<rparr>"]
    by (simp add: example_las_def transformer_transform_def example_transformer_def)
  show ?thesis using a b by simp
qed

lemma transform_lengths:
  assumes "length (las_y las) = length (las_x las)"
    and "transform_point_cloud_to_ortho_crs w las ortho_crs source_crs = Inr t"
  shows "length (fst t) = length (las_x las) \<and> length (snd t) = length (las_x las)"
proof -
  let ?xs = "las_x las" and ?ys = "las_y las"
  from assms(2) obtain src T where
    b: "transform_batches T batch_size ?xs ?ys 0 (replicate (length ?xs) 0, replicate (length ?ys) 0) = Inr t"
    by (auto simp: transform_point_cloud_to_ortho_crs_def split: sum.splits)
  have "transform_batches T batch_size ?xs ?ys 0 (replicate (length ?xs) 0, replicate (length ?ys) 0) =
      (if list_all (\<lambda>p. T p \<noteq> None) (zip ?xs ?ys)
       then Inr (map (\<lambda>p. fst (the (T p))) (zip ?xs ?ys), map (\<lambda>p. snd (the (T p))) (zip ?xs ?ys))
       else Inl ProjError)"
    using transform_batches_eq[of batch_size ?ys ?xs "(replicate (length ?xs) 0, replicate (length ?ys) 0)" T 0]
      assms(1) by (simp add: batch_size_def)
  then show ?thesis using b assms(1) by (auto split: if_splits)
qed

section \<open>Arrays, masks and the diagnostic plot\<close>

lemma np_min_case:
  "(case np_min a of Inl e \<Rightarrow> Inl e | Inr lowest \<Rightarrow> r) =
   (if a = [] then Inl (ValueError ''zero-size array to reduction operation minimum which has no identity'')
    else r)"
  by (simp add: np_min_def)

lemma length_mask_assign: "length (mask_assign cs m vs) = length cs"
  by (induction cs m vs rule: mask_assign.induct) simp_all

lemma np_sum_le: "np_sum m \<le> length m"
  by (simp add: np_sum_def)

lemma selected_length: "length m = length a \<Longrightarrow> length (filter snd (zip a m)) = np_sum m"
proof (induction a m rule: list_induct2')
  case (4 x xs y ys)
  then show ?case by (simp add: np_sum_def)
qed (simp_all add: np_sum_def)

lemma selected_nths:
  "length m = length a \<Longrightarrow> map fst (filter snd (zip a m)) = nths a {i. i < length m \<and> m ! i}"
proof (induction a m rule: list_induct2')
  case (4 x xs b bs)
  have s: "{j. Suc j \<in> {i. i < length (b # bs) \<and> (b # bs) ! i}} = {i. i < length bs \<and> bs ! i}"
    by auto
  show ?case using 4 by (simp add: nths_Cons s)
qed simp_all

lemma bool_index_Inr:
  "bool_index a m = Inr r \<Longrightarrow> length m = length a \<and> r = nths a {i. i < length m \<and> m ! i} \<and> length r = np_sum m"
proof -
  assume a: "bool_index a m = Inr r"
  then have l: "length m = length a" and r: "r = map fst (filter snd (zip a m))"
    by (auto simp: bool_index_def split: if_splits)
  have "length r = np_sum m" unfolding r using selected_length[OF l] by simp
  then show ?thesis using l r selected_nths[OF l] by simp
qed

lemma bool_index_selected:
  "bool_index a m = Inr r \<Longrightarrow> r = nths a (selected m) \<and> length r = np_sum m"
proof -
  assume a: "bool_index a m = Inr r"
  from bool_index_Inr[OF a] have "r = nths a {i. i < length m \<and> m ! i}" "length r = np_sum m"
    by blast+
  then show ?thesis unfolding selected_def by blast
qed

lemma np_sum_card: "np_sum m = card (selected m)"
  unfolding np_sum_def selected_def by (simp add: length_filter_conv_card)

lemma filter_nths_card:
  "length (filter P (nths xs A)) = card {i. i < length xs \<and> i \<in> A \<and> P (xs ! i)}"
proof -
  let ?z = "zip xs [0..<length xs]"
  have "filter P (nths xs A) = map fst (filter (\<lambda>p. snd p \<in> A \<and> P (fst p)) ?z)"
    unfolding nths_def by (simp add: filter_map comp_def conj_commute)
  then have "length (filter P (nths xs A)) = length (filter (\<lambda>p. snd p \<in> A \<and> P (fst p)) ?z)"
    by simp
  also have "\<dots> = card {i. i < length ?z \<and> (snd (?z ! i) \<in> A \<and> P (fst (?z ! i)))}"
    by (rule length_filter_conv_card)
  also have "{i. i < length ?z \<and> (snd (?z ! i) \<in> A \<and> P (fst (?z ! i)))} =
             {i. i < length xs \<and> i \<in> A \<and> P (xs ! i)}"
    by auto
  finally show ?thesis .
qed

lemma mask_assign_selected:
  "length cs = length m \<Longrightarrow> length m = length a \<Longrightarrow>
   mask_assign cs m (map f (map fst (filter snd (zip a m)))) =
   map (\<lambda>t. if snd (snd t) then f (fst (snd t)) else fst t) (zip cs (zip a m))"
proof (induction cs m a rule: list_induct3)
  case (Cons c cs b bs x xs)
  then show ?case by (cases b) simp_all
qed simp

lemma np_sum_pos: "i < length m \<Longrightarrow> m ! i \<Longrightarrow> np_sum m \<noteq> 0"
proof -
  assume "i < length m" "m ! i"
  then have "True \<in> set m" by (metis nth_mem)
  then have "filter (\<lambda>b. b) m \<noteq> []" by (auto simp: filter_empty_conv)
  then show ?thesis unfolding np_sum_def by simp
qed

lemma archive_scale_eq:
  "archive_scale p d vs =
     (if d = UInt8 \<and> p = Weak then Inl OverflowError else Inr (map (scale_value d) vs))"
  by (cases d; cases p) (simp_all add: archive_scale_def sublist_Cons_right)

lemma scale_channels_eq:
  "scale_channels p d cs m R G B =
     (if d = UInt8 \<and> p = Weak then Inl OverflowError
      else Inr (archive_scale_log d,
                assign_channels cs m (map (scale_value d) R) (map (scale_value d) G) (map (scale_value d) B)))"
  by (simp add: scale_channels_def archive_scale_eq)

lemma sample_colors_length: "sample_colors p ortho loc tot = Inr lc \<Longrightarrow> length (snd lc) = tot"
  by (auto simp: sample_colors_def np_min_case scale_channels_eq assign_channels_def length_mask_assign
      split: sum.splits if_splits)

lemma colorize_with_length: "colorize_with p ortho loc tot = Inr cm \<Longrightarrow> length (fst cm) = tot"
  by (auto simp: colorize_with_def split: sum.splits dest: sample_colors_length)

lemma colorize_with_mask: "colorize_with p ortho loc tot = Inr cm \<Longrightarrow> snd cm = valid_mask loc"
  by (auto simp: colorize_with_def split: sum.splits)

lemma after_failed_correction_length:
  "after_failed_correction p ortho loc tot = Inr cm \<Longrightarrow> length (fst cm) = tot"
  by (auto simp: after_failed_correction_def split: if_splits dest: colorize_with_length)

lemma after_failed_correction_mask:
  "after_failed_correction p ortho loc tot = Inr cm \<Longrightarrow> snd cm = valid_mask loc"
  by (auto simp: after_failed_correction_def split: if_splits dest: colorize_with_mask)

lemma take_indices_total:
  "\<forall>i \<in> set indices. i < length a \<Longrightarrow> take_indices a indices = Inr (map (\<lambda>i. a ! i) indices)"
  by (simp add: take_indices_def list_all_iff)

lemma create_alignment_diagnostic_total:
  assumes "valid_choice (random_choice w)" and "length ty = length tx"
  shows "\<exists>d. create_alignment_diagnostic w ortho tx ty = Inr d"
proof -
  let ?k = "min 5000 (length tx)"
  have k: "?k \<le> length tx" by simp
  have v: "\<forall>i \<in> set (random_choice w (length tx) ?k). i < length tx"
    using assms(1) k unfolding valid_choice_def by blast
  have c: "np_random_choice w (length tx) ?k = Inr (random_choice w (length tx) ?k)"
    by (simp add: np_random_choice_def)
  have x: "take_indices tx (random_choice w (length tx) ?k) =
           Inr (map (\<lambda>i. tx ! i) (random_choice w (length tx) ?k))"
    using v by (rule take_indices_total)
  have y: "take_indices ty (random_choice w (length tx) ?k) =
           Inr (map (\<lambda>i. ty ! i) (random_choice w (length tx) ?k))"
    using v assms(2) by (intro take_indices_total) simp
  show ?thesis by (simp add: create_alignment_diagnostic_def Let_def c x y)
qed

lemma diagnostic_step_case:
  assumes "valid_choice (random_choice w)" and "length ty = length tx"
  shows "(case diagnostic_step w ortho pcb tx ty of Inl e \<Rightarrow> Inl e | Inr plots \<Rightarrow> r) = r"
proof -
  obtain d where "create_alignment_diagnostic w ortho tx ty = Inr d"
    using create_alignment_diagnostic_total[OF assms] by blast
  then show ?thesis by (simp add: diagnostic_step_def Let_def)
qed

lemma diagnostic_step_fetch:
  "diagnostic_step (w\<lparr>fetch_corrected := f\<rparr>) ortho pcb tx ty = diagnostic_step w ortho pcb tx ty"
proof -
  have h: "create_alignment_diagnostic (w\<lparr>fetch_corrected := f\<rparr>) ortho tx ty =
        create_alignment_diagnostic w ortho tx ty"
    by (simp add: create_alignment_diagnostic_def np_random_choice_def)
  show ?thesis unfolding diagnostic_step_def h by simp
qed

lemma locate_points_fetch:
  "locate_points (w\<lparr>fetch_corrected := f\<rparr>) las ortho source_crs = locate_points w las ortho source_crs"
proof -
  have t: "transform_point_cloud_to_ortho_crs (w\<lparr>fetch_corrected := f\<rparr>) las c source_crs
           = transform_point_cloud_to_ortho_crs w las c source_crs" for c
    by (simp add: transform_point_cloud_to_ortho_crs_def resolve_source_crs_def
        cong: sum.case_cong option.case_cong)
  have p: "pixel_coordinates (w\<lparr>fetch_corrected := f\<rparr>) ortho tx ty = pixel_coordinates w ortho tx ty" for tx ty
    by (simp add: pixel_coordinates_def)
  show ?thesis
    by (simp add: locate_points_def t p diagnostic_step_fetch cong: sum.case_cong option.case_cong)
qed

lemma locate_points_diagnostics:
  assumes "length (las_y las) = length (las_x las)"
    and "valid_choice (random_choice w)" and "valid_choice r"
  shows "locate_points (w\<lparr>create_diagnostics := c, random_choice := r\<rparr>) las ortho source_crs =
         locate_points w las ortho source_crs"
proof (cases "r_crs ortho")
  case None
  then show ?thesis by (simp add: locate_points_def)
next
  case (Some ortho_crs)
  let ?w = "w\<lparr>create_diagnostics := c, random_choice := r\<rparr>"
  have t: "transform_point_cloud_to_ortho_crs ?w las ortho_crs source_crs
           = transform_point_cloud_to_ortho_crs w las ortho_crs source_crs"
    by (simp add: transform_point_cloud_to_ortho_crs_def resolve_source_crs_def
        cong: sum.case_cong option.case_cong)
  have p: "pixel_coordinates ?w ortho tx ty = pixel_coordinates w ortho tx ty" for tx ty
    by (simp add: pixel_coordinates_def)
  show ?thesis
  proof (cases "transform_point_cloud_to_ortho_crs w las ortho_crs source_crs")
    case (Inl e)
    then show ?thesis using Some t by (simp add: locate_points_def)
  next
    case (Inr tr)
    have l: "length (snd tr) = length (fst tr)"
      using transform_lengths[OF assms(1) Inr] by simp
    have v: "valid_choice (random_choice ?w)" using assms(3) by simp
    show ?thesis
      using Some t Inr
      by (simp add: locate_points_def p diagnostic_step_case[OF assms(2) l] diagnostic_step_case[OF v l]
          cong: sum.case_cong)
  qed
qed

lemma locate_points_valid:
  "locate_points w las ortho source_crs = Inr loc \<Longrightarrow>
   valid_mask loc = valid_pixels ortho (pixel_rows loc) (pixel_cols loc)"
  by (auto simp: locate_points_def split: option.splits sum.splits)

lemma colorize_point_cloud_length:
  "snd (colorize_point_cloud depth w n las ortho source_crs) = Inr cm \<Longrightarrow> length (fst cm) = num_points las"
proof (induction depth arbitrary: n ortho cm)
  case 0
  then show ?case by simp
next
  case (Suc depth)
  show ?case
  proof (cases "locate_points w las ortho source_crs")
    case (Inl e)
    then show ?thesis using Suc.prems by (simp add: colorize_point_cloud.simps(2))
  next
    case (Inr loc)
    show ?thesis
    proof (cases "low_coverage (valid_mask loc) (num_points las)")
      case False
      then show ?thesis using Suc.prems Inr by (simp add: colorize_point_cloud.simps(2) colorize_with_length)
    next
      case True
      show ?thesis
      proof (cases "fetch_corrected w n (pc_bounds loc)")
        case (Inl e)
        then show ?thesis using Suc.prems Inr True
          by (simp add: colorize_point_cloud.simps(2) after_failed_correction_length)
      next
        case c: (Inr corrected)
        obtain n' r where rec: "colorize_point_cloud depth w (Suc n) las corrected source_crs = (n', r)"
          by (cases "colorize_point_cloud depth w (Suc n) las corrected source_crs")
        show ?thesis
        proof (cases r)
          case (Inl e)
          then show ?thesis using Suc.prems Inr True c rec
            by (simp add: colorize_point_cloud.simps(2) after_failed_correction_length)
        next
          case r: (Inr res)
          then have "res = cm" using Suc.prems Inr True c rec by (simp add: colorize_point_cloud.simps(2))
          moreover have "snd (colorize_point_cloud depth w (Suc n) las corrected source_crs) = Inr res"
            using rec r by simp
          ultimately show ?thesis using Suc.IH by blast
        qed
      qed
    qed
  qed
qed

lemma colorize_point_cloud_mask:
  "snd (colorize_point_cloud depth w n las ortho source_crs) = Inr cm \<Longrightarrow>
   \<exists>sampled_raster loc. locate_points w las sampled_raster source_crs = Inr loc \<and> snd cm = valid_mask loc"
proof (induction depth arbitrary: n ortho cm)
  case 0
  then show ?case by simp
next
  case (Suc depth)
  show ?case
  proof (cases "locate_points w las ortho source_crs")
    case (Inl e)
    then show ?thesis using Suc.prems by (simp add: colorize_point_cloud.simps(2))
  next
    case (Inr loc)
    show ?thesis
    proof (cases "low_coverage (valid_mask loc) (num_points las)")
      case False
      then have "snd cm = valid_mask loc"
        using Suc.prems Inr by (simp add: colorize_point_cloud.simps(2) colorize_with_mask)
      then show ?thesis using Inr by blast
    next
      case True
      show ?thesis
      proof (cases "fetch_corrected w n (pc_bounds loc)")
        case (Inl e)
        then have "snd cm = valid_mask loc" using Suc.prems Inr True
          by (simp add: colorize_point_cloud.simps(2) after_failed_correction_mask)
        then show ?thesis using Inr by blast
      next
        case c: (Inr corrected)
        obtain n' r where rec: "colorize_point_cloud depth w (Suc n) las corrected source_crs = (n', r)"
          by (cases "colorize_point_cloud depth w (Suc n) las corrected source_crs")
        show ?thesis
        proof (cases r)
          case (Inl e)
          then have "snd cm = valid_mask loc" using Suc.prems Inr True c rec
            by (simp add: colorize_point_cloud.simps(2) after_failed_correction_mask)
          then show ?thesis using Inr by blast
        next
          case r: (Inr res)
          then have "res = cm" using Suc.prems Inr True c rec by (simp add: colorize_point_cloud.simps(2))
          moreover have "snd (colorize_point_cloud depth w (Suc n) las corrected source_crs) = Inr res"
            using rec r by simp
          ultimately show ?thesis using Suc.IH by blast
        qed
      qed
    qed
  qed
qed

section \<open>Coverage and the corrected raster\<close>

lemma example_world_fields:
  "rowcol example_world = example_rowcol"
  "make_transformer example_world src tgt = Inr example_transformer"
  "detect_point_cloud_crs example_world las = h_crs (las_header las)"
  "create_diagnostics example_world = False"
  "numpy_promotion example_world = ValueBased"
  "random_choice example_world = (\<lambda>n k. take k [0..<n])"
  "header_error example_world version fmt = None"
  "assign_error example_world fmt name values = None"
  by (simp_all add: example_world_def)

lemma example_valid_choice:
  "valid_choice (\<lambda>n k. take k [0..<n])"
  "valid_choice (\<lambda>n k. take k (rev [0..<n]))"
proof -
  show "valid_choice (\<lambda>n k. take k [0..<n])"
    unfolding valid_choice_def
  proof (intro allI impI conjI ballI)
    fix n k i :: nat
    assume "i \<in> set (take k [0..<n])"
    then have "i \<in> set [0..<n]" by (rule in_set_takeD)
    then show "i < n" by simp
  qed simp_all
  show "valid_choice (\<lambda>n k. take k (rev [0..<n]))"
    unfolding valid_choice_def
  proof (intro allI impI conjI ballI)
    fix n k i :: nat
    assume "i \<in> set (take k (rev [0..<n]))"
    then have "i \<in> set (rev [0..<n])" by (rule in_set_takeD)
    then show "i < n" by simp
  qed simp_all
qed

lemma example_world_choice: "valid_choice (random_choice example_world)"
  by (simp add: example_world_fields example_valid_choice)

lemma example_resolve:
  "resolve_source_crs example_world example_las None = Inr ''EPSG:4326''"
  by (simp add: resolve_source_crs_def example_world_def example_las_def example_header_def
      np_min_def np_max_def range_fallback_crs_def)

lemma example_transform:
  "transform_point_cloud_to_ortho_crs example_world example_las ''EPSG:26913'' None
     = Inr ([11, 12, 13], [24, 25, 26])"
proof -
  have m: "make_transformer example_world ''EPSG:4326'' ''EPSG:26913'' = Inr example_transformer"
    by (simp add: example_world_def)
  have l: "length (las_y example_las) = length (las_x example_las)" by (simp add: example_las_def)
  have b: "transform_batches example_transformer batch_size (las_x example_las) (las_y example_las) 0
        (replicate (length (las_x example_las)) 0, replicate (length (las_y example_las)) 0)
     = Inr ([11, 12, 13], [24, 25, 26])"
    by (subst transform_batches_eq) (simp_all add: batch_size_def example_las_def example_transformer_def)
  show ?thesis
    by (simp add: transform_point_cloud_to_ortho_crs_def example_resolve m b)
qed

lemma example_locate:
  "locate_points example_world example_las example_raster None =
     Inr \<lparr>pc_bounds = \<lparr>left = 11, bottom = 24, right = 13, top = 26\<rparr>,
          pixel_rows = [2, 1, 0], pixel_cols = [1, 2, 3], valid_mask = [True, True, False]\<rparr>"
  by (simp add: locate_points_def example_raster_def example_transform transformed_bounds_def
      np_min_def np_max_def pixel_coordinates_def transform_issues_def valid_pixels_def
      example_world_fields example_rowcol_def diagnostic_step_def bounds_overlap_def)

lemma far_locate:
  "locate_points example_world example_las far_raster None =
     Inr \<lparr>pc_bounds = \<lparr>left = 11, bottom = 24, right = 13, top = 26\<rparr>,
          pixel_rows = [2, 1, 0], pixel_cols = [- 999, - 998, - 997], valid_mask = [False, False, False]\<rparr>"
  by (simp add: locate_points_def far_raster_def example_raster_def example_transform transformed_bounds_def
      np_min_def np_max_def pixel_coordinates_def transform_issues_def valid_pixels_def
      example_world_fields example_rowcol_def diagnostic_step_case[OF example_world_choice])

lemma example_colors:
  "colorize_with ValueBased example_raster
     \<lparr>pc_bounds = \<lparr>left = 11, bottom = 24, right = 13, top = 26\<rparr>,
      pixel_rows = [2, 1, 0], pixel_cols = [1, 2, 3], valid_mask = [True, True, False]\<rparr> 3
   = Inr ([(14649, 27499, 40349), (14135, 26985, 39835), (0, 0, 0)], [True, True, False])"
proof -
  have r: "replicate 3 x = [x, x, x]" for x :: "u16 \<times> u16 \<times> u16"
    by (simp add: numeral_3_eq_3)
  show ?thesis
    by (simp add: colorize_with_def sample_colors_def np_min_case bool_index_def example_raster_def read_at_def
      scale_channels_eq r assign_channels_def int_to_uint16_def)
qed

lemma example_low_coverage:
  "\<not> low_coverage [True, True, False] 3" "low_coverage [False, False, False] 3"
  by (simp_all add: low_coverage_def np_sum_def coverage_threshold_def)

lemma example_num_points: "num_points example_las = 3"
  by (simp add: num_points_def example_las_def)

lemma example_colorize:
  "colorize_point_cloud (Suc d) w n example_las example_raster None =
     (n, Inr ([(14649, 27499, 40349), (14135, 26985, 39835), (0, 0, 0)], [True, True, False]))"
  if "locate_points w example_las example_raster None = locate_points example_world example_las example_raster None"
    and "numpy_promotion w = ValueBased"
  using that by (simp add: colorize_point_cloud.simps(2) example_locate example_low_coverage
      example_num_points example_colors)

lemma retry_world_locate:
  "locate_points retry_world las ortho source_crs = locate_points example_world las ortho source_crs"
  by (simp add: retry_world_def locate_points_fetch)

lemma retry_world_fetch:
  "fetch_corrected retry_world 0 b = Inr far_raster"
  "fetch_corrected retry_world (Suc k) b = Inr example_raster"
  "numpy_promotion retry_world = ValueBased"
  by (simp_all add: retry_world_def example_world_fields)

lemma retry_run:
  "colorize_point_cloud (Suc (Suc (Suc d))) retry_world 0 example_las far_raster None =
     (Suc (Suc 0), Inr ([(14649, 27499, 40349), (14135, 26985, 39835), (0, 0, 0)], [True, True, False]))"
proof -
  have third: "colorize_point_cloud (Suc d) retry_world (Suc (Suc 0)) example_las example_raster None =
     (Suc (Suc 0), Inr ([(14649, 27499, 40349), (14135, 26985, 39835), (0, 0, 0)], [True, True, False]))"
    by (rule example_colorize) (rule retry_world_locate, rule retry_world_fetch)
  have second: "colorize_point_cloud (Suc (Suc d)) retry_world (Suc 0) example_las far_raster None =
     (Suc (Suc 0), Inr ([(14649, 27499, 40349), (14135, 26985, 39835), (0, 0, 0)], [True, True, False]))"
    by (subst colorize_point_cloud.simps(2))
       (simp add: retry_world_locate far_locate example_low_coverage example_num_points
          retry_world_fetch third)
  show ?thesis
    by (subst colorize_point_cloud.simps(2))
       (simp add: retry_world_locate far_locate example_low_coverage example_num_points
          retry_world_fetch second)
qed

lemma colorize_count_bounds:
  "n \<le> fst (colorize_point_cloud depth w n las ortho source_crs) \<and>
   fst (colorize_point_cloud depth w n las ortho source_crs) \<le> n + depth"
proof (induction depth arbitrary: n ortho)
  case 0
  show ?case by simp
next
  case (Suc depth)
  show ?case
  proof (cases "locate_points w las ortho source_crs")
    case (Inl e)
    then show ?thesis by (simp add: colorize_point_cloud.simps(2))
  next
    case (Inr loc)
    show ?thesis
    proof (cases "low_coverage (valid_mask loc) (num_points las)")
      case False
      then show ?thesis using Inr by (simp add: colorize_point_cloud.simps(2))
    next
      case True
      show ?thesis
      proof (cases "fetch_corrected w n (pc_bounds loc)")
        case (Inl e)
        then show ?thesis using Inr True by (simp add: colorize_point_cloud.simps(2))
      next
        case c: (Inr corrected)
        obtain n' r where rec: "colorize_point_cloud depth w (Suc n) las corrected source_crs = (n', r)"
          by (cases "colorize_point_cloud depth w (Suc n) las corrected source_crs")
        have "Suc n \<le> n' \<and> n' \<le> Suc n + depth"
          using Suc.IH[of "Suc n" corrected] rec by simp
        moreover have "fst (colorize_point_cloud (Suc depth) w n las ortho source_crs) = n'"
          using Inr True c rec by (cases r) (simp_all add: colorize_point_cloud.simps(2))
        ultimately show ?thesis by simp
      qed
    qed
  qed
qed

lemma colorize_no_correction:
  assumes "\<not> correction_triggered w las ortho source_crs"
  shows "colorize_point_cloud (Suc depth) w n las ortho source_crs =
     (n, case locate_points w las ortho source_crs of
           Inl e \<Rightarrow> Inl e
         | Inr loc \<Rightarrow> colorize_with (numpy_promotion w) ortho loc (num_points las))"
  using assms by (cases "locate_points w las ortho source_crs")
    (simp_all add: colorize_point_cloud.simps(2) correction_triggered_def)

text \<open>
  C1, as the code has it. A call of \<^verbatim>\<open>colorize_point_cloud\<close> asks for a replacement raster
  at most once itself, and only when its coverage is zero or below 10%. When the
  replacement arrives the method calls itself on it, and that call asks again when the
  replacement covers too little: the number of nested re-runs is bounded by the depth the
  interpreter admits, not by one. It is zero when the first raster covers enough or the
  download fails, and one when the first replacement covers enough.
\<close>

theorem correction_reruns:
  "n \<le> fst (colorize_point_cloud depth w n las ortho source_crs)
   \<and> fst (colorize_point_cloud depth w n las ortho source_crs) \<le> n + depth
   \<and> (\<not> correction_triggered w las ortho source_crs \<longrightarrow>
        fst (colorize_point_cloud depth w n las ortho source_crs) = n)
   \<and> (\<forall>loc e. locate_points w las ortho source_crs = Inr loc \<and>
          fetch_corrected w n (pc_bounds loc) = Inl e \<longrightarrow>
        fst (colorize_point_cloud depth w n las ortho source_crs) = n)
   \<and> (\<forall>loc corrected. correction_triggered w las ortho source_crs \<and>
          locate_points w las ortho source_crs = Inr loc \<and>
          fetch_corrected w n (pc_bounds loc) = Inr corrected \<and> 0 < depth \<longrightarrow>
        fst (colorize_point_cloud depth w n las ortho source_crs) =
          fst (colorize_point_cloud (depth - 1) w (Suc n) las corrected source_crs) \<and>
        Suc n \<le> fst (colorize_point_cloud depth w n las ortho source_crs) \<and>
        (\<not> correction_triggered w las corrected source_crs \<longrightarrow>
           fst (colorize_point_cloud depth w n las ortho source_crs) = Suc n))"
proof -
  have none: "fst (colorize_point_cloud depth w n las ortho source_crs) = n"
    if "\<not> correction_triggered w las ortho source_crs" for n depth ortho
    using that by (cases depth) (simp_all add: colorize_no_correction)
  have failed: "fst (colorize_point_cloud depth w n las ortho source_crs) = n"
    if "locate_points w las ortho source_crs = Inr loc" "fetch_corrected w n (pc_bounds loc) = Inl e"
    for loc e
    using that by (cases depth) (simp_all add: colorize_point_cloud.simps(2))
  have again: "fst (colorize_point_cloud depth w n las ortho source_crs) =
          fst (colorize_point_cloud (depth - 1) w (Suc n) las corrected source_crs)"
    if hyps: "correction_triggered w las ortho source_crs" "locate_points w las ortho source_crs = Inr loc"
       "fetch_corrected w n (pc_bounds loc) = Inr corrected" "0 < depth" for loc corrected
  proof -
    obtain d where d: "depth = Suc d" using hyps(4) by (cases depth) simp_all
    obtain n' r where rec: "colorize_point_cloud d w (Suc n) las corrected source_crs = (n', r)"
      by (cases "colorize_point_cloud d w (Suc n) las corrected source_crs")
    show ?thesis using hyps rec unfolding d
      by (cases r) (simp_all add: colorize_point_cloud.simps(2) correction_triggered_def)
  qed
  show ?thesis
    using colorize_count_bounds[of n depth w las ortho source_crs] none failed again
      colorize_count_bounds[of "Suc n" "depth - 1" w las _ source_crs]
    by (metis (no_types, lifting))
qed

theorem correction_reruns_witness:
  "fst (colorize_point_cloud 3 retry_world 0 example_las far_raster None) \<le> 3
   \<and> fst (colorize_point_cloud 3 retry_world 0 example_las far_raster None) =
       fst (colorize_point_cloud 2 retry_world 1 example_las far_raster None)
   \<and> fst (colorize_point_cloud 3 retry_world 5 example_las example_raster None) = 5"
proof -
  let ?loc = "\<lparr>pc_bounds = \<lparr>left = 11, bottom = 24, right = 13, top = 26\<rparr>,
          pixel_rows = [2, 1, 0], pixel_cols = [- 999, - 998, - 997], valid_mask = [False, False, False]\<rparr>"
  have t: "correction_triggered retry_world example_las far_raster None"
    by (simp add: correction_triggered_def retry_world_locate far_locate example_low_coverage example_num_points)
  have l: "locate_points retry_world example_las far_raster None = Inr ?loc"
    by (simp add: retry_world_locate far_locate)
  have f: "fetch_corrected retry_world 0 (pc_bounds ?loc) = Inr far_raster"
    by (simp add: retry_world_fetch)
  have nt: "\<not> correction_triggered retry_world example_las example_raster None"
    by (simp add: correction_triggered_def retry_world_locate example_locate example_low_coverage example_num_points)
  have "fst (colorize_point_cloud 3 retry_world 0 example_las far_raster None) =
        fst (colorize_point_cloud (3 - 1) retry_world (Suc 0) example_las far_raster None)"
    using correction_reruns[of 0 3 retry_world example_las far_raster None] t l f by simp
  moreover have "fst (colorize_point_cloud 3 retry_world 0 example_las far_raster None) \<le> 3"
    using correction_reruns[of 0 3 retry_world example_las far_raster None] by simp
  moreover have "fst (colorize_point_cloud 3 retry_world 5 example_las example_raster None) = 5"
    using correction_reruns[of 5 3 retry_world example_las example_raster None] nt by simp
  ultimately show ?thesis by simp
qed


text \<open>
  With a service whose first answer is again a raster off the points, the method runs on
  two replacement rasters in one call.
\<close>

theorem correction_reruns_counterexample:
  "fst (colorize_point_cloud 3 retry_world 0 example_las far_raster None) = 2
   \<and> correction_triggered retry_world example_las far_raster None"
proof -
  have "colorize_point_cloud (Suc (Suc (Suc 0))) retry_world 0 example_las far_raster None =
     (Suc (Suc 0), Inr ([(14649, 27499, 40349), (14135, 26985, 39835), (0, 0, 0)], [True, True, False]))"
    by (rule retry_run)
  moreover have "correction_triggered retry_world example_las far_raster None"
    by (simp add: correction_triggered_def retry_world_locate far_locate example_low_coverage example_num_points)
  ultimately show ?thesis by (simp add: numeral_3_eq_3)
qed
section \<open>Two runs on the same inputs\<close>

lemma correction_triggered_fetch:
  "correction_triggered (w\<lparr>fetch_corrected := f\<rparr>) las ortho source_crs = correction_triggered w las ortho source_crs"
  by (simp add: correction_triggered_def locate_points_fetch)

lemma locate_points_run:
  assumes "length (las_y las) = length (las_x las)"
    and "valid_choice (random_choice w)" and "valid_choice r"
  shows "locate_points (w\<lparr>create_diagnostics := c, random_choice := r, fetch_corrected := f\<rparr>) las ortho source_crs =
         locate_points w las ortho source_crs"
  using locate_points_fetch[where w = "w\<lparr>create_diagnostics := c, random_choice := r\<rparr>" and f = f
      and las = las and ortho = ortho and source_crs = source_crs]
    locate_points_diagnostics[OF assms, where c = c and ortho = ortho and source_crs = source_crs]
  by simp

lemma copy_attributes_run:
  "copy_attributes (w\<lparr>create_diagnostics := c, random_choice := r, fetch_corrected := f\<rparr>) h names las m acc =
   copy_attributes w h names las m acc"
proof (induction names arbitrary: acc)
  case Nil
  show ?case by simp
next
  case (Cons name rest)
  have s: "set_dimension (w\<lparr>create_diagnostics := c, random_choice := r, fetch_corrected := f\<rparr>) h a nm vs =
           set_dimension w h a nm vs" for a nm vs
    by (simp add: set_dimension_def)
  show ?case by (simp add: s Cons.IH cong: option.case_cong sum.case_cong)
qed

lemma save_colorized_point_cloud_run:
  "save_colorized_point_cloud (w\<lparr>create_diagnostics := c, random_choice := r, fetch_corrected := f\<rparr>) las cs m =
   save_colorized_point_cloud w las cs m"
  unfolding save_colorized_point_cloud_def copy_attributes_run by simp

text \<open>
  C8. Two runs of \<^verbatim>\<open>colorize_point_cloud\<close> on the same point cloud, the same raster and the
  same CRS pair, neither of which enters the correction branch, return the same colour
  array and the same validity mask, and \<^verbatim>\<open>process_files\<close> hands the same point cloud to the
  writer and computes the same summary. The two runs may differ in everything else a
  run depends on: what the random generator draws for the sample of the diagnostic
  plot, whether the colorizer makes diagnostic plots at all, what the imagery service
  would answer, the count of earlier requests and the recursion depth left. The draws
  reach the plot only: the sample is never larger than the population and its indices
  are within the arrays, so the plot cannot fail and nothing of it is returned.
\<close>

theorem colorization_repeatable:
  assumes "length (las_y las) = length (las_x las)"
    and "\<not> correction_triggered w las ortho source_crs"
    and "valid_choice (random_choice w)" and "valid_choice r"
  shows "snd (colorize_point_cloud (Suc d) w n las ortho source_crs) =
         snd (colorize_point_cloud (Suc d')
                (w\<lparr>create_diagnostics := c, random_choice := r, fetch_corrected := f\<rparr>) n' las ortho source_crs)
       \<and> (source_crs = None \<longrightarrow>
            process_files (Suc d) w las ortho =
            process_files (Suc d') (w\<lparr>create_diagnostics := c, random_choice := r, fetch_corrected := f\<rparr>) las ortho)"
proof -
  let ?w = "w\<lparr>create_diagnostics := c, random_choice := r, fetch_corrected := f\<rparr>"
  have l: "locate_points ?w las ortho source_crs = locate_points w las ortho source_crs"
    using assms(1,3,4) by (rule locate_points_run)
  have a: "\<not> correction_triggered ?w las ortho source_crs"
    using assms(2) by (simp add: correction_triggered_def l)
  have eq: "snd (colorize_point_cloud (Suc k) w j las ortho source_crs) =
         snd (colorize_point_cloud (Suc k') ?w j' las ortho source_crs)" for k k' j j'
    unfolding colorize_no_correction[OF assms(2)] colorize_no_correction[OF a] l
    by (simp cong: sum.case_cong)
  have "process_files (Suc d) w las ortho = process_files (Suc d') ?w las ortho"
    if "source_crs = None"
    unfolding process_files_def save_colorized_point_cloud_run using eq[of d 0 d' 0] that by simp
  then show ?thesis using eq by blast
qed

lemma example_not_triggered:
  "\<not> correction_triggered example_world example_las example_raster None"
  by (simp add: correction_triggered_def example_locate example_low_coverage example_num_points)

lemma example_diagnostics:
  "diagnostic_step example_world example_raster \<lparr>left = 11, bottom = 24, right = 13, top = 26\<rparr>
     [11, 12, 13] [24, 25, 26] = Inr []"
  "diagnostic_step diagnosing_world example_raster \<lparr>left = 11, bottom = 24, right = 13, top = 26\<rparr>
     [11, 12, 13] [24, 25, 26] =
   Inr [\<lparr>sample_x = [13, 12, 11], sample_y = [26, 25, 24], points_in_bounds = 3\<rparr>]"
proof -
  show "diagnostic_step example_world example_raster \<lparr>left = 11, bottom = 24, right = 13, top = 26\<rparr>
     [11, 12, 13] [24, 25, 26] = Inr []"
    by (simp add: diagnostic_step_def bounds_overlap_def example_world_fields example_raster_def)
  have u: "[0..<3] = [0, 1, 2]" by (simp add: upt_rec)
  have m: "min 5000 (length [11, 12, 13 :: real]) = 3" by simp
  show "diagnostic_step diagnosing_world example_raster \<lparr>left = 11, bottom = 24, right = 13, top = 26\<rparr>
     [11, 12, 13] [24, 25, 26] =
   Inr [\<lparr>sample_x = [13, 12, 11], sample_y = [26, 25, 24], points_in_bounds = 3\<rparr>]"
    unfolding diagnostic_step_def create_alignment_diagnostic_def Let_def m
    by (simp add: diagnosing_world_def np_random_choice_def u take_indices_def example_raster_def np_sum_def)
qed

theorem colorization_repeatable_witness:
  "snd (colorize_point_cloud 1 example_world 0 example_las example_raster None) =
   snd (colorize_point_cloud 3 diagnosing_world 7 example_las example_raster None)
   \<and> process_files 1 example_world example_las example_raster =
     process_files 3 diagnosing_world example_las example_raster
   \<and> diagnostic_step example_world example_raster \<lparr>left = 11, bottom = 24, right = 13, top = 26\<rparr>
       [11, 12, 13] [24, 25, 26] = Inr []
   \<and> diagnostic_step diagnosing_world example_raster \<lparr>left = 11, bottom = 24, right = 13, top = 26\<rparr>
       [11, 12, 13] [24, 25, 26] =
     Inr [\<lparr>sample_x = [13, 12, 11], sample_y = [26, 25, 24], points_in_bounds = 3\<rparr>]"
proof -
  have l: "length (las_y example_las) = length (las_x example_las)" by (simp add: example_las_def)
  show ?thesis
    using colorization_repeatable[OF l example_not_triggered example_world_choice example_valid_choice(2),
        where d = 0 and n = 0 and d' = 2 and c = True
          and f = "\<lambda>n b. if n = 0 then Inr far_raster else Inr example_raster" and n' = 7]
      example_diagnostics
    by (simp add: diagnosing_world_def numeral_3_eq_3)
qed

section \<open>The saved point cloud and the counts of the summary\<close>

lemma set_dimension_Inr:
  "set_dimension w h acc name vs = Inr acc' \<Longrightarrow> name \<in> set (point_dimensions h) \<and> acc' = acc(name \<mapsto> vs)"
  by (auto simp: set_dimension_def split: if_splits option.splits)

lemma copy_attributes_Inr:
  "copy_attributes w h names las m acc = Inr d \<Longrightarrow>
   d a = (if a \<in> set names \<and> las_dims las a \<noteq> None
          then Some (nths (the (las_dims las a)) (selected m)) else acc a)
   \<and> (a \<in> set names \<and> las_dims las a \<noteq> None \<longrightarrow> a \<in> set (point_dimensions h))"
proof (induction names arbitrary: acc)
  case Nil
  then show ?case by simp
next
  case (Cons name rest)
  show ?case
  proof (cases "las_dims las name")
    case None
    then have "copy_attributes w h rest las m acc = Inr d" using Cons.prems by simp
    from Cons.IH[OF this] show ?thesis using None by auto
  next
    case (Some col)
    then obtain c acc' where c: "bool_index col m = Inr c"
      and s: "set_dimension w h acc name c = Inr acc'"
      and r: "copy_attributes w h rest las m acc' = Inr d"
      using Cons.prems by (auto split: sum.splits)
    have cv: "c = nths col (selected m)" using bool_index_selected[OF c] by simp
    have a: "name \<in> set (point_dimensions h)" "acc' = acc(name \<mapsto> c)"
      using set_dimension_Inr[OF s] by simp_all
    from Cons.IH[OF r] show ?thesis using Some cv a by auto
  qed
qed

lemma save_colorized_point_cloud_Inr:
  assumes s: "save_colorized_point_cloud w las cs m = Inr out"
  shows "num_points out = np_sum m
     \<and> h_point_format (las_header out) =
         (if h_point_format (las_header las) \<in> rgb_supported_formats
          then h_point_format (las_header las) else 2)
     \<and> h_extra_dims (las_header out) =
         (if h_point_format (las_header las) \<in> rgb_supported_formats
          then h_extra_dims (las_header las) else [])
     \<and> las_x out = nths (las_x las) (selected m)
     \<and> las_y out = nths (las_y las) (selected m)
     \<and> las_z out = nths (las_z las) (selected m)
     \<and> (\<forall>a. las_dims out a =
          (if a \<in> set (point_dimensions (las_header out))
           then Some (if a \<in> set attributes_to_copy \<and> las_dims las a \<noteq> None
                      then nths (the (las_dims las a)) (selected m)
                      else replicate (np_sum m) 0)
           else None))
     \<and> las_red out = map fst (nths cs (selected m))
     \<and> las_green out = map (\<lambda>c. fst (snd c)) (nths cs (selected m))
     \<and> las_blue out = map (\<lambda>c. snd (snd c)) (nths cs (selected m))"
proof -
  define fmt where "fmt = (if h_point_format (las_header las) \<in> rgb_supported_formats
          then h_point_format (las_header las) else 2)"
  define ext where "ext = (if h_point_format (las_header las) \<in> rgb_supported_formats
          then h_extra_dims (las_header las) else [])"
  from s obtain xs ys zs dims vc where
    x: "bool_index (las_x las) m = Inr xs" and y: "bool_index (las_y las) m = Inr ys"
    and z: "bool_index (las_z las) m = Inr zs"
    and d: "copy_attributes w (las_header out) attributes_to_copy las m
              (zero_dimensions (las_header out) (length xs)) = Inr dims"
    and v: "bool_index cs m = Inr vc"
    and hd: "h_point_format (las_header out) = fmt" "h_extra_dims (las_header out) = ext"
    and out: "las_x out = xs" "las_y out = ys" "las_z out = zs" "las_dims out = dims"
      "las_red out = map fst vc" "las_green out = map (\<lambda>c. fst (snd c)) vc"
      "las_blue out = map (\<lambda>c. snd (snd c)) vc"
    unfolding fmt_def ext_def
    by (auto simp: save_colorized_point_cloud_def Let_def split: sum.splits option.splits if_splits)
  have lx: "length xs = np_sum m" using bool_index_selected[OF x] by blast
  have dims: "dims a = (if a \<in> set (point_dimensions (las_header out))
           then Some (if a \<in> set attributes_to_copy \<and> las_dims las a \<noteq> None
                      then nths (the (las_dims las a)) (selected m)
                      else replicate (np_sum m) 0)
           else None)" for a
    using copy_attributes_Inr[OF d, of a] by (auto simp: zero_dimensions_def lx)
  have n: "num_points out = np_sum m"
    unfolding num_points_def out(1) by (rule lx)
  have xs: "las_x out = nths (las_x las) (selected m)"
    unfolding out(1) using bool_index_selected[OF x] by blast
  have ys: "las_y out = nths (las_y las) (selected m)"
    unfolding out(2) using bool_index_selected[OF y] by blast
  have zs: "las_z out = nths (las_z las) (selected m)"
    unfolding out(3) using bool_index_selected[OF z] by blast
  have vc: "vc = nths cs (selected m)" using bool_index_selected[OF v] by blast
  have ds: "\<forall>a. las_dims out a = (if a \<in> set (point_dimensions (las_header out))
           then Some (if a \<in> set attributes_to_copy \<and> las_dims las a \<noteq> None
                      then nths (the (las_dims las a)) (selected m)
                      else replicate (np_sum m) 0)
           else None)"
    unfolding out(4) using dims by blast
  have col: "las_red out = map fst (nths cs (selected m))"
    "las_green out = map (\<lambda>c. fst (snd c)) (nths cs (selected m))"
    "las_blue out = map (\<lambda>c. snd (snd c)) (nths cs (selected m))"
    unfolding out(5,6,7) vc by (rule refl)+
  show ?thesis using n hd[unfolded fmt_def ext_def] xs ys zs ds col by (intro conjI)
qed

lemma count_colorized_card:
  "count_colorized (nths cs (selected m)) = card {i \<in> selected m. i < length cs \<and> cs ! i \<noteq> (0, 0, 0)}"
proof -
  have p: "(fst c > 0 \<or> fst (snd c) > 0 \<or> snd (snd c) > 0) = (c \<noteq> (0, 0, 0))" for c :: "u16 \<times> u16 \<times> u16"
    by (cases c) (auto simp: word_gt_0)
  have "count_colorized (nths cs (selected m)) =
        card {i. i < length cs \<and> i \<in> selected m \<and> cs ! i \<noteq> (0, 0, 0)}"
    unfolding count_colorized_def p by (rule filter_nths_card)
  moreover have "{i. i < length cs \<and> i \<in> selected m \<and> cs ! i \<noteq> (0, 0, 0)} =
                 {i \<in> selected m. i < length cs \<and> cs ! i \<noteq> (0, 0, 0)}"
    by auto
  ultimately show ?thesis by simp
qed

lemma summary_report_Inr:
  assumes "create_summary_report cs m = Inr rep"
  shows "length m = length cs \<and> original_total_points rep = length cs
       \<and> trimmed_points rep = card (selected m)
       \<and> colorized_points rep = card {i \<in> selected m. cs ! i \<noteq> (0, 0, 0)}"
proof -
  from assms obtain vc where vc: "bool_index cs m = Inr vc"
    by (auto simp: create_summary_report_def split: sum.splits)
  then have l: "length m = length cs" and v: "vc = nths cs (selected m)"
    using bool_index_Inr[OF vc] bool_index_selected[OF vc] by blast+
  have rep: "colorized_points rep = count_colorized vc" "trimmed_points rep = np_sum m"
            "original_total_points rep = length cs"
    using assms vc by (auto simp: create_summary_report_def)
  have "{i \<in> selected m. i < length cs \<and> cs ! i \<noteq> (0, 0, 0)} = {i \<in> selected m. cs ! i \<noteq> (0, 0, 0)}"
    using l by (auto simp: selected_def)
  then have "colorized_points rep = card {i \<in> selected m. cs ! i \<noteq> (0, 0, 0)}"
    unfolding rep(1) v count_colorized_card by simp
  then show ?thesis using rep l by (simp add: np_sum_card)
qed

lemma card_selected_le: "card (selected m) \<le> length m"
  using np_sum_le[of m] by (simp add: np_sum_card)

lemma card_colored_le: "card {i \<in> selected m. P i} \<le> card (selected m)"
proof (rule card_mono)
  show "finite (selected m)" by (simp add: selected_def)
  show "{i \<in> selected m. P i} \<subseteq> selected m" by blast
qed

text \<open>
  C9. Whenever \<^verbatim>\<open>process_files\<close> completes, the three counts of its summary are what the
  claim names. The total is the number of input points. The trimmed points are the
  true entries of the mask that \<^verbatim>\<open>colorize_point_cloud\<close> returned, which is the validity mask
  of the raster that was sampled (row and column inside the raster), and as many points
  are written. The colorized points are the valid points whose colour has a non-zero
  channel. Hence colorized \<open>\<le>\<close> valid \<open>\<le>\<close> total.
\<close>

theorem pipeline_counts_ordered:
  assumes "process_files depth w las ortho = Inr (out, rep)"
  shows "\<exists>cs m. snd (colorize_point_cloud depth w 0 las ortho None) = Inr (cs, m)
       \<and> (\<exists>sampled_raster loc. locate_points w las sampled_raster None = Inr loc
             \<and> m = valid_pixels sampled_raster (pixel_rows loc) (pixel_cols loc))
       \<and> length cs = num_points las \<and> length m = num_points las
       \<and> original_total_points rep = num_points las
       \<and> trimmed_points rep = card (selected m)
       \<and> num_points out = card (selected m)
       \<and> colorized_points rep = card {i \<in> selected m. cs ! i \<noteq> (0, 0, 0)}
       \<and> colorized_points rep \<le> trimmed_points rep
       \<and> trimmed_points rep \<le> original_total_points rep"
proof -
  from assms obtain cm where cm: "snd (colorize_point_cloud depth w 0 las ortho None) = Inr cm"
    and sv: "save_colorized_point_cloud w las (fst cm) (snd cm) = Inr out"
    and rep: "create_summary_report (fst cm) (snd cm) = Inr rep"
    by (auto simp: process_files_def split: sum.splits)
  obtain cs m where c: "cm = (cs, m)" by (cases cm)
  have lc: "length cs = num_points las" using colorize_point_cloud_length[OF cm] c by simp
  obtain sampled_raster loc where loc: "locate_points w las sampled_raster None = Inr loc"
    and m: "m = valid_mask loc"
    using colorize_point_cloud_mask[OF cm] c by auto
  have mv: "m = valid_pixels sampled_raster (pixel_rows loc) (pixel_cols loc)"
    using locate_points_valid[OF loc] m by simp
  have r: "length m = length cs" "original_total_points rep = length cs"
    "trimmed_points rep = card (selected m)"
    "colorized_points rep = card {i \<in> selected m. cs ! i \<noteq> (0, 0, 0)}"
    using summary_report_Inr[OF rep] c by simp_all
  have n: "num_points out = card (selected m)"
    using save_colorized_point_cloud_Inr[OF sv] c by (simp add: np_sum_card)
  have o: "colorized_points rep \<le> trimmed_points rep" "trimmed_points rep \<le> original_total_points rep"
    unfolding r(2,3,4) using card_colored_le[of m] card_selected_le[of m] r(1) by simp_all
  have "snd (colorize_point_cloud depth w 0 las ortho None) = Inr (cs, m)
       \<and> (\<exists>sampled_raster loc. locate_points w las sampled_raster None = Inr loc
             \<and> m = valid_pixels sampled_raster (pixel_rows loc) (pixel_cols loc))
       \<and> length cs = num_points las \<and> length m = num_points las
       \<and> original_total_points rep = num_points las
       \<and> trimmed_points rep = card (selected m)
       \<and> num_points out = card (selected m)
       \<and> colorized_points rep = card {i \<in> selected m. cs ! i \<noteq> (0, 0, 0)}
       \<and> colorized_points rep \<le> trimmed_points rep
       \<and> trimmed_points rep \<le> original_total_points rep"
    using cm c loc mv lc r n o by (intro conjI) (simp_all, blast)
  then show ?thesis by blast
qed

lemma replicate3: "replicate 3 x = [x, x, x]"
  by (simp add: numeral_3_eq_3)

lemma selected_example: "selected [True, True, False] = {0, 1}"
  by (auto simp: selected_def less_Suc_eq nth_Cons')

lemma nths_example: "nths [a, b, c] (selected [True, True, False]) = [a, b]"
  by (simp add: selected_example nths_Cons)

lemma dark_locate:
  "locate_points example_world example_las dark_raster None =
     Inr \<lparr>pc_bounds = \<lparr>left = 11, bottom = 24, right = 13, top = 26\<rparr>,
          pixel_rows = [2, 1, 0], pixel_cols = [1, 2, 3], valid_mask = [True, True, False]\<rparr>"
  by (simp add: locate_points_def dark_raster_def example_raster_def example_transform transformed_bounds_def
      np_min_def np_max_def pixel_coordinates_def transform_issues_def valid_pixels_def
      example_world_fields example_rowcol_def diagnostic_step_def bounds_overlap_def)

lemma dark_colorize:
  "colorize_point_cloud (Suc d) example_world n example_las dark_raster None =
     (n, Inr ([(0, 0, 0), (14135, 26985, 39835), (0, 0, 0)], [True, True, False]))"
proof -
  have c: "colorize_with ValueBased dark_raster
     \<lparr>pc_bounds = \<lparr>left = 11, bottom = 24, right = 13, top = 26\<rparr>,
      pixel_rows = [2, 1, 0], pixel_cols = [1, 2, 3], valid_mask = [True, True, False]\<rparr> 3
   = Inr ([(0, 0, 0), (14135, 26985, 39835), (0, 0, 0)], [True, True, False])"
    by (simp add: colorize_with_def sample_colors_def np_min_case bool_index_def dark_raster_def
        example_raster_def read_at_def scale_channels_eq replicate3 assign_channels_def int_to_uint16_def)
  show ?thesis
    by (simp add: colorize_point_cloud.simps(2) dark_locate example_low_coverage example_num_points
        example_world_fields c)
qed

lemma example_dims_copied:
  "example_dims ''intensity'' = Some [10, 20, 30]"
  "example_dims ''return_number'' = Some [1, 1, 2]"
  "example_dims ''number_of_returns'' = Some [1, 2, 2]"
  "example_dims ''classification'' = Some [2, 2, 5]"
  "example_dims ''scan_angle_rank'' = Some [- 3, 0, 4]"
  "example_dims ''user_data'' = Some [0, 0, 0]"
  "example_dims ''point_source_id'' = Some [7, 7, 7]"
  "example_dims ''edge_of_flight_line'' = Some [0, 1, 0]"
  "example_dims ''gps_time'' = Some [100.5, 100.75, 101]"
  by (simp_all add: example_dims_def)

lemma example_las_fields:
  "las_header example_las = example_header"
  "las_x example_las = [1, 2, 3]" "las_y example_las = [4, 5, 6]" "las_z example_las = [7, 8, 9]"
  "las_dims example_las = example_dims"
  by (simp_all add: example_las_def)

lemma example_copy:
  assumes "h_point_format h = 2"
  shows "copy_attributes example_world h attributes_to_copy example_las [True, True, False] acc =
     Inr (acc(''intensity'' \<mapsto> [10, 20], ''return_number'' \<mapsto> [1, 1], ''number_of_returns'' \<mapsto> [1, 2],
              ''classification'' \<mapsto> [2, 2], ''scan_angle_rank'' \<mapsto> [- 3, 0], ''user_data'' \<mapsto> [0, 0],
              ''point_source_id'' \<mapsto> [7, 7]))"
  by (simp add: attributes_to_copy_def example_las_fields example_dims_copied bool_index_def
      set_dimension_def point_dimensions_def format_dimensions_def base_dimensions_def assms
      example_world_fields)

lemma example_save:
  assumes "length cs = 3"
  shows "\<exists>out. save_colorized_point_cloud example_world example_las cs [True, True, False] = Inr out"
proof -
  obtain a b c where cs: "cs = [a, b, c]"
    using assms by (auto simp: length_Suc_conv numeral_3_eq_3)
  have f: "format_has_rgb 2" "h_point_format example_header \<notin> rgb_supported_formats"
    by (simp_all add: format_has_rgb_def rgb_supported_formats_def example_header_def)
  have x: "bool_index (las_x example_las) [True, True, False] = Inr [1, 2]"
    "bool_index (las_y example_las) [True, True, False] = Inr [4, 5]"
    "bool_index (las_z example_las) [True, True, False] = Inr [7, 8]"
    "bool_index cs [True, True, False] = Inr [a, b]"
    by (simp_all add: example_las_fields bool_index_def cs)
  show ?thesis
    unfolding save_colorized_point_cloud_def Let_def example_las_fields(1) x
    by (simp add: f example_world_fields example_copy)
qed

lemma dark_process:
  "\<exists>out rep. process_files (Suc d) example_world example_las dark_raster = Inr (out, rep)"
proof -
  obtain out where s: "save_colorized_point_cloud example_world example_las
      [(0, 0, 0), (14135, 26985, 39835), (0, 0, 0)] [True, True, False] = Inr out"
    using example_save[of "[(0, 0, 0), (14135, 26985, 39835), (0, 0, 0)]"] by auto
  have "\<exists>rep. create_summary_report [(0, 0, 0), (14135, 26985, 39835), (0, 0, 0)] [True, True, False] = Inr rep"
    by (simp add: create_summary_report_def bool_index_def)
  then show ?thesis by (auto simp: process_files_def dark_colorize s)
qed

theorem pipeline_counts_witness:
  "\<exists>out rep. process_files 1 example_world example_las dark_raster = Inr (out, rep)
      \<and> colorized_points rep = 1 \<and> trimmed_points rep = 2 \<and> original_total_points rep = 3
      \<and> num_points out = 2"
proof -
  obtain out rep where p: "process_files 1 example_world example_las dark_raster = Inr (out, rep)"
    using dark_process[of 0] by auto
  have c: "snd (colorize_point_cloud 1 example_world 0 example_las dark_raster None) =
      Inr ([(0, 0, 0), (14135, 26985, 39835), (0, 0, 0)], [True, True, False])"
    using dark_colorize[of 0 0] by simp
  from pipeline_counts_ordered[OF p] obtain cs m where
    a: "snd (colorize_point_cloud 1 example_world 0 example_las dark_raster None) = Inr (cs, m)"
    and t: "original_total_points rep = num_points example_las" "trimmed_points rep = card (selected m)"
      "num_points out = card (selected m)"
      "colorized_points rep = card {i \<in> selected m. cs ! i \<noteq> (0, 0, 0)}"
    by blast
  have v: "cs = [(0, 0, 0), (14135, 26985, 39835), (0, 0, 0)]" "m = [True, True, False]"
    using a c by simp_all
  have k: "{i \<in> selected m. cs ! i \<noteq> (0, 0, 0)} = {1}"
    unfolding v selected_example by auto
  have "colorized_points rep = 1 \<and> trimmed_points rep = 2 \<and> original_total_points rep = 3
      \<and> num_points out = 2"
    unfolding t k unfolding v selected_example by (simp add: example_num_points)
  then show ?thesis using p by blast
qed

section \<open>Sampling and normalisation\<close>

lemma zip_selected:
  "length a = length m \<Longrightarrow> length m = length b \<Longrightarrow>
   zip (map fst (filter snd (zip a m))) (map fst (filter snd (zip b m))) =
   map fst (filter snd (zip (zip a b) m))"
proof (induction a m b rule: list_induct3)
  case (Cons x xs y ys z zs)
  then show ?case by (cases y) simp_all
qed simp

lemma read_at_selected:
  assumes "length rows = length m" "length cols = length m"
  shows "read_at ortho k (map fst (filter snd (zip rows m))) (map fst (filter snd (zip cols m))) =
         map (\<lambda>p. r_read ortho k (nat (fst p)) (nat (snd p))) (map fst (filter snd (zip (zip rows cols) m)))"
proof -
  have z: "zip (map fst (filter snd (zip rows m))) (map fst (filter snd (zip cols m))) =
           map fst (filter snd (zip (zip rows cols) m))"
    by (rule zip_selected) (simp_all add: assms)
  show ?thesis unfolding read_at_def z ..
qed

lemma zip3_map: "zip (map h1 xs) (zip (map h2 xs) (map h3 xs)) = map (\<lambda>x. (h1 x, h2 x, h3 x)) xs"
  by (induction xs) simp_all

lemma assign_channels_selected:
  assumes "length cs = length m" "length m = length a"
  shows "assign_channels cs m (map h1 (map fst (filter snd (zip a m))))
           (map h2 (map fst (filter snd (zip a m)))) (map h3 (map fst (filter snd (zip a m)))) =
         map (\<lambda>t. if snd (snd t) then (h1 (fst (snd t)), h2 (fst (snd t)), h3 (fst (snd t))) else fst t)
             (zip cs (zip a m))"
proof -
  let ?s = "map fst (filter snd (zip a m))"
  show ?thesis
    unfolding assign_channels_def zip3_map
    using mask_assign_selected[OF assms, of "\<lambda>x. (h1 x, h2 x, h3 x)"] by simp
qed

lemma assign_channels_nth:
  assumes "length rows = length m" "length cols = length m" "i < length m"
  shows "assign_channels (replicate (length m) z) m
           (map f1 (read_at ortho k1 (map fst (filter snd (zip rows m))) (map fst (filter snd (zip cols m)))))
           (map f2 (read_at ortho k2 (map fst (filter snd (zip rows m))) (map fst (filter snd (zip cols m)))))
           (map f3 (read_at ortho k3 (map fst (filter snd (zip rows m))) (map fst (filter snd (zip cols m))))) ! i
         = (if m ! i
            then (f1 (r_read ortho k1 (nat (rows ! i)) (nat (cols ! i))),
                  f2 (r_read ortho k2 (nat (rows ! i)) (nat (cols ! i))),
                  f3 (r_read ortho k3 (nat (rows ! i)) (nat (cols ! i))))
            else z)"
proof -
  let ?a = "zip rows cols"
  have la: "length m = length ?a" using assms by simp
  have lc: "length (replicate (length m) z) = length m" by simp
  have "assign_channels (replicate (length m) z) m
           (map f1 (read_at ortho k1 (map fst (filter snd (zip rows m))) (map fst (filter snd (zip cols m)))))
           (map f2 (read_at ortho k2 (map fst (filter snd (zip rows m))) (map fst (filter snd (zip cols m)))))
           (map f3 (read_at ortho k3 (map fst (filter snd (zip rows m))) (map fst (filter snd (zip cols m)))))
        = map (\<lambda>t. if snd (snd t)
                    then (f1 (r_read ortho k1 (nat (fst (fst (snd t)))) (nat (snd (fst (snd t))))),
                          f2 (r_read ortho k2 (nat (fst (fst (snd t)))) (nat (snd (fst (snd t))))),
                          f3 (r_read ortho k3 (nat (fst (fst (snd t)))) (nat (snd (fst (snd t))))))
                    else fst t)
             (zip (replicate (length m) z) (zip ?a m))"
    unfolding read_at_selected[OF assms(1,2)] map_map
    using assign_channels_selected[OF lc la,
        of "f1 \<circ> (\<lambda>p. r_read ortho k1 (nat (fst p)) (nat (snd p)))"
           "f2 \<circ> (\<lambda>p. r_read ortho k2 (nat (fst p)) (nat (snd p)))"
           "f3 \<circ> (\<lambda>p. r_read ortho k3 (nat (fst p)) (nat (snd p)))"]
    by (simp add: comp_def)
  then show ?thesis using assms by simp
qed

lemma read_at_empty:
  assumes "length rows = length m" "length cols = length m"
  shows "(read_at ortho k (map fst (filter snd (zip rows m))) (map fst (filter snd (zip cols m))) = [])
         = (np_sum m = 0)"
proof -
  have l: "length m = length (zip rows cols)" using assms by simp
  have "length (filter snd (zip (zip rows cols) m)) = np_sum m"
    by (rule selected_length[OF l])
  then show ?thesis unfolding read_at_selected[OF assms] by auto
qed

lemma round_half_even_of_int: "round_half_even (of_int z) = z"
  by (simp add: round_half_even_def)

lemma pow2_nonpos: "k \<le> 0 \<Longrightarrow> pow2 k = 1 / 2 ^ nat (- k)"
  by (cases "k = 0") (simp_all add: pow2_def)

lemma round_float_nat:
  assumes "n < 2 ^ p" "0 < p"
  shows "round_float p (real n) = real n"
proof (cases "n = 0")
  case True
  then show ?thesis by (simp add: round_float_def)
next
  case False
  define b where "b = bitlen (int n)"
  have pos: "0 < int n" using False by simp
  have bb: "2 ^ nat (b - 1) \<le> int n" "int n < 2 ^ nat b"
    using bitlen_bounds[OF pos] by (simp_all add: b_def)
  have b1: "1 \<le> b" using pos bitlen_eq_zero_iff[of "int n"] bitlen_nonneg[of "int n"]
    by (simp add: b_def)
  have "(2::int) ^ nat (b - 1) < 2 ^ p" using bb(1) assms(1)
    by (metis (mono_tags, opaque_lifting) le_less_trans of_nat_less_iff of_nat_numeral of_nat_power)
  then have "nat (b - 1) < p" by simp
  then have bp: "b \<le> int p" using b1 by linarith
  have e: "float_exponent (real n) = b - 1"
    using False by (simp add: float_exponent_def b_def)
  define K where "K = nat (int p - b)"
  have u: "pow2 (float_exponent (real n) - int p + 1) = 1 / 2 ^ K"
    unfolding e using pow2_nonpos[of "b - 1 - int p + 1"] bp by (simp add: K_def algebra_simps)
  have q: "real n / (1 / 2 ^ K) = of_int (int n * 2 ^ K)" by simp
  show ?thesis
    using False unfolding round_float_def Let_def u q round_half_even_of_int by simp
qed

lemma round_f32_nat: "n < 16777216 \<Longrightarrow> round_f32 (real n) = real n"
  using round_float_nat[of n 24] by (simp add: round_f32_def)

lemmas f32_eval = to_16bit_range_def round_f32_def round_float_def float_exponent_def pow2_def
  round_half_even_def Let_def compute_bitlen

lemma scale_0: "list_all (\<lambda>n. to_16bit_range (real n) = real (257 * n)) [0..<32]"
  by (simp add: upt_rec f32_eval)
lemma scale_1: "list_all (\<lambda>n. to_16bit_range (real n) = real (257 * n)) [32..<64]"
  by (simp add: upt_rec f32_eval)
lemma scale_2: "list_all (\<lambda>n. to_16bit_range (real n) = real (257 * n)) [64..<96]"
  by (simp add: upt_rec f32_eval)
lemma scale_3: "list_all (\<lambda>n. to_16bit_range (real n) = real (257 * n)) [96..<128]"
  by (simp add: upt_rec f32_eval)
lemma scale_4: "list_all (\<lambda>n. to_16bit_range (real n) = real (257 * n)) [128..<160]"
  by (simp add: upt_rec f32_eval)
lemma scale_5: "list_all (\<lambda>n. to_16bit_range (real n) = real (257 * n)) [160..<192]"
  by (simp add: upt_rec f32_eval)
lemma scale_6: "list_all (\<lambda>n. to_16bit_range (real n) = real (257 * n)) [192..<224]"
  by (simp add: upt_rec f32_eval)
lemma scale_7: "list_all (\<lambda>n. to_16bit_range (real n) = real (257 * n)) [224..<256]"
  by (simp add: upt_rec f32_eval)

lemma to_16bit_range_exact:
  assumes "n < 256"
  shows "to_16bit_range (real n) = real (257 * n)"
proof -
  have "n \<in> set [0..<32] \<or> n \<in> set [32..<64] \<or> n \<in> set [64..<96] \<or> n \<in> set [96..<128] \<or>
        n \<in> set [128..<160] \<or> n \<in> set [160..<192] \<or> n \<in> set [192..<224] \<or> n \<in> set [224..<256]"
    using assms unfolding set_upt by auto
  then show ?thesis
    using scale_0 scale_1 scale_2 scale_3 scale_4 scale_5 scale_6 scale_7
    unfolding list_all_iff by blast
qed

lemma dtype_value_nat:
  assumes "v \<in> \<int>" "0 \<le> v" "v \<le> real B"
  obtains n where "v = real n" "n \<le> B"
proof -
  from assms(1) obtain z where z: "v = of_int z" by (auto elim: Ints_cases)
  with assms(2) have "0 \<le> z" by simp
  then obtain n where n: "z = int n" using nonneg_int_cases by blast
  have "v = real n" using z n by simp
  moreover have "n \<le> B" using assms(3) \<open>v = real n\<close> by simp
  ultimately show ?thesis using that by blast
qed

lemma int_to_uint16_nat: "n < 65536 \<Longrightarrow> unat (int_to_uint16 (real n)) = n"
  by (simp add: int_to_uint16_def unat_of_nat take_bit_nat_eq_self)

lemma float_to_uint16_nat: "n < 65536 \<Longrightarrow> unat (float_to_uint16 (real n)) = n"
  by (simp add: float_to_uint16_def trunc_def unat_of_nat take_bit_nat_eq_self)

lemma scale_value_uint8:
  assumes "dtype_value UInt8 v"
  shows "real (unat (scale_value UInt8 v)) = v * 257"
proof -
  from assms obtain n where n: "v = real n" "n \<le> 255"
    using dtype_value_nat[of v 255] by auto
  have "scale_value UInt8 v = int_to_uint16 (real (n * 257))"
    by (simp add: n)
  moreover have "n * 257 < 65536" using n(2) by simp
  ultimately show ?thesis using int_to_uint16_nat[of "n * 257"] n by simp
qed

lemma scale_value_uint16:
  assumes "dtype_value UInt16 v"
  shows "real (unat (scale_value UInt16 v)) = v"
proof -
  from assms obtain n where n: "v = real n" "n \<le> 65535"
    using dtype_value_nat[of v 65535] by auto
  have "scale_value UInt16 v = int_to_uint16 (real n)"
    by (simp add: n)
  then show ?thesis using int_to_uint16_nat[of n] n by simp
qed

lemma clip_to_uint16_nat: "n < 65536 \<Longrightarrow> unat (clip_to_uint16 (real n)) = n"
  using float_to_uint16_nat[of n] by (simp add: clip_to_uint16_def np_clip_def)

lemma script_scale_uint8:
  assumes "dtype_value UInt8 v"
  shows "real (unat (clip_to_uint16 (to_16bit_range (round_f32 v)))) = v * 257"
proof -
  from assms obtain n where n: "v = real n" "n \<le> 255"
    using dtype_value_nat[of v 255] by auto
  have "round_f32 v = real n" using round_f32_nat[of n] n by simp
  then have "to_16bit_range (round_f32 v) = real (257 * n)"
    using to_16bit_range_exact[of n] n by simp
  moreover have "257 * n < 65536" using n(2) by simp
  ultimately show ?thesis using clip_to_uint16_nat[of "257 * n"] n by simp
qed

lemma script_scale_uint16:
  assumes "dtype_value UInt16 v"
  shows "real (unat (clip_to_uint16 (round_f32 v))) = v"
proof -
  from assms obtain n where n: "v = real n" "n \<le> 65535"
    using dtype_value_nat[of v 65535] by auto
  have "round_f32 v = real n" using round_f32_nat[of n] n by simp
  then show ?thesis using clip_to_uint16_nat[of n] n by simp
qed

lemma sample_colors_point:
  assumes s: "sample_colors p ortho \<lparr>pc_bounds = b, pixel_rows = rows, pixel_cols = cols, valid_mask = m\<rparr> (length m)
              = Inr (lg, cs)"
    and i: "i < length m"
  shows "cs ! i = (if m ! i then each_channel (scale_value (r_dtype ortho)) (sampled ortho rows cols i)
                   else (0, 0, 0))"
    and "\<not> (r_dtype ortho = UInt8 \<and> p = Weak)"
proof -
  from s have l: "length cols = length m" "length rows = length m"
    by (auto simp: sample_colors_def np_min_case bool_index_def split: if_splits)
  from s have cnt: "r_count ortho \<ge> 3 \<or> r_count ortho = 1"
    by (auto simp: sample_colors_def np_min_case bool_index_def l split: if_splits)
  from s show ok: "\<not> (r_dtype ortho = UInt8 \<and> p = Weak)"
    by (auto simp: sample_colors_def np_min_case bool_index_def l scale_channels_eq split: if_splits)
  show "cs ! i = (if m ! i then each_channel (scale_value (r_dtype ortho)) (sampled ortho rows cols i)
                   else (0, 0, 0))"
  proof (cases "r_count ortho \<ge> 3")
    case True
    then have "cs = assign_channels (replicate (length m) (0, 0, 0)) m
        (map (scale_value (r_dtype ortho)) (read_at ortho 1 (map fst (filter snd (zip rows m))) (map fst (filter snd (zip cols m)))))
        (map (scale_value (r_dtype ortho)) (read_at ortho 2 (map fst (filter snd (zip rows m))) (map fst (filter snd (zip cols m)))))
        (map (scale_value (r_dtype ortho)) (read_at ortho 3 (map fst (filter snd (zip rows m))) (map fst (filter snd (zip cols m)))))"
      using s ok by (simp add: sample_colors_def np_min_case bool_index_def l scale_channels_eq split: if_splits)
    then show ?thesis using True assign_channels_nth[OF l(2) l(1) i]
      by (simp add: sampled_def each_channel_def)
  next
    case False
    then have one: "r_count ortho = 1" using cnt by simp
    then have "cs = assign_channels (replicate (length m) (0, 0, 0)) m
        (map (scale_value (r_dtype ortho)) (read_at ortho 1 (map fst (filter snd (zip rows m))) (map fst (filter snd (zip cols m)))))
        (map (scale_value (r_dtype ortho)) (read_at ortho 1 (map fst (filter snd (zip rows m))) (map fst (filter snd (zip cols m)))))
        (map (scale_value (r_dtype ortho)) (read_at ortho 1 (map fst (filter snd (zip rows m))) (map fst (filter snd (zip cols m)))))"
      using s ok by (simp add: sample_colors_def np_min_case bool_index_def l scale_channels_eq split: if_splits)
    then show ?thesis using one assign_channels_nth[OF l(2) l(1) i]
      by (simp add: sampled_def each_channel_def)
  qed
qed

lemma sample_colors_weak:
  assumes "r_dtype ortho = UInt8" and "r_count ortho \<ge> 3 \<or> r_count ortho = 1"
    and "length rows = length m" and "length cols = length m" and "np_sum m \<noteq> 0"
  shows "sample_colors Weak ortho \<lparr>pc_bounds = b, pixel_rows = rows, pixel_cols = cols, valid_mask = m\<rparr> tot
         = Inl OverflowError"
  using assms
  by (auto simp: sample_colors_def np_min_case bool_index_def read_at_empty scale_channels_eq)

lemma script_scaling_cases:
  "\<exists>f. (d = UInt8 \<longrightarrow> f = to_16bit_range)
     \<and> (d = UInt16 \<longrightarrow> f = (\<lambda>v. v))
     \<and> (d = Float32 \<or> d = Float64 \<longrightarrow> f = (\<lambda>v. round_f32 (v * 65535)))
     \<and> (f = to_16bit_range \<or> f = (\<lambda>v. v) \<or> f = (\<lambda>v. round_f32 (v * 65535)))
     \<and> snd (script_scaling d R G B) = f"
  by (cases d) (simp_all add: script_scaling_def Let_def)

lemma script_extract_points:
  assumes s: "script_extract_colors_from_image ras px py m = Inr (lg, cs)"
    and nz: "np_sum m \<noteq> 0"
    and cnt: "r_count ras \<ge> 3 \<or> r_count ras = 1"
  shows "\<exists>f. (r_dtype ras = UInt8 \<longrightarrow> f = to_16bit_range)
           \<and> (r_dtype ras = UInt16 \<longrightarrow> f = (\<lambda>v. v))
           \<and> (r_dtype ras = Float32 \<or> r_dtype ras = Float64 \<longrightarrow> f = (\<lambda>v. round_f32 (v * 65535)))
           \<and> (f = to_16bit_range \<or> f = (\<lambda>v. v) \<or> f = (\<lambda>v. round_f32 (v * 65535)))
           \<and> (\<forall>i < length m. m ! i \<longrightarrow>
                 cs ! i = each_channel (\<lambda>v. clip_to_uint16 (f (round_f32 v))) (sampled ras py px i))"
proof -
  from s have l: "length px = length m" "length py = length m"
    by (auto simp: script_extract_colors_from_image_def bool_index_def split: if_splits)
  let ?vy = "map fst (filter snd (zip py m))" and ?vx = "map fst (filter snd (zip px m))"
  show ?thesis
  proof (cases "r_count ras \<ge> 3")
    case True
    let ?R = "map round_f32 (read_at ras 1 ?vy ?vx)"
    let ?G = "map round_f32 (read_at ras 2 ?vy ?vx)"
    let ?B = "map round_f32 (read_at ras 3 ?vy ?vx)"
    from script_scaling_cases[of "r_dtype ras" ?R ?G ?B] obtain f where
      ff: "(r_dtype ras = UInt8 \<longrightarrow> f = to_16bit_range)
           \<and> (r_dtype ras = UInt16 \<longrightarrow> f = (\<lambda>v. v))
           \<and> (r_dtype ras = Float32 \<or> r_dtype ras = Float64 \<longrightarrow> f = (\<lambda>v. round_f32 (v * 65535)))
           \<and> (f = to_16bit_range \<or> f = (\<lambda>v. v) \<or> f = (\<lambda>v. round_f32 (v * 65535)))
           \<and> snd (script_scaling (r_dtype ras) ?R ?G ?B) = f" ..
    then have f4: "snd (script_scaling (r_dtype ras) ?R ?G ?B) = f" by simp
    have "cs = assign_channels (replicate (length m) (0, 0, 0)) m
        (map ((\<lambda>v. clip_to_uint16 (f v)) \<circ> round_f32) (read_at ras 1 ?vy ?vx))
        (map ((\<lambda>v. clip_to_uint16 (f v)) \<circ> round_f32) (read_at ras 2 ?vy ?vx))
        (map ((\<lambda>v. clip_to_uint16 (f v)) \<circ> round_f32) (read_at ras 3 ?vy ?vx))"
      using s True nz f4
      by (simp add: script_extract_colors_from_image_def bool_index_def l script_normalize_def Let_def)
    then have "cs ! i = each_channel (\<lambda>v. clip_to_uint16 (f (round_f32 v))) (sampled ras py px i)"
      if "i < length m" "m ! i" for i
      using True that assign_channels_nth[OF l(2) l(1) that(1)]
      by (simp add: sampled_def each_channel_def)
    then show ?thesis using ff by (intro exI[of _ f]) simp
  next
    case False
    then have one: "r_count ras = 1" using cnt by simp
    let ?R = "map round_f32 (read_at ras 1 ?vy ?vx)"
    from script_scaling_cases[of "r_dtype ras" ?R ?R ?R] obtain f where
      ff: "(r_dtype ras = UInt8 \<longrightarrow> f = to_16bit_range)
           \<and> (r_dtype ras = UInt16 \<longrightarrow> f = (\<lambda>v. v))
           \<and> (r_dtype ras = Float32 \<or> r_dtype ras = Float64 \<longrightarrow> f = (\<lambda>v. round_f32 (v * 65535)))
           \<and> (f = to_16bit_range \<or> f = (\<lambda>v. v) \<or> f = (\<lambda>v. round_f32 (v * 65535)))
           \<and> snd (script_scaling (r_dtype ras) ?R ?R ?R) = f" ..
    then have f4: "snd (script_scaling (r_dtype ras) ?R ?R ?R) = f" by simp
    have "cs = assign_channels (replicate (length m) (0, 0, 0)) m
        (map ((\<lambda>v. clip_to_uint16 (f v)) \<circ> round_f32) (read_at ras 1 ?vy ?vx))
        (map ((\<lambda>v. clip_to_uint16 (f v)) \<circ> round_f32) (read_at ras 1 ?vy ?vx))
        (map ((\<lambda>v. clip_to_uint16 (f v)) \<circ> round_f32) (read_at ras 1 ?vy ?vx))"
      using s one nz f4
      by (simp add: script_extract_colors_from_image_def bool_index_def l script_normalize_def Let_def)
    then have "cs ! i = each_channel (\<lambda>v. clip_to_uint16 (f (round_f32 v))) (sampled ras py px i)"
      if "i < length m" "m ! i" for i
      using one that assign_channels_nth[OF l(2) l(1) that(1)]
      by (simp add: sampled_def each_channel_def)
    then show ?thesis using ff by (intro exI[of _ f]) simp
  qed
qed

lemma valid_pixel_in_raster:
  assumes "m = valid_pixels ortho rows cols" "i < length m" "m ! i"
  shows "nat (rows ! i) < r_height ortho \<and> nat (cols ! i) < r_width ortho"
  using assms by (auto simp: valid_pixels_def)

lemma sampled_typed:
  assumes t: "raster_typed ortho" and m: "m = valid_pixels ortho rows cols" "i < length m" "m ! i"
    and cnt: "r_count ortho \<ge> 3 \<or> r_count ortho = 1"
  shows "dtype_value (r_dtype ortho) (fst (sampled ortho rows cols i))
       \<and> dtype_value (r_dtype ortho) (fst (snd (sampled ortho rows cols i)))
       \<and> dtype_value (r_dtype ortho) (snd (snd (sampled ortho rows cols i)))"
proof -
  have r: "nat (rows ! i) < r_height ortho" "nat (cols ! i) < r_width ortho"
    using valid_pixel_in_raster[OF m] by simp_all
  have "dtype_value (r_dtype ortho) (r_read ortho k (nat (rows ! i)) (nat (cols ! i)))"
    if "1 \<le> k" "k \<le> r_count ortho" for k
    using t r that unfolding raster_typed_def by blast
  then show ?thesis using cnt by (auto simp: sampled_def)
qed

lemma each_channel_cong:
  assumes "P (fst c) \<and> P (fst (snd c)) \<and> P (snd (snd c))" and "\<And>v. P v \<Longrightarrow> f (g v) = h v"
  shows "each_channel f (each_channel g c) = each_channel h c"
  using assms by (simp add: each_channel_def)

text \<open>
  C4. At every valid point of a raster whose pixels are 16-bit unsigned, each output colour
  channel is the sampled band value itself, in \<^verbatim>\<open>colorize_point_cloud\<close> and in
  \<^verbatim>\<open>extract_colors_from_image\<close> of the script. For a raster whose pixels are 8-bit unsigned
  the script gives the band value times 257 (so 255 gives 65535 and 0 gives 0), its
  arithmetic on 32-bit floats being exact on these values, and so does
  \<^verbatim>\<open>colorize_point_cloud\<close> under the value-based promotion of NumPy 1. Under the weak
  promotion of NumPy 2 the product by 257 in \<^verbatim>\<open>colorize_point_cloud\<close> raises OverflowError:
  the sampling of an 8-bit raster returns no colour at all there.
\<close>

theorem normalization_8bit_16bit:
  assumes "raster_typed ortho" and "m = valid_pixels ortho rows cols" and "i < length m" and "m ! i"
  shows "(\<forall>p lg cs. sample_colors p ortho
              \<lparr>pc_bounds = b, pixel_rows = rows, pixel_cols = cols, valid_mask = m\<rparr> (length m) = Inr (lg, cs) \<longrightarrow>
            (r_dtype ortho = UInt8 \<longrightarrow> p = ValueBased \<and>
               each_channel (\<lambda>c. real (unat c)) (cs ! i) = each_channel (\<lambda>v. v * 257) (sampled ortho rows cols i)) \<and>
            (r_dtype ortho = UInt16 \<longrightarrow>
               each_channel (\<lambda>c. real (unat c)) (cs ! i) = sampled ortho rows cols i))
       \<and> (r_dtype ortho = UInt8 \<and> length rows = length cols \<and> (r_count ortho \<ge> 3 \<or> r_count ortho = 1) \<longrightarrow>
            sample_colors Weak ortho
              \<lparr>pc_bounds = b, pixel_rows = rows, pixel_cols = cols, valid_mask = m\<rparr> (length m) = Inl OverflowError)
       \<and> (\<forall>lg cs. script_extract_colors_from_image ortho cols rows m = Inr (lg, cs) \<and>
              (r_count ortho \<ge> 3 \<or> r_count ortho = 1) \<longrightarrow>
            (r_dtype ortho = UInt8 \<longrightarrow>
               each_channel (\<lambda>c. real (unat c)) (cs ! i) = each_channel (\<lambda>v. v * 257) (sampled ortho rows cols i)) \<and>
            (r_dtype ortho = UInt16 \<longrightarrow>
               each_channel (\<lambda>c. real (unat c)) (cs ! i) = sampled ortho rows cols i))"
proof -
  let ?s = "sampled ortho rows cols i"
  have ty: "dtype_value (r_dtype ortho) (fst ?s) \<and> dtype_value (r_dtype ortho) (fst (snd ?s))
            \<and> dtype_value (r_dtype ortho) (snd (snd ?s))"
    if "r_count ortho \<ge> 3 \<or> r_count ortho = 1"
    using sampled_typed[OF assms that] .
  have id3: "each_channel (\<lambda>v. v) c = c" for c :: "real \<times> real \<times> real"
    by (simp add: each_channel_def)
  have archive: "(r_dtype ortho = UInt8 \<longrightarrow> p = ValueBased \<and>
               each_channel (\<lambda>c. real (unat c)) (cs ! i) = each_channel (\<lambda>v. v * 257) ?s) \<and>
            (r_dtype ortho = UInt16 \<longrightarrow> each_channel (\<lambda>c. real (unat c)) (cs ! i) = ?s)"
    if s: "sample_colors p ortho \<lparr>pc_bounds = b, pixel_rows = rows, pixel_cols = cols, valid_mask = m\<rparr> (length m)
           = Inr (lg, cs)" for p lg cs
  proof -
    have cnt: "r_count ortho \<ge> 3 \<or> r_count ortho = 1"
      using s by (auto simp: sample_colors_def np_min_case split: sum.splits if_splits)
    have pc: "cs ! i = each_channel (scale_value (r_dtype ortho)) ?s"
      using sample_colors_point(1)[OF s assms(3)] assms(4) by simp
    have vb: "p = ValueBased" if "r_dtype ortho = UInt8"
      using sample_colors_point(2)[OF s assms(3)] that by (cases p) simp_all
    have "each_channel (\<lambda>c. real (unat c)) (cs ! i) = each_channel (\<lambda>v. v * 257) ?s"
      if "r_dtype ortho = UInt8"
      unfolding pc
    proof (rule each_channel_cong[where P = "dtype_value UInt8"])
      show "dtype_value UInt8 (fst ?s) \<and> dtype_value UInt8 (fst (snd ?s)) \<and> dtype_value UInt8 (snd (snd ?s))"
        using ty[OF cnt] unfolding that .
      show "real (unat (scale_value (r_dtype ortho) v)) = v * 257" if "dtype_value UInt8 v" for v
        unfolding \<open>r_dtype ortho = UInt8\<close> using that by (rule scale_value_uint8)
    qed
    moreover have "each_channel (\<lambda>c. real (unat c)) (cs ! i) = ?s"
      if "r_dtype ortho = UInt16"
    proof -
      have "each_channel (\<lambda>c. real (unat c)) (cs ! i) = each_channel (\<lambda>v. v) ?s"
        unfolding pc
      proof (rule each_channel_cong[where P = "dtype_value UInt16"])
        show "dtype_value UInt16 (fst ?s) \<and> dtype_value UInt16 (fst (snd ?s)) \<and> dtype_value UInt16 (snd (snd ?s))"
          using ty[OF cnt] unfolding that .
        show "real (unat (scale_value (r_dtype ortho) v)) = v" if "dtype_value UInt16 v" for v
          unfolding \<open>r_dtype ortho = UInt16\<close> using that by (rule scale_value_uint16)
      qed
      then show ?thesis by (simp add: id3)
    qed
    ultimately show ?thesis using vb by blast
  qed
  have weak: "sample_colors Weak ortho
              \<lparr>pc_bounds = b, pixel_rows = rows, pixel_cols = cols, valid_mask = m\<rparr> (length m) = Inl OverflowError"
    if h: "r_dtype ortho = UInt8 \<and> length rows = length cols \<and> (r_count ortho \<ge> 3 \<or> r_count ortho = 1)"
  proof -
    have l: "length rows = length m" "length cols = length m"
      using h assms(2) by (simp_all add: valid_pixels_def)
    show ?thesis
      using h l np_sum_pos[OF assms(3,4)] by (intro sample_colors_weak) simp_all
  qed
  have script: "(r_dtype ortho = UInt8 \<longrightarrow>
               each_channel (\<lambda>c. real (unat c)) (cs ! i) = each_channel (\<lambda>v. v * 257) ?s) \<and>
            (r_dtype ortho = UInt16 \<longrightarrow> each_channel (\<lambda>c. real (unat c)) (cs ! i) = ?s)"
    if s: "script_extract_colors_from_image ortho cols rows m = Inr (lg, cs)"
      and cnt: "r_count ortho \<ge> 3 \<or> r_count ortho = 1" for lg cs
  proof -
    from script_extract_points[OF s np_sum_pos[OF assms(3,4)] cnt] obtain f where
      ff: "(r_dtype ortho = UInt8 \<longrightarrow> f = to_16bit_range)
           \<and> (r_dtype ortho = UInt16 \<longrightarrow> f = (\<lambda>v. v))
           \<and> (r_dtype ortho = Float32 \<or> r_dtype ortho = Float64 \<longrightarrow> f = (\<lambda>v. round_f32 (v * 65535)))
           \<and> (f = to_16bit_range \<or> f = (\<lambda>v. v) \<or> f = (\<lambda>v. round_f32 (v * 65535)))
           \<and> (\<forall>i < length m. m ! i \<longrightarrow>
                 cs ! i = each_channel (\<lambda>v. clip_to_uint16 (f (round_f32 v))) (sampled ortho rows cols i))" ..
    have f: "r_dtype ortho = UInt8 \<longrightarrow> f = to_16bit_range"
        "r_dtype ortho = UInt16 \<longrightarrow> f = (\<lambda>v. v)"
        "cs ! i = each_channel (\<lambda>v. clip_to_uint16 (f (round_f32 v))) ?s"
      using ff assms(3,4) by simp_all
    have "each_channel (\<lambda>c. real (unat c)) (cs ! i) = each_channel (\<lambda>v. v * 257) ?s"
      if "r_dtype ortho = UInt8"
      unfolding f(3)
    proof (rule each_channel_cong[where P = "dtype_value UInt8"])
      show "dtype_value UInt8 (fst ?s) \<and> dtype_value UInt8 (fst (snd ?s)) \<and> dtype_value UInt8 (snd (snd ?s))"
        using ty[OF cnt] unfolding that .
      have ff: "f = to_16bit_range" using f(1) that by simp
      show "real (unat (clip_to_uint16 (f (round_f32 v)))) = v * 257" if "dtype_value UInt8 v" for v
        unfolding ff using that by (rule script_scale_uint8)
    qed
    moreover have "each_channel (\<lambda>c. real (unat c)) (cs ! i) = ?s"
      if "r_dtype ortho = UInt16"
    proof -
      have "each_channel (\<lambda>c. real (unat c)) (cs ! i) = each_channel (\<lambda>v. v) ?s"
        unfolding f(3)
      proof (rule each_channel_cong[where P = "dtype_value UInt16"])
        show "dtype_value UInt16 (fst ?s) \<and> dtype_value UInt16 (fst (snd ?s)) \<and> dtype_value UInt16 (snd (snd ?s))"
          using ty[OF cnt] unfolding that .
        have ff: "f = (\<lambda>v. v)" using f(2) that by simp
        show "real (unat (clip_to_uint16 (f (round_f32 v)))) = v" if "dtype_value UInt16 v" for v
          unfolding ff using that by (rule script_scale_uint16)
      qed
      then show ?thesis by (simp add: id3)
    qed
    ultimately show ?thesis by blast
  qed
  show ?thesis using archive weak script by blast
qed

lemma example_valid_pixels:
  "valid_pixels example_raster [2, 1, 0] [1, 2, 3] = [True, True, False]"
  "valid_pixels float_raster [2, 1, 0] [1, 2, 3] = [True, True, False]"
  "valid_pixels gray16_raster [2, 1, 0] [1, 2, 3] = [True, True, False]"
  by (simp_all add: valid_pixels_def example_raster_def float_raster_def gray16_raster_def)

lemma example_raster_typed: "raster_typed example_raster"
  unfolding raster_typed_def
proof (intro allI impI)
  fix k row col
  assume "1 \<le> k \<and> k \<le> r_count example_raster \<and> row < r_height example_raster \<and> col < r_width example_raster"
  then have "k * 50 + row * 3 + col \<le> 255" by (simp add: example_raster_def)
  then have "real (k * 50 + row * 3 + col) \<le> 255" by (metis of_nat_le_iff of_nat_numeral)
  then show "dtype_value (r_dtype example_raster) (r_read example_raster k row col)"
    by (simp add: example_raster_def)
qed

lemma gray16_raster_typed: "raster_typed gray16_raster"
  by (simp add: raster_typed_def gray16_raster_def example_raster_def)

lemma example_sample:
  "sample_colors ValueBased example_raster
     \<lparr>pc_bounds = b, pixel_rows = [2, 1, 0], pixel_cols = [1, 2, 3], valid_mask = [True, True, False]\<rparr> 3
   = Inr ([(INFO, ''DEBUG - Applied uint8 scaling (factor: 257)'')],
          [(14649, 27499, 40349), (14135, 26985, 39835), (0, 0, 0)])"
  by (simp add: sample_colors_def np_min_case bool_index_def example_raster_def read_at_def archive_scale_log_def
      sublist_Cons_right scale_channels_eq replicate3 assign_channels_def int_to_uint16_def)

lemma script_extract_total:
  assumes "length px = length m" "length py = length m"
  shows "\<exists>lg cs. script_extract_colors_from_image ras px py m = Inr (lg, cs)"
  using assms by (simp add: script_extract_colors_from_image_def bool_index_def Let_def script_normalize_def)

theorem normalization_witness:
  "(\<exists>lg cs. sample_colors ValueBased example_raster
       \<lparr>pc_bounds = r_bounds example_raster, pixel_rows = [2, 1, 0], pixel_cols = [1, 2, 3], valid_mask = [True, True, False]\<rparr> 3
       = Inr (lg, cs) \<and> each_channel (\<lambda>c. real (unat c)) (cs ! 0) = (57 * 257, 107 * 257, 157 * 257))
   \<and> sample_colors Weak example_raster
       \<lparr>pc_bounds = r_bounds example_raster, pixel_rows = [2, 1, 0], pixel_cols = [1, 2, 3], valid_mask = [True, True, False]\<rparr> 3
       = Inl OverflowError
   \<and> (\<exists>lg cs. script_extract_colors_from_image example_raster [1, 2, 3] [2, 1, 0] [True, True, False]
       = Inr (lg, cs) \<and> each_channel (\<lambda>c. real (unat c)) (cs ! 0) = (57 * 257, 107 * 257, 157 * 257))
   \<and> (\<exists>lg cs. script_extract_colors_from_image gray16_raster [1, 2, 3] [2, 1, 0] [True, True, False]
       = Inr (lg, cs) \<and> each_channel (\<lambda>c. real (unat c)) (cs ! 0) = (30000, 30000, 30000))"
proof -
  let ?m = "[True, True, False]"
  have v: "?m = valid_pixels example_raster [2, 1, 0] [1, 2, 3]"
      "?m = valid_pixels gray16_raster [2, 1, 0] [1, 2, 3]"
    by (simp_all add: example_valid_pixels)
  have i: "0 < length ?m" "?m ! 0" by simp_all
  have l: "length ?m = 3" by simp
  note ex = normalization_8bit_16bit[OF example_raster_typed v(1) i, of "r_bounds example_raster", unfolded l]
  note gr = normalization_8bit_16bit[OF gray16_raster_typed v(2) i, of "r_bounds example_raster", unfolded l]
  have a: "each_channel (\<lambda>c. real (unat c)) (cs ! 0) = (57 * 257, 107 * 257, 157 * 257)"
    if s: "sample_colors ValueBased example_raster
       \<lparr>pc_bounds = r_bounds example_raster, pixel_rows = [2, 1, 0], pixel_cols = [1, 2, 3], valid_mask = ?m\<rparr> 3 = Inr (lg, cs)"
    for lg cs
  proof -
    have "r_dtype example_raster = UInt8 \<longrightarrow> each_channel (\<lambda>c. real (unat c)) (cs ! 0) =
            each_channel (\<lambda>v. v * 257) (sampled example_raster [2, 1, 0] [1, 2, 3] 0)"
      using ex s by blast
    then show ?thesis by (simp add: example_raster_def sampled_def each_channel_def)
  qed
  have w: "sample_colors Weak example_raster
       \<lparr>pc_bounds = r_bounds example_raster, pixel_rows = [2, 1, 0], pixel_cols = [1, 2, 3], valid_mask = ?m\<rparr> 3
       = Inl OverflowError"
  proof -
    have "r_dtype example_raster = UInt8 \<and> length [2, 1, 0 :: int] = length [1, 2, 3 :: int]
          \<and> (r_count example_raster \<ge> 3 \<or> r_count example_raster = 1)"
      by (simp add: example_raster_def)
    then show ?thesis using ex by blast
  qed
  obtain lg8 cs8 where e8: "script_extract_colors_from_image example_raster [1, 2, 3] [2, 1, 0] ?m = Inr (lg8, cs8)"
    using script_extract_total[of "[1, 2, 3]" ?m "[2, 1, 0]" example_raster] by auto
  have "r_dtype example_raster = UInt8 \<longrightarrow> each_channel (\<lambda>c. real (unat c)) (cs8 ! 0) =
            each_channel (\<lambda>v. v * 257) (sampled example_raster [2, 1, 0] [1, 2, 3] 0)"
    using ex e8 by (simp add: example_raster_def)
  then have b8: "each_channel (\<lambda>c. real (unat c)) (cs8 ! 0) = (57 * 257, 107 * 257, 157 * 257)"
    by (simp add: example_raster_def sampled_def each_channel_def)
  obtain lg cs where e: "script_extract_colors_from_image gray16_raster [1, 2, 3] [2, 1, 0] ?m = Inr (lg, cs)"
    using script_extract_total[of "[1, 2, 3]" ?m "[2, 1, 0]" gray16_raster] by auto
  have "r_dtype gray16_raster = UInt16 \<longrightarrow> each_channel (\<lambda>c. real (unat c)) (cs ! 0) =
            sampled gray16_raster [2, 1, 0] [1, 2, 3] 0"
    using gr e by (simp add: gray16_raster_def example_raster_def)
  then have b16: "each_channel (\<lambda>c. real (unat c)) (cs ! 0) = (30000, 30000, 30000)"
    by (simp add: gray16_raster_def example_raster_def sampled_def)
  show ?thesis using a example_sample[of "r_bounds example_raster"] w e8 b8 e b16 by blast
qed

lemma f32_one_half: "round_f32 1.5 = 1.5" "round_f32 (1.5 * 65535) = 98302.5" "round_f32 (3 / 2) = 3 / 2"
  "round_f32 (196605 / 2) = 196605 / 2"
  by (simp_all add: round_f32_def round_float_def float_exponent_def pow2_def round_half_even_def
      Let_def compute_bitlen)

text \<open>
  C5. A 32-bit float raster holding 1.5 at the valid points, which lies outside the
  nominal range: the sampling of \<^verbatim>\<open>colorize_point_cloud\<close> stores \<open>98302 mod 65536 = 32766\<close>
  in every channel and logs no warning, under either promotion of NumPy, while
  \<^verbatim>\<open>extract_colors_from_image\<close> of the script warns and stores the clamped 65535.
\<close>

theorem float_scaling_out_of_range:
  "sample_colors p float_raster
     \<lparr>pc_bounds = r_bounds example_raster, pixel_rows = [2, 1, 0], pixel_cols = [1, 2, 3], valid_mask = [True, True, False]\<rparr> 3
   = Inr ([(INFO, ''DEBUG - Applied float scaling (factor: 65535)'')],
          [(32766, 32766, 32766), (32766, 32766, 32766), (0, 0, 0)])
   \<and> script_extract_colors_from_image float_raster [1, 2, 3] [2, 1, 0] [True, True, False]
   = Inr ([(WARNING, ''Float data may be outside expected 0.0-1.0 range'')],
          [(65535, 65535, 65535), (65535, 65535, 65535), (0, 0, 0)])"
proof -
  have a: "sample_colors p float_raster
     \<lparr>pc_bounds = r_bounds example_raster, pixel_rows = [2, 1, 0], pixel_cols = [1, 2, 3], valid_mask = [True, True, False]\<rparr> 3
   = Inr ([(INFO, ''DEBUG - Applied float scaling (factor: 65535)'')],
          [(32766, 32766, 32766), (32766, 32766, 32766), (0, 0, 0)])"
    by (simp add: sample_colors_def np_min_case bool_index_def float_raster_def example_raster_def read_at_def
      archive_scale_log_def sublist_Cons_right scale_channels_eq replicate3 assign_channels_def
      float_to_uint16_def trunc_def f32_one_half)
  have sc: "script_scaling Float32 [3 / 2, 3 / 2] [3 / 2, 3 / 2] [3 / 2, 3 / 2] =
      ([(WARNING, ''Float data may be outside expected 0.0-1.0 range'')], \<lambda>v. round_f32 (v * 65535))"
    by (simp add: script_scaling_def Let_def)
  have c: "clip_to_uint16 (196605 / 2) = 65535"
    by (simp add: clip_to_uint16_def np_clip_def float_to_uint16_def trunc_def)
  have b: "script_extract_colors_from_image float_raster [1, 2, 3] [2, 1, 0] [True, True, False]
   = Inr ([(WARNING, ''Float data may be outside expected 0.0-1.0 range'')],
          [(65535, 65535, 65535), (65535, 65535, 65535), (0, 0, 0)])"
    by (simp add: script_extract_colors_from_image_def bool_index_def float_raster_def example_raster_def
      read_at_def np_sum_def script_normalize_def sc f32_one_half c assign_channels_def)
  show ?thesis using a b by simp
qed

text \<open>
  C6, as the code has it. For a band count that is neither 1 nor at least 3 the sampling
  of \<^verbatim>\<open>colorize_point_cloud\<close> raises the ValueError for the unsupported number of
  bands, while \<^verbatim>\<open>extract_colors_from_image\<close> of the script returns the colour array of
  zeros. With three or more bands both take bands 1, 2, 3 as red, green, blue at every
  valid point, and with one band both put its value into all three channels (the
  sampling of \<^verbatim>\<open>colorize_point_cloud\<close> is only reached with a valid point, and returns
  colours whenever the scaling of the pixel type does: always, but for 8-bit pixels
  under the weak promotion of NumPy 2).
\<close>

theorem band_count_rule:
  assumes "length rows = length m" and "length cols = length m"
  shows "(r_count ortho \<noteq> 1 \<and> r_count ortho < 3 \<longrightarrow>
            sample_colors p ortho \<lparr>pc_bounds = b, pixel_rows = rows, pixel_cols = cols, valid_mask = m\<rparr> tot
              = Inl (ValueError ''Unsupported number of bands'')
          \<and> (\<exists>lg. script_extract_colors_from_image ortho cols rows m
                = Inr (lg, replicate (length m) (0, 0, 0))))
       \<and> ((r_count ortho = 1 \<or> 3 \<le> r_count ortho) \<and> np_sum m \<noteq> 0 \<longrightarrow>
            (\<not> (r_dtype ortho = UInt8 \<and> p = Weak) \<longrightarrow>
               (\<exists>lg cs. sample_colors p ortho
                   \<lparr>pc_bounds = b, pixel_rows = rows, pixel_cols = cols, valid_mask = m\<rparr> (length m) = Inr (lg, cs)
                 \<and> (\<forall>i < length m. m ! i \<longrightarrow>
                       cs ! i = each_channel (scale_value (r_dtype ortho)) (sampled ortho rows cols i))))
          \<and> (\<exists>lg cs f. script_extract_colors_from_image ortho cols rows m = Inr (lg, cs)
              \<and> (f = to_16bit_range \<or> f = (\<lambda>v. v) \<or> f = (\<lambda>v. round_f32 (v * 65535)))
              \<and> (\<forall>i < length m. m ! i \<longrightarrow>
                    cs ! i = each_channel (\<lambda>v. clip_to_uint16 (f (round_f32 v))) (sampled ortho rows cols i))))"
proof -
  have bad: "sample_colors p ortho \<lparr>pc_bounds = b, pixel_rows = rows, pixel_cols = cols, valid_mask = m\<rparr> tot
              = Inl (ValueError ''Unsupported number of bands'')
          \<and> (\<exists>lg. script_extract_colors_from_image ortho cols rows m
                = Inr (lg, replicate (length m) (0, 0, 0)))"
    if "r_count ortho \<noteq> 1 \<and> r_count ortho < 3"
    using that assms
    by (simp add: sample_colors_def np_min_case script_extract_colors_from_image_def bool_index_def Let_def)
  have good_archive: "\<exists>lg cs. sample_colors p ortho
                \<lparr>pc_bounds = b, pixel_rows = rows, pixel_cols = cols, valid_mask = m\<rparr> (length m) = Inr (lg, cs)
              \<and> (\<forall>i < length m. m ! i \<longrightarrow>
                    cs ! i = each_channel (scale_value (r_dtype ortho)) (sampled ortho rows cols i))"
    if c: "r_count ortho = 1 \<or> 3 \<le> r_count ortho" and nz: "np_sum m \<noteq> 0"
      and ok: "\<not> (r_dtype ortho = UInt8 \<and> p = Weak)"
  proof -
    obtain lg cs where s: "sample_colors p ortho
        \<lparr>pc_bounds = b, pixel_rows = rows, pixel_cols = cols, valid_mask = m\<rparr> (length m) = Inr (lg, cs)"
      using c nz ok assms
      by (auto simp: sample_colors_def np_min_case bool_index_def read_at_empty scale_channels_eq)
    have "\<forall>i < length m. m ! i \<longrightarrow>
            cs ! i = each_channel (scale_value (r_dtype ortho)) (sampled ortho rows cols i)"
      using sample_colors_point(1)[OF s] by simp
    then show ?thesis using s by blast
  qed
  have good_script: "\<exists>lg cs f. script_extract_colors_from_image ortho cols rows m = Inr (lg, cs)
              \<and> (f = to_16bit_range \<or> f = (\<lambda>v. v) \<or> f = (\<lambda>v. round_f32 (v * 65535)))
              \<and> (\<forall>i < length m. m ! i \<longrightarrow>
                    cs ! i = each_channel (\<lambda>v. clip_to_uint16 (f (round_f32 v))) (sampled ortho rows cols i))"
    if c: "r_count ortho = 1 \<or> 3 \<le> r_count ortho"
  proof -
    obtain lg cs where s: "script_extract_colors_from_image ortho cols rows m = Inr (lg, cs)"
      using script_extract_total[OF assms(2,1)] by blast
    show ?thesis
    proof (cases "np_sum m = 0")
      case True
      then have "\<not> m ! i" if "i < length m" for i using np_sum_pos[OF that] by blast
      then show ?thesis using s by blast
    next
      case False
      have c': "3 \<le> r_count ortho \<or> r_count ortho = 1" using c by blast
      from script_extract_points[OF s False c'] obtain f where
        "(r_dtype ortho = UInt8 \<longrightarrow> f = to_16bit_range)
           \<and> (r_dtype ortho = UInt16 \<longrightarrow> f = (\<lambda>v. v))
           \<and> (r_dtype ortho = Float32 \<or> r_dtype ortho = Float64 \<longrightarrow> f = (\<lambda>v. round_f32 (v * 65535)))
           \<and> (f = to_16bit_range \<or> f = (\<lambda>v. v) \<or> f = (\<lambda>v. round_f32 (v * 65535)))
           \<and> (\<forall>i < length m. m ! i \<longrightarrow>
                 cs ! i = each_channel (\<lambda>v. clip_to_uint16 (f (round_f32 v))) (sampled ortho rows cols i))" ..
      then show ?thesis using s by (intro exI[of _ lg] exI[of _ cs] exI[of _ f]) simp
    qed
  qed
  show ?thesis using bad good_archive good_script by blast
qed

theorem band_count_counterexample:
  "script_extract_colors_from_image (example_raster\<lparr>r_count := 2\<rparr>) [1, 2, 3] [2, 1, 0] [True, True, False]
     = Inr ([(INFO, ''Unsupported number of bands in satellite image. Cannot extract color.'')],
            [(0, 0, 0), (0, 0, 0), (0, 0, 0)])"
  by (simp add: script_extract_colors_from_image_def bool_index_def example_raster_def np_sum_def replicate3)

theorem band_count_witness:
  "sample_colors ValueBased (example_raster\<lparr>r_count := 2\<rparr>)
      \<lparr>pc_bounds = r_bounds example_raster, pixel_rows = [2, 1, 0], pixel_cols = [1, 2, 3], valid_mask = [True, True, False]\<rparr> 3
     = Inl (ValueError ''Unsupported number of bands'')
   \<and> (\<exists>lg cs. sample_colors ValueBased example_raster
         \<lparr>pc_bounds = r_bounds example_raster, pixel_rows = [2, 1, 0], pixel_cols = [1, 2, 3], valid_mask = [True, True, False]\<rparr> 3
         = Inr (lg, cs)
       \<and> cs ! 1 = each_channel (scale_value UInt8) (55, 105, 155)
       \<and> cs ! 1 = (14135, 26985, 39835))"
proof -
  let ?m = "[True, True, False]"
  have l: "length [2, 1, 0 :: int] = length ?m" "length [1, 2, 3 :: int] = length ?m" by simp_all
  have n: "length ?m = 3" by simp
  have c2: "r_count (example_raster\<lparr>r_count := 2\<rparr>) \<noteq> 1 \<and> r_count (example_raster\<lparr>r_count := 2\<rparr>) < 3"
    by simp
  have c3: "(r_count example_raster = 1 \<or> 3 \<le> r_count example_raster) \<and> np_sum ?m \<noteq> 0"
    by (simp add: example_raster_def np_sum_def)
  have ok: "\<not> (r_dtype example_raster = UInt8 \<and> ValueBased = Weak)" by simp
  have a: "sample_colors ValueBased (example_raster\<lparr>r_count := 2\<rparr>)
      \<lparr>pc_bounds = r_bounds example_raster, pixel_rows = [2, 1, 0], pixel_cols = [1, 2, 3], valid_mask = ?m\<rparr> 3
     = Inl (ValueError ''Unsupported number of bands'')"
    using band_count_rule[OF l, of "example_raster\<lparr>r_count := 2\<rparr>" ValueBased "r_bounds example_raster" 3] c2
    by blast
  from band_count_rule[OF l, of example_raster ValueBased "r_bounds example_raster" 3, unfolded n] c3 ok
  obtain lg cs where
    s: "sample_colors ValueBased example_raster
         \<lparr>pc_bounds = r_bounds example_raster, pixel_rows = [2, 1, 0], pixel_cols = [1, 2, 3], valid_mask = ?m\<rparr> 3 = Inr (lg, cs)"
    and p: "\<forall>i < 3. ?m ! i \<longrightarrow>
              cs ! i = each_channel (scale_value (r_dtype example_raster)) (sampled example_raster [2, 1, 0] [1, 2, 3] i)"
    by blast
  have "cs ! 1 = each_channel (scale_value (r_dtype example_raster)) (sampled example_raster [2, 1, 0] [1, 2, 3] 1)"
    using p by simp
  then have c: "cs ! 1 = each_channel (scale_value UInt8) (55, 105, 155)"
    by (simp add: example_raster_def sampled_def)
  then have "cs ! 1 = (14135, 26985, 39835)"
    by (simp add: each_channel_def int_to_uint16_def)
  then show ?thesis using a s c by blast
qed

section \<open>What is written, the CRS rules and the fallback scaling\<close>

lemma grow_points_same: "n \<le> num_points las \<Longrightarrow> grow_points n las = las"
proof -
  assume "n \<le> num_points las"
  then have k: "n - num_points las = 0" by simp
  have d: "(\<lambda>name. map_option (\<lambda>col. col @ replicate 0 0) (las_dims las name)) = las_dims las"
    by (rule ext) (simp add: option.map_ident)
  show ?thesis unfolding grow_points_def Let_def k d by simp
qed

lemma script_save_rgb:
  assumes "format_has_rgb (h_point_format (las_header las))" and "length cs = num_points las"
  shows "script_save_colorized_point_cloud las cs =
         Inr (las\<lparr>las_red := map fst cs, las_green := map (\<lambda>c. fst (snd c)) cs,
                   las_blue := map (\<lambda>c. snd (snd c)) cs\<rparr>)"
  using assms by (simp add: script_save_colorized_point_cloud_def grow_points_same broadcast_to_def)

text \<open>
  C3, as the code has it. \<^verbatim>\<open>save_colorized_point_cloud\<close> of the class writes exactly the
  points whose mask entry is true: their number is the number of true entries, and the
  coordinates and the colours are those of the selected input points, in order. The
  output has the point format of the input when that has colours and format 2 otherwise.
  Of its dimensions, the seven that the code names are copied from the selected input
  points when the input has them; every other dimension of the output format is zero,
  and a dimension that the output format lacks is lost.
  \<^verbatim>\<open>save_colorized_point_cloud\<close> of the script takes no mask: for an input whose point format
  has colours it writes every input point with all its point data and the new colours,
  and for an input whose point format has none it raises ValueError and writes nothing.
\<close>

theorem saved_point_cloud:
  "(\<forall>out. save_colorized_point_cloud w las cs m = Inr out \<longrightarrow>
       num_points out = np_sum m
     \<and> h_point_format (las_header out) =
         (if h_point_format (las_header las) \<in> rgb_supported_formats
          then h_point_format (las_header las) else 2)
     \<and> h_extra_dims (las_header out) =
         (if h_point_format (las_header las) \<in> rgb_supported_formats
          then h_extra_dims (las_header las) else [])
     \<and> las_x out = nths (las_x las) (selected m)
     \<and> las_y out = nths (las_y las) (selected m)
     \<and> las_z out = nths (las_z las) (selected m)
     \<and> (\<forall>a. las_dims out a =
          (if a \<in> set (point_dimensions (las_header out))
           then Some (if a \<in> set attributes_to_copy \<and> las_dims las a \<noteq> None
                      then nths (the (las_dims las a)) (selected m)
                      else replicate (np_sum m) 0)
           else None))
     \<and> las_red out = map fst (nths cs (selected m))
     \<and> las_green out = map (\<lambda>c. fst (snd c)) (nths cs (selected m))
     \<and> las_blue out = map (\<lambda>c. snd (snd c)) (nths cs (selected m)))
   \<and> (format_has_rgb (h_point_format (las_header las)) \<and> length cs = num_points las \<longrightarrow>
        script_save_colorized_point_cloud las cs =
          Inr (las\<lparr>las_red := map fst cs, las_green := map (\<lambda>c. fst (snd c)) cs,
                    las_blue := map (\<lambda>c. snd (snd c)) cs\<rparr>))
   \<and> (\<not> format_has_rgb (h_point_format (las_header las)) \<longrightarrow>
        script_save_colorized_point_cloud las cs =
          Inl (ValueError ''Point format does not support red dimension''))"
proof -
  have script: "script_save_colorized_point_cloud las cs =
          Inl (ValueError ''Point format does not support red dimension'')"
    if "\<not> format_has_rgb (h_point_format (las_header las))"
    using that by (simp add: script_save_colorized_point_cloud_def)
  show ?thesis
    using save_colorized_point_cloud_Inr[of w las cs m] script_save_rgb[of las cs] script
    by (intro conjI allI impI) blast+
qed

lemma rgb_las_fields:
  "las_header rgb_las = example_header\<lparr>h_point_format := 3\<rparr>"
  "las_x rgb_las = [1, 2, 3]" "las_y rgb_las = [4, 5, 6]" "las_z rgb_las = [7, 8, 9]"
  "las_dims rgb_las = example_dims" "num_points rgb_las = 3"
  "format_has_rgb (h_point_format (las_header rgb_las))"
  "\<not> format_has_rgb (h_point_format (las_header example_las))"
  by (simp_all add: rgb_las_def example_las_def example_header_def num_points_def format_has_rgb_def)

theorem saved_point_cloud_witness:
  "(\<exists>out. save_colorized_point_cloud example_world example_las
             [(14649, 27499, 40349), (14135, 26985, 39835), (0, 0, 0)] [True, True, False] = Inr out
     \<and> num_points out = 2 \<and> h_point_format (las_header out) = 2 \<and> las_x out = [1, 2]
     \<and> las_dims out ''intensity'' = Some [10, 20]
     \<and> las_dims out ''scan_direction_flag'' = Some [0, 0]
     \<and> las_red out = [14649, 14135])
   \<and> script_save_colorized_point_cloud rgb_las [(14649, 27499, 40349), (14135, 26985, 39835), (0, 0, 0)] =
       Inr (rgb_las\<lparr>las_red := [14649, 14135, 0], las_green := [27499, 26985, 0],
                    las_blue := [40349, 39835, 0]\<rparr>)
   \<and> script_save_colorized_point_cloud example_las [(14649, 27499, 40349), (14135, 26985, 39835), (0, 0, 0)] =
       Inl (ValueError ''Point format does not support red dimension'')"
proof -
  let ?cs = "[(14649, 27499, 40349), (14135, 26985, 39835), (0, 0, 0)] :: colors"
  obtain out where s: "save_colorized_point_cloud example_world example_las ?cs [True, True, False] = Inr out"
    using example_save[of ?cs] by auto
  note th = saved_point_cloud[of example_world example_las ?cs "[True, True, False]"]
  have f: "h_point_format (las_header example_las) \<notin> rgb_supported_formats"
    by (simp add: rgb_supported_formats_def example_las_fields example_header_def)
  have "h_point_format (las_header out) =
         (if h_point_format (las_header example_las) \<in> rgb_supported_formats
          then h_point_format (las_header example_las) else 2)"
    "h_extra_dims (las_header out) =
         (if h_point_format (las_header example_las) \<in> rgb_supported_formats
          then h_extra_dims (las_header example_las) else [])"
    using th s by blast+
  then have h: "h_point_format (las_header out) = 2" "h_extra_dims (las_header out) = []"
    using f by simp_all
  have pd: "point_dimensions (las_header out) = base_dimensions"
    by (simp add: point_dimensions_def h format_dimensions_def)
  have "num_points out = np_sum [True, True, False]"
    "las_x out = nths (las_x example_las) (selected [True, True, False])"
    "las_red out = map fst (nths ?cs (selected [True, True, False]))"
    using th s by blast+
  then have a: "num_points out = 2 \<and> las_x out = [1, 2] \<and> las_red out = [14649, 14135]"
    by (simp add: nths_example example_las_fields np_sum_def)
  have d: "las_dims out a =
          (if a \<in> set base_dimensions
           then Some (if a \<in> set attributes_to_copy \<and> example_dims a \<noteq> None
                      then nths (the (example_dims a)) (selected [True, True, False])
                      else replicate (np_sum [True, True, False]) 0)
           else None)" for a
    using th s unfolding pd[symmetric] example_las_fields(5)[symmetric] by blast
  have i: "las_dims out ''intensity'' = Some [10, 20]"
    unfolding d by (simp add: base_dimensions_def attributes_to_copy_def example_dims_copied nths_example)
  have e: "las_dims out ''scan_direction_flag'' = Some [0, 0]"
    unfolding d by (simp add: base_dimensions_def attributes_to_copy_def np_sum_def numeral_2_eq_2)
  have "format_has_rgb (h_point_format (las_header rgb_las)) \<and> length ?cs = num_points rgb_las"
    by (simp add: rgb_las_fields format_has_rgb_def)
  then have "script_save_colorized_point_cloud rgb_las ?cs =
       Inr (rgb_las\<lparr>las_red := map fst ?cs, las_green := map (\<lambda>c. fst (snd c)) ?cs,
                    las_blue := map (\<lambda>c. snd (snd c)) ?cs\<rparr>)"
    using saved_point_cloud[of example_world rgb_las ?cs "[True, True, False]"] by blast
  then have r: "script_save_colorized_point_cloud rgb_las ?cs =
       Inr (rgb_las\<lparr>las_red := [14649, 14135, 0], las_green := [27499, 26985, 0],
                    las_blue := [40349, 39835, 0]\<rparr>)"
    by simp
  have n: "script_save_colorized_point_cloud example_las ?cs =
       Inl (ValueError ''Point format does not support red dimension'')"
    using th rgb_las_fields(8) by blast
  show ?thesis using s a h(1) i e r n by blast
qed

lemma rgb_script_convert:
  "script_convert_point_cloud_to_image_coordinates example_world rgb_las example_raster None 0 0
     = Inr ([1, 2, 3], [2, 1, 0], [True, True, False])"
proof -
  have t: "script_transform_coordinates example_world rgb_las ''EPSG:26913'' None
      = Inr [(11, 24), (12, 25), (13, 26)]"
    by (simp add: script_transform_coordinates_def script_identify_point_cloud_crs_def
        header_crs_attribute_def rgb_las_fields
        example_world_fields transformer_transform_def example_transformer_def column_stack_def)
  have r: "r_crs example_raster = Some ''EPSG:26913''" by (simp add: example_raster_def)
  show ?thesis
    by (simp add: script_convert_point_cloud_to_image_coordinates_def r t example_world_fields)
       (simp add: example_raster_def example_rowcol_def valid_pixels_def)
qed

text \<open>
  The script on three points in point format 3, two of them on the raster, writes three
  points. The class on the same points in point format 1 writes the two valid points in
  point format 2: the flag \<^verbatim>\<open>edge_of_flight_line\<close>, 0 and 1 at these points, is 0 at both in
  the output, and the GPS time is gone.
\<close>

theorem saved_point_cloud_counterexample:
  "script_convert_point_cloud_to_image_coordinates example_world rgb_las example_raster None 0 0
     = Inr ([1, 2, 3], [2, 1, 0], [True, True, False])
   \<and> np_sum [True, True, False] = 2
   \<and> map_sum id (map_prod id (map_option num_points))
        (script_main example_world rgb_las example_raster False 0 0) = Inr (0, Some 3)
   \<and> map_option (\<lambda>col. nths col (selected [True, True, False])) (las_dims example_las ''edge_of_flight_line'')
       = Some [0, 1]
   \<and> las_dims example_las ''gps_time'' = Some [100.5, 100.75, 101]
   \<and> map_sum id (\<lambda>out. (las_dims out ''edge_of_flight_line'', las_dims out ''gps_time''))
        (save_colorized_point_cloud example_world example_las
           [(14649, 27499, 40349), (14135, 26985, 39835), (0, 0, 0)] [True, True, False])
       = Inr (Some [0, 0], None)"
proof -
  let ?cs = "[(14649, 27499, 40349), (14135, 26985, 39835), (0, 0, 0)] :: colors"
  obtain lg cs where e: "script_extract_colors_from_image example_raster [1, 2, 3] [2, 1, 0] [True, True, False]
      = Inr (lg, cs)"
    using script_extract_total[of "[1, 2, 3]" "[True, True, False]" "[2, 1, 0]" example_raster] by auto
  have lc: "length cs = 3"
    using e by (auto simp: script_extract_colors_from_image_def bool_index_def np_sum_def Let_def
        script_normalize_def assign_channels_def length_mask_assign example_raster_def)
  have n: "np_sum [True, True, False] = 2" by (simp add: np_sum_def)
  have sv: "script_save_colorized_point_cloud rgb_las cs =
         Inr (rgb_las\<lparr>las_red := map fst cs, las_green := map (\<lambda>c. fst (snd c)) cs,
                   las_blue := map (\<lambda>c. snd (snd c)) cs\<rparr>)"
    by (rule script_save_rgb) (simp_all add: rgb_las_fields lc format_has_rgb_def)
  have "script_main example_world rgb_las example_raster False 0 0
      = Inr (0, Some (rgb_las\<lparr>las_red := map fst cs, las_green := map (\<lambda>c. fst (snd c)) cs,
                   las_blue := map (\<lambda>c. snd (snd c)) cs\<rparr>))"
    by (simp add: script_main_def rgb_script_convert n e sv)
  then have script: "map_sum id (map_prod id (map_option num_points))
        (script_main example_world rgb_las example_raster False 0 0) = Inr (0, Some 3)"
    by (simp add: num_points_def rgb_las_fields)
  have dims: "map_option (\<lambda>col. nths col (selected [True, True, False])) (las_dims example_las ''edge_of_flight_line'')
       = Some [0, 1]"
    "las_dims example_las ''gps_time'' = Some [100.5, 100.75, 101]"
    by (simp_all add: example_las_fields example_dims_copied nths_example)
  obtain out where s: "save_colorized_point_cloud example_world example_las ?cs [True, True, False] = Inr out"
    using example_save[of ?cs] by auto
  have f: "h_point_format (las_header example_las) \<notin> rgb_supported_formats"
    by (simp add: rgb_supported_formats_def example_las_fields example_header_def)
  have h: "h_point_format (las_header out) = 2" "h_extra_dims (las_header out) = []"
    using save_colorized_point_cloud_Inr[OF s] f by simp_all
  have pd: "point_dimensions (las_header out) = base_dimensions"
    by (simp add: point_dimensions_def h format_dimensions_def)
  have d: "las_dims out a =
          (if a \<in> set base_dimensions
           then Some (if a \<in> set attributes_to_copy \<and> example_dims a \<noteq> None
                      then nths (the (example_dims a)) (selected [True, True, False])
                      else replicate (np_sum [True, True, False]) 0)
           else None)" for a
    using save_colorized_point_cloud_Inr[OF s] unfolding pd[symmetric] example_las_fields(5)[symmetric] by blast
  have "las_dims out ''edge_of_flight_line'' = Some [0, 0]" "las_dims out ''gps_time'' = None"
    unfolding d by (simp_all add: base_dimensions_def attributes_to_copy_def np_sum_def numeral_2_eq_2)
  then have archive: "map_sum id (\<lambda>out. (las_dims out ''edge_of_flight_line'', las_dims out ''gps_time''))
        (save_colorized_point_cloud example_world example_las ?cs [True, True, False])
       = Inr (Some [0, 0], None)"
    unfolding s by simp
  show ?thesis using rgb_script_convert n script dims archive by (intro conjI)
qed

text \<open>
  C2, as the code has it. For a point cloud without a detected CRS and without an
  override, \<^verbatim>\<open>transform_point_cloud_to_ortho_crs\<close> decides on the minima of x and y (and the
  maximum of y for Web Mercator): it tests the Web Mercator range first, then the
  geographic range of the minima, then the UTM-like range, and raises the ValueError for
  an undetermined CRS exactly when none of the three holds. The three tests exclude one
  another, so each CRS is returned exactly on its own range. \<^verbatim>\<open>identify_point_cloud_crs\<close> of
  the script applies no range rule and never fails: it finds no attribute \<^verbatim>\<open>crs\<close> on the
  header and returns EPSG:2232.
\<close>

theorem crs_resolution_rules:
  assumes "detect_point_cloud_crs w las = None" and "las_x las \<noteq> []" and "las_y las \<noteq> []"
  shows "(let x_min = Min (set (las_x las)); y_min = Min (set (las_y las)); y_max = Max (set (las_y las));
              r = resolve_source_crs w las None
          in (r = Inr ''EPSG:3857'' \<longleftrightarrow>
                x_min < - 1000000 \<and> \<bar>x_min\<bar> < 20037508 \<and> y_min > 1000000 \<and> y_max < 20037508)
           \<and> (r = Inr ''EPSG:4326'' \<longleftrightarrow> - 180 \<le> x_min \<and> x_min \<le> 180 \<and> - 90 \<le> y_min \<and> y_min \<le> 90)
           \<and> (r = Inr ''EPSG:26913'' \<longleftrightarrow>
                100000 < x_min \<and> x_min < 900000 \<and> 1000000 < y_min \<and> y_min < 10000000)
           \<and> (r = Inl (ValueError ''Cannot determine point cloud CRS'') \<longleftrightarrow>
                \<not> (x_min < - 1000000 \<and> \<bar>x_min\<bar> < 20037508 \<and> y_min > 1000000 \<and> y_max < 20037508)
              \<and> \<not> (- 180 \<le> x_min \<and> x_min \<le> 180 \<and> - 90 \<le> y_min \<and> y_min \<le> 90)
              \<and> \<not> (100000 < x_min \<and> x_min < 900000 \<and> 1000000 < y_min \<and> y_min < 10000000)))
         \<and> script_identify_point_cloud_crs las = ''EPSG:2232''"
proof -
  have r: "resolve_source_crs w las None =
      range_fallback_crs (Min (set (las_x las))) (Max (set (las_x las)))
        (Min (set (las_y las))) (Max (set (las_y las)))"
    using assms by (simp add: resolve_source_crs_def np_min_def np_max_def)
  show ?thesis
    unfolding Let_def r range_fallback_crs_def
    by (auto simp: script_identify_point_cloud_crs_def header_crs_attribute_def)
qed

lemma wide_resolve: "resolve_source_crs example_world wide_las None = Inr ''EPSG:4326''"
  by (simp add: resolve_source_crs_def example_world_fields wide_las_def example_las_def example_header_def
      np_min_def np_max_def range_fallback_crs_def)

theorem crs_resolution_witness:
  "resolve_source_crs example_world wide_las None = Inr ''EPSG:4326''
   \<and> script_identify_point_cloud_crs wide_las = ''EPSG:2232''"
proof -
  have d: "detect_point_cloud_crs example_world wide_las = None"
    by (simp add: example_world_fields wide_las_def example_las_def example_header_def)
  have x: "las_x wide_las \<noteq> []" "las_y wide_las \<noteq> []" by (simp_all add: wide_las_def)
  have m: "Min (set (las_x wide_las)) = 0" "Min (set (las_y wide_las)) = 0"
    by (simp_all add: wide_las_def)
  show ?thesis
    using crs_resolution_rules[OF d x] unfolding Let_def m by simp
qed

theorem crs_resolution_counterexample:
  "resolve_source_crs example_world wide_las None = Inr ''EPSG:4326''
   \<and> \<not> geographic_looking (las_x wide_las) (las_y wide_las)
   \<and> resolve_source_crs example_world remote_las None = Inl (ValueError ''Cannot determine point cloud CRS'')
   \<and> script_identify_point_cloud_crs remote_las = ''EPSG:2232''"
  by (simp add: resolve_source_crs_def example_world_fields wide_las_def remote_las_def example_las_def
      example_header_def np_min_def np_max_def range_fallback_crs_def geographic_looking_def
      script_identify_point_cloud_crs_def header_crs_attribute_def)

text \<open>
  C10. In the scaling of bounds onto bounds of \<^verbatim>\<open>transform_coordinates\<close>, reached when pyproj
  raises and no custom function is given, every non-empty pair of coordinate arrays
  yields an array of N rows and two columns: an axis whose maximum equals its minimum
  gets the scale factor 1 and no quotient with a zero divisor is formed.
\<close>

theorem fallback_scaling_total:
  assumes "las_x las \<noteq> []" and "length (las_y las) = length (las_x las)"
  shows "(let min_x = Min (set (las_x las)); max_x = Max (set (las_x las));
              min_y = Min (set (las_y las)); max_y = Max (set (las_y las));
              x_scale = (if max_x = min_x then 1 else (target_max_x - target_min_x) / (max_x - min_x));
              y_scale = (if max_y = min_y then 1 else (target_max_y - target_min_y) / (max_y - min_y))
          in bounds_to_bounds_scaling (las_x las) (las_y las) =
               Inr (zip (map (\<lambda>x. target_min_x + (x - min_x) * x_scale) (las_x las))
                        (map (\<lambda>y. target_min_y + (y - min_y) * y_scale) (las_y las))))
       \<and> (\<exists>coords. bounds_to_bounds_scaling (las_x las) (las_y las) = Inr coords
             \<and> length coords = length (las_x las))
       \<and> (\<forall>e. make_transformer w (script_identify_point_cloud_crs las) target = Inl e \<longrightarrow>
             script_transform_coordinates w las target None = bounds_to_bounds_scaling (las_x las) (las_y las))"
proof -
  have ne: "las_y las \<noteq> []" using assms by auto
  have eq: "bounds_to_bounds_scaling (las_x las) (las_y las) =
      Inr (zip (map (\<lambda>x. target_min_x + (x - Min (set (las_x las))) *
                    (if Max (set (las_x las)) = Min (set (las_x las)) then 1
                     else (target_max_x - target_min_x) / (Max (set (las_x las)) - Min (set (las_x las)))))
                (las_x las))
               (map (\<lambda>y. target_min_y + (y - Min (set (las_y las))) *
                    (if Max (set (las_y las)) = Min (set (las_y las)) then 1
                     else (target_max_y - target_min_y) / (Max (set (las_y las)) - Min (set (las_y las)))))
                (las_y las)))"
    using assms ne
    by (simp add: bounds_to_bounds_scaling_def np_min_def np_max_def checked_div_def column_stack_def)
  have len: "\<exists>coords. bounds_to_bounds_scaling (las_x las) (las_y las) = Inr coords
             \<and> length coords = length (las_x las)"
    unfolding eq using assms by simp
  have route: "script_transform_coordinates w las target None = bounds_to_bounds_scaling (las_x las) (las_y las)"
    if "make_transformer w (script_identify_point_cloud_crs las) target = Inl e" for e
    using that by (simp add: script_transform_coordinates_def Let_def)
  show ?thesis unfolding Let_def using eq len route by blast
qed

theorem fallback_scaling_witness:
  "script_transform_coordinates failing_world flat_las ''EPSG:26913'' None
     = Inr [(target_min_x, target_min_y), (target_min_x, target_max_y)]"
proof -
  have x: "las_x flat_las \<noteq> []" "length (las_y flat_las) = length (las_x flat_las)"
    by (simp_all add: flat_las_def)
  have m: "make_transformer failing_world (script_identify_point_cloud_crs flat_las) ''EPSG:26913'' = Inl ProjError"
    by (simp add: failing_world_def)
  have "script_transform_coordinates failing_world flat_las ''EPSG:26913'' None =
      Inr (zip (map (\<lambda>x. target_min_x + (x - 5) * 1) [5, 5])
               (map (\<lambda>y. target_min_y + (y - 1) * ((target_max_y - target_min_y) / 2)) [1, 3]))"
    using fallback_scaling_total[OF x, of failing_world "''EPSG:26913''"] m
    by (simp add: flat_las_def Let_def)
  then show ?thesis by (simp add: field_simps)
qed

end
